theory Spec2Isabelle
  imports Complex_Main
begin

section \<open>The schema module \<open>python_magnetdb/models.py\<close>\<close>

text \<open>
  The module is a sequence of class statements. Each class names its bases, may pass
  \<open>table=True\<close>, and has a body of annotated attributes. The classes are written
  below as data, one definition per class statement and in the order of the module, and
  are given their meaning by the functions of the next sections: how a class statement
  collects its fields, how a shape is built from a payload, and what the declared keys
  and relationships mean for stored rows.
\<close>

subsection \<open>Annotations, values and class statements\<close>

text \<open>
  An annotation. \<open>AName\<close> is a class referred to by its name (\<open>List[MSite]\<close>), which
  must be bound when the class statement runs; \<open>AFwd\<close> is a forward reference written
  as a string (\<open>List["Magnet"]\<close>).
\<close>

datatype ann = AStr | AFloat | AInt | AOptional ann | AList ann | AName string | AFwd string

text \<open>
  Values. Floats are only carried, never computed with. An object is its attributes
  in order.
\<close>

datatype pyval = PNone | PInt int | PFloat real | PStr string | PList "pyval list"
  | PObj "(string \<times> pyval) list"

text \<open>
  The right-hand side of an annotated attribute: nothing, a plain value, a call
  \<open>Field(default=\<dots>, primary_key=\<dots>, foreign_key=\<dots>)\<close> or a call
  \<open>Relationship(back_populates=\<dots>, link_model=\<dots>)\<close>.
\<close>

datatype rhs = NoValue | Plain pyval | FieldCall "pyval option" bool "string option"
  | RelationshipCall string string

datatype stmt = Ann string ann rhs

text \<open>A class statement: name, bases, the \<open>table\<close> keyword, body.\<close>

datatype classdef = Class string "string list" bool "stmt list"

subsection \<open>The class statements of the module, in order\<close>

definition MaterialBase :: classdef where
  "MaterialBase = Class ''MaterialBase'' [''SQLModel''] False
     [Ann ''name'' AStr NoValue,
      Ann ''Tref'' AFloat NoValue,
      Ann ''VolumicMass'' AFloat NoValue,
      Ann ''SpecificHeat'' AFloat NoValue,
      Ann ''alpha'' (AOptional AFloat) (Plain (PInt 0)),
      Ann ''ElectricalConductivity'' (AOptional AFloat) (Plain (PInt 0)),
      Ann ''ThermalConductivity'' AFloat NoValue,
      Ann ''MagnetPermeability'' AFloat NoValue,
      Ann ''Young'' AFloat NoValue,
      Ann ''Poisson'' AFloat NoValue,
      Ann ''CoefDilatation'' AFloat NoValue,
      Ann ''ref'' (AOptional AStr) (Plain PNone)]"

definition Material :: classdef where
  "Material = Class ''Material'' [''MaterialBase''] True
     [Ann ''id'' (AOptional AInt) (FieldCall (Some PNone) True None)]"

definition MaterialCreate :: classdef where
  "MaterialCreate = Class ''MaterialCreate'' [''MaterialBase''] False []"

definition MaterialRead :: classdef where
  "MaterialRead = Class ''MaterialRead'' [''MaterialBase''] False
     [Ann ''id'' AInt NoValue]"

definition MaterialUpdate :: classdef where
  "MaterialUpdate = Class ''MaterialUpdate'' [''SQLModel''] False
     [Ann ''name'' AStr NoValue,
      Ann ''Tref'' AFloat NoValue,
      Ann ''VolumicMass'' AFloat NoValue,
      Ann ''SpecificHeat'' AFloat NoValue,
      Ann ''alpha'' (AOptional AFloat) (Plain (PInt 0)),
      Ann ''ElectricalConductivity'' (AOptional AFloat) (Plain (PInt 0)),
      Ann ''ThermalConductivity'' AFloat NoValue,
      Ann ''MagnetPermeability'' AFloat NoValue,
      Ann ''Young'' AFloat NoValue,
      Ann ''Poisson'' AFloat NoValue,
      Ann ''CoefDilatation'' AFloat NoValue,
      Ann ''ref'' (AOptional AStr) (Plain PNone)]"

definition MPartMagnetLink :: classdef where
  "MPartMagnetLink = Class ''MPartMagnetLink'' [''SQLModel''] True
     [Ann ''magnet_id'' (AOptional AInt) (FieldCall (Some PNone) True (Some ''magnet.id'')),
      Ann ''mpart_id'' (AOptional AInt) (FieldCall (Some PNone) True (Some ''mpart.id''))]"

definition MagnetMSiteLink :: classdef where
  "MagnetMSiteLink = Class ''MagnetMSiteLink'' [''SQLModel''] True
     [Ann ''magnet_id'' (AOptional AInt) (FieldCall (Some PNone) True (Some ''magnet.id'')),
      Ann ''msite_id'' (AOptional AInt) (FieldCall (Some PNone) True (Some ''msite.id''))]"

definition MSiteBase :: classdef where
  "MSiteBase = Class ''MSiteBase'' [''SQLModel''] False
     [Ann ''name'' AStr NoValue,
      Ann ''conffile'' AStr NoValue,
      Ann ''status'' AStr NoValue]"

definition MSite :: classdef where
  "MSite = Class ''MSite'' [''MSiteBase''] True
     [Ann ''id'' (AOptional AInt) (FieldCall (Some PNone) True None),
      Ann ''magnets'' (AList (AFwd ''Magnet''))
        (RelationshipCall ''msites'' ''MagnetMSiteLink'')]"

definition MSiteRead :: classdef where
  "MSiteRead = Class ''MSiteRead'' [''MSiteBase''] False
     [Ann ''id'' AInt NoValue]"

definition MSiteCreate :: classdef where
  "MSiteCreate = Class ''MSiteCreate'' [''MSiteBase''] False []"

definition MSiteUpdate :: classdef where
  "MSiteUpdate = Class ''MSiteUpdate'' [''SQLModel''] False
     [Ann ''name'' AStr NoValue,
      Ann ''conffile'' AStr NoValue,
      Ann ''status'' AStr NoValue,
      Ann ''magnets'' (AList (AFwd ''Magnet'')) (Plain (PList []))]"

definition MagnetBase :: classdef where
  "MagnetBase = Class ''MagnetBase'' [''SQLModel''] False
     [Ann ''name'' AStr NoValue,
      Ann ''be'' AStr NoValue,
      Ann ''geom'' AStr NoValue,
      Ann ''status'' AStr NoValue]"

definition Magnet :: classdef where
  "Magnet = Class ''Magnet'' [''MagnetBase''] True
     [Ann ''id'' (AOptional AInt) (FieldCall (Some PNone) True None),
      Ann ''msites'' (AList (AName ''MSite''))
        (RelationshipCall ''magnets'' ''MagnetMSiteLink''),
      Ann ''mparts'' (AList (AFwd ''MPart''))
        (RelationshipCall ''magnets'' ''MPartMagnetLink'')]"

definition MagnetRead :: classdef where
  "MagnetRead = Class ''MagnetRead'' [''MagnetBase''] False
     [Ann ''id'' AInt NoValue]"

definition MagnetCreate :: classdef where
  "MagnetCreate = Class ''MagnetCreate'' [''MagnetBase''] False []"

definition MagnetUpdate :: classdef where
  "MagnetUpdate = Class ''MagnetUpdate'' [''SQLModel''] False
     [Ann ''name'' AStr NoValue,
      Ann ''be'' AStr NoValue,
      Ann ''geom'' AStr NoValue,
      Ann ''status'' AStr NoValue,
      Ann ''msites'' (AList (AName ''MSite'')) (Plain (PList [])),
      Ann ''mparts'' (AList (AFwd ''MPart'')) (Plain (PList []))]"

definition MPartBase :: classdef where
  "MPartBase = Class ''MPartBase'' [''SQLModel''] False
     [Ann ''name'' AStr NoValue,
      Ann ''type'' AStr NoValue,
      Ann ''be'' AStr NoValue,
      Ann ''geom'' AStr NoValue,
      Ann ''status'' AStr NoValue,
      Ann ''material_id'' (AOptional AInt) (FieldCall (Some PNone) False (Some ''material.id''))]"

definition MPart :: classdef where
  "MPart = Class ''MPart'' [''MPartBase''] True
     [Ann ''id'' (AOptional AInt) (FieldCall (Some PNone) True None),
      Ann ''magnets'' (AList (AName ''Magnet''))
        (RelationshipCall ''mparts'' ''MPartMagnetLink'')]"

definition MPartRead :: classdef where
  "MPartRead = Class ''MPartRead'' [''MPartBase''] False
     [Ann ''id'' AInt NoValue]"

definition MPartCreate :: classdef where
  "MPartCreate = Class ''MPartCreate'' [''MPartBase''] False []"

definition MPartUpdate :: classdef where
  "MPartUpdate = Class ''MPartUpdate'' [''SQLModel''] False
     [Ann ''name'' AStr NoValue,
      Ann ''type'' AStr NoValue,
      Ann ''be'' AStr NoValue,
      Ann ''geom'' AStr NoValue,
      Ann ''status'' AStr NoValue,
      Ann ''material_id'' (AOptional AInt) (Plain PNone),
      Ann ''magnets'' (AList (AName ''Magnet'')) (Plain (PList []))]"

definition MPartReadWithMagnet :: classdef where
  "MPartReadWithMagnet = Class ''MPartReadWithMagnet'' [''MPartRead''] False
     [Ann ''magnets'' (AList (AName ''MagnetRead'')) (Plain (PList []))]"

definition MagnetReadWithMParts :: classdef where
  "MagnetReadWithMParts = Class ''MagnetReadWithMParts'' [''MagnetRead''] False
     [Ann ''mparts'' (AList (AName ''MPartRead'')) (Plain (PList []))]"

definition MagnetReadWithMSite :: classdef where
  "MagnetReadWithMSite = Class ''MagnetReadWithMSite'' [''MagnetRead''] False
     [Ann ''msites'' (AList (AName ''MSiteRead'')) (Plain (PList []))]"

definition MSiteReadWithMagnets :: classdef where
  "MSiteReadWithMagnets = Class ''MSiteReadWithMagnets'' [''MSiteRead''] False
     [Ann ''magnets'' (AList (AName ''MagnetRead'')) (Plain (PList []))]"

definition MRecordBase :: classdef where
  "MRecordBase = Class ''MRecordBase'' [''SQLModel''] False
     [Ann ''id'' (AOptional AInt) (FieldCall (Some PNone) True None),
      Ann ''timestamp'' AStr NoValue,
      Ann ''name'' AStr NoValue,
      Ann ''msite_id'' (AOptional AInt) (FieldCall (Some PNone) False (Some ''msite.id''))]"

definition MRecord :: classdef where
  "MRecord = Class ''MRecord'' [''MRecordBase''] True
     [Ann ''id'' (AOptional AInt) (FieldCall (Some PNone) True None)]"

definition MRecordRead :: classdef where
  "MRecordRead = Class ''MRecordRead'' [''MRecordBase''] False
     [Ann ''id'' AInt NoValue]"

definition MRecordCreate :: classdef where
  "MRecordCreate = Class ''MRecordCreate'' [''MRecordBase''] False []"

definition MRecordUpdate :: classdef where
  "MRecordUpdate = Class ''MRecordUpdate'' [''SQLModel''] False
     [Ann ''timestamp'' AStr NoValue,
      Ann ''name'' AStr NoValue,
      Ann ''msite_id'' (AOptional AInt) (Plain PNone)]"

definition models :: "classdef list" where
  "models =
     [MaterialBase, Material, MaterialCreate, MaterialRead, MaterialUpdate,
      MPartMagnetLink, MagnetMSiteLink,
      MSiteBase, MSite, MSiteRead, MSiteCreate, MSiteUpdate,
      MagnetBase, Magnet, MagnetRead, MagnetCreate, MagnetUpdate,
      MPartBase, MPart, MPartRead, MPartCreate, MPartUpdate,
      MPartReadWithMagnet, MagnetReadWithMParts, MagnetReadWithMSite, MSiteReadWithMagnets,
      MRecordBase, MRecord, MRecordRead, MRecordCreate, MRecordUpdate]"

section \<open>What the class statements build\<close>

subsection \<open>Fields, relationships and models\<close>

text \<open>
  A field of a model as the class statement records it: its name, annotation, default
  (\<open>None\<close> when the field is required) and the two column options of \<open>Field\<close>.
\<close>

record field =
  f_name :: string
  f_ann :: ann
  f_default :: "pyval option"
  f_pk :: bool
  f_fk :: "string option"

record relationship =
  r_name :: string
  r_ann :: ann
  r_back_populates :: string
  r_link_model :: string

record model =
  m_bases :: "string list"
  m_table :: bool
  m_fields :: "field list"
  m_rels :: "relationship list"

type_synonym env = "(string \<times> model) list"

text \<open>
  The errors of the model. \<open>Unmodelled\<close> is not an exception of the program: it marks a
  payload whose validation needs a conversion the model does not compute (see
  \<open>validate\<close> below), and no statement of this theory concludes it.
\<close>

datatype py_error = NameError string | ValidationError string | ConfigError string
  | Unmodelled string

fun is_optional :: "ann \<Rightarrow> bool" where
  "is_optional (AOptional _) = True"
| "is_optional _ = False"

text \<open>The names an annotation evaluates when the class body runs.\<close>

fun ann_names :: "ann \<Rightarrow> string list" where
  "ann_names (AOptional a) = ann_names a"
| "ann_names (AList a) = ann_names a"
| "ann_names (AName n) = [n]"
| "ann_names _ = []"

text \<open>
  The classes are built as SQLModel builds them on pydantic 1. An attribute whose value
  is a \<open>Relationship\<close> is taken out of the fields and kept as a relationship of the
  class; every other annotated attribute is a field. A field with no default is
  required, unless its annotation is \<open>Optional\<close>, which makes \<open>None\<close> its default
  (no class of the module relies on this: every \<open>Optional\<close> field is given a default).
\<close>

definition implicit_default :: "ann \<Rightarrow> pyval option" where
  "implicit_default a = (if is_optional a then Some PNone else None)"

text \<open>
  When a class has been built, pydantic tries once to resolve the forward references
  of its fields against the names bound so far; a reference to a class that is bound
  only later stays unresolved (the module never calls \<open>update_forward_refs\<close>).
\<close>

fun resolve :: "(string \<Rightarrow> bool) \<Rightarrow> ann \<Rightarrow> ann" where
  "resolve b (AFwd d) = (if b d then AName d else AFwd d)"
| "resolve b (AOptional a) = AOptional (resolve b a)"
| "resolve b (AList a) = AList (resolve b a)"
| "resolve b a = a"

fun field_of_stmt :: "stmt \<Rightarrow> field option" where
  "field_of_stmt (Ann n a NoValue) =
     Some \<lparr>f_name = n, f_ann = a, f_default = implicit_default a, f_pk = False, f_fk = None\<rparr>"
| "field_of_stmt (Ann n a (Plain v)) =
     Some \<lparr>f_name = n, f_ann = a, f_default = Some v, f_pk = False, f_fk = None\<rparr>"
| "field_of_stmt (Ann n a (FieldCall d pk fk)) =
     Some \<lparr>f_name = n, f_ann = a,
           f_default = (case d of None \<Rightarrow> implicit_default a | Some v \<Rightarrow> Some v),
           f_pk = pk, f_fk = fk\<rparr>"
| "field_of_stmt (Ann n a (RelationshipCall bp lm)) = None"

fun rel_of_stmt :: "stmt \<Rightarrow> relationship option" where
  "rel_of_stmt (Ann n a (RelationshipCall bp lm)) =
     Some \<lparr>r_name = n, r_ann = a, r_back_populates = bp, r_link_model = lm\<rparr>"
| "rel_of_stmt _ = None"

text \<open>
  The names an annotated attribute evaluates: the link model of a \<open>Relationship\<close>
  call is a class referred to by name, and the value is evaluated before the annotation.
\<close>

fun rhs_names :: "rhs \<Rightarrow> string list" where
  "rhs_names (RelationshipCall bp lm) = [lm]"
| "rhs_names _ = []"

fun stmt_names :: "stmt \<Rightarrow> string list" where
  "stmt_names (Ann n a r) = rhs_names r @ ann_names a"

text \<open>
  Fields live in a dictionary keyed by name: assigning a name that is already there
  replaces the entry where it stands, a new name goes to the end.
\<close>

fun update_field :: "field \<Rightarrow> field list \<Rightarrow> field list" where
  "update_field f [] = [f]"
| "update_field f (g # gs) = (if f_name g = f_name f then f # gs else g # update_field f gs)"

definition update_fields :: "field list \<Rightarrow> field list \<Rightarrow> field list" where
  "update_fields acc fs = foldl (\<lambda>a f. update_field f a) acc fs"

text \<open>The fields of the bases are copied first, the last base first.\<close>

definition inherit_fields :: "model list \<Rightarrow> field list" where
  "inherit_fields bs = foldl (\<lambda>acc b. update_fields acc (m_fields b)) [] (rev bs)"

subsection \<open>Running a class statement and the module\<close>

text \<open>
  A class statement evaluates its bases and the names in its body in the environment
  built so far (an unbound name raises \<open>NameError\<close>) and binds the class name to the
  new model.
\<close>

fun exec_class :: "env \<Rightarrow> classdef \<Rightarrow> py_error + env" where
  "exec_class env (Class n bs tbl body) =
     (case filter (\<lambda>x. map_of env x = None) (bs @ concat (map stmt_names body)) of
        x # _ \<Rightarrow> Inl (NameError x)
      | [] \<Rightarrow>
          Inr ((n, \<lparr>m_bases = bs, m_table = tbl,
                    m_fields =
                      map (\<lambda>f. f\<lparr>f_ann := resolve (\<lambda>d. map_of env d \<noteq> None) (f_ann f)\<rparr>)
                        (update_fields (inherit_fields (List.map_filter (map_of env) bs))
                           (List.map_filter field_of_stmt body)),
                    m_rels = List.map_filter rel_of_stmt body\<rparr>) # env))"

fun exec_module :: "env \<Rightarrow> classdef list \<Rightarrow> py_error + env" where
  "exec_module env [] = Inr env"
| "exec_module env (c # cs) =
     (case exec_class env c of Inl e \<Rightarrow> Inl e | Inr env' \<Rightarrow> exec_module env' cs)"

text \<open>What the imports bind: \<open>SQLModel\<close>, a model with no fields.\<close>

definition builtins :: env where
  "builtins = [(''SQLModel'', \<lparr>m_bases = [], m_table = False, m_fields = [], m_rels = []\<rparr>)]"

text \<open>The environment after the module has run.\<close>

definition schema :: env where
  "schema = (case exec_module builtins models of Inr e \<Rightarrow> e | Inl _ \<Rightarrow> [])"

definition fields_of :: "string \<Rightarrow> field list" where
  "fields_of c = (case map_of schema c of Some m \<Rightarrow> m_fields m | None \<Rightarrow> [])"

definition rels_of :: "string \<Rightarrow> relationship list" where
  "rels_of c = (case map_of schema c of Some m \<Rightarrow> m_rels m | None \<Rightarrow> [])"

definition field_names :: "string \<Rightarrow> string list" where
  "field_names c = map f_name (fields_of c)"

text \<open>Every attribute name of a class: its fields and its relationships.\<close>

definition attr_names :: "string \<Rightarrow> string list" where
  "attr_names c = field_names c @ map r_name (rels_of c)"

definition get_field :: "string \<Rightarrow> string \<Rightarrow> field option" where
  "get_field c n = find (\<lambda>f. f_name f = n) (fields_of c)"

section \<open>Building a shape from a payload\<close>

text \<open>
  A shape is built from a payload (the keyword arguments, or the attributes of the object
  handed to \<open>from_orm\<close>): a field takes the payload's value, validated against its
  annotation, else its default, which is not validated; a required field that is missing
  is a validation error. Keys that name no field are dropped.
\<close>

type_synonym payload = "string \<rightharpoonup> pyval"

type_synonym obj = "(string \<times> pyval) list"

subsection \<open>Validating a scalar\<close>

text \<open>
  A value of the annotated type is kept. \<open>None\<close> is accepted by an \<open>Optional\<close>
  annotation only, and a list or an object is rejected by \<open>str\<close>, \<open>int\<close> and
  \<open>float\<close>. Of the conversions pydantic makes between text and numbers the model
  computes two: a string given for \<open>int\<close> is read as an integer when it is a minus
  sign (or none) followed by decimal digits and is rejected when it is ASCII text with no
  digit in it, and an integer given for \<open>float\<close> becomes that float when it is exactly
  representable. Every other conversion (a number formatted for \<open>str\<close>, a float read
  from a string, a float truncated for \<open>int\<close>, strings with signs, blanks or
  underscores around the digits, text beyond ASCII, integers beyond \<open>2^53\<close>, strings of
  more than 4300 characters) is \<open>NotModelled\<close>.
\<close>

datatype conv = Accepted pyval | Rejected | NotModelled

definition is_digit :: "char \<Rightarrow> bool" where
  "is_digit c = (48 \<le> (of_char c :: nat) \<and> (of_char c :: nat) \<le> 57)"

definition decimal :: "string \<Rightarrow> nat" where
  "decimal s = foldl (\<lambda>n c. 10 * n + ((of_char c :: nat) - 48)) 0 s"

definition parse_int :: "string \<Rightarrow> conv" where
  "parse_int s =
     (if 4300 < length s then NotModelled
      else if s \<noteq> [] \<and> list_all is_digit s then Accepted (PInt (int (decimal s)))
      else if s \<noteq> [] \<and> hd s = CHR ''-'' \<and> tl s \<noteq> [] \<and> list_all is_digit (tl s)
        then Accepted (PInt (- int (decimal (tl s))))
      else if list_all (\<lambda>c. (of_char c :: nat) < 128 \<and> \<not> is_digit c) s then Rejected
      else NotModelled)"

fun validate :: "ann \<Rightarrow> pyval \<Rightarrow> conv" where
  "validate (AOptional a) v = (if v = PNone then Accepted PNone else validate a v)"
| "validate AStr v =
     (case v of
        PStr s \<Rightarrow> Accepted (PStr s)
      | PInt i \<Rightarrow> NotModelled
      | PFloat x \<Rightarrow> NotModelled
      | _ \<Rightarrow> Rejected)"
| "validate AInt v =
     (case v of
        PInt i \<Rightarrow> Accepted (PInt i)
      | PStr s \<Rightarrow> parse_int s
      | PFloat x \<Rightarrow> NotModelled
      | _ \<Rightarrow> Rejected)"
| "validate AFloat v =
     (case v of
        PFloat x \<Rightarrow> Accepted (PFloat x)
      | PInt i \<Rightarrow> if \<bar>i\<bar> \<le> 2 ^ 53 then Accepted (PFloat (of_int i)) else NotModelled
      | PStr s \<Rightarrow> NotModelled
      | _ \<Rightarrow> Rejected)"
| "validate a v = NotModelled"

subsection \<open>Binding the fields\<close>

text \<open>
  Validation errors are gathered over all fields and raised together at the end, while
  a \<open>ConfigError\<close> is raised as soon as its field is reached. So of the errors of the
  fields the first \<open>ConfigError\<close> wins, then the first validation error, then whatever is
  left (a field outside the model).
\<close>

primrec lefts :: "('e + 'a) list \<Rightarrow> 'e list" where
  "lefts [] = []"
| "lefts (x # xs) = (case x of Inl e \<Rightarrow> e # lefts xs | Inr v \<Rightarrow> lefts xs)"

primrec rights :: "('e + 'a) list \<Rightarrow> 'a list" where
  "rights [] = []"
| "rights (x # xs) = (case x of Inl e \<Rightarrow> rights xs | Inr v \<Rightarrow> v # rights xs)"

fun is_config :: "py_error \<Rightarrow> bool" where
  "is_config (ConfigError k) = True"
| "is_config e = False"

fun is_validation :: "py_error \<Rightarrow> bool" where
  "is_validation (ValidationError k) = True"
| "is_validation e = False"

definition collect :: "(py_error + 'a) list \<Rightarrow> py_error + 'a list" where
  "collect xs =
     (case filter is_config (lefts xs) @ filter is_validation (lefts xs) @ lefts xs of
        e # _ \<Rightarrow> Inl e
      | [] \<Rightarrow> Inr (rights xs))"

definition bind_default :: "field \<Rightarrow> py_error + (string \<times> pyval)" where
  "bind_default f =
     (case f_default f of
        Some d \<Rightarrow> Inr (f_name f, d)
      | None \<Rightarrow> Inl (ValidationError (f_name f)))"

definition bind_field :: "payload \<Rightarrow> field \<Rightarrow> py_error + (string \<times> pyval)" where
  "bind_field p f =
     (case p (f_name f) of
        Some v \<Rightarrow>
          (case validate (f_ann f) v of
             Accepted w \<Rightarrow> Inr (f_name f, w)
           | Rejected \<Rightarrow> Inl (ValidationError (f_name f))
           | NotModelled \<Rightarrow> Inl (Unmodelled (f_name f)))
      | None \<Rightarrow> bind_default f)"

definition bind_flat :: "payload \<Rightarrow> field list \<Rightarrow> py_error + obj" where
  "bind_flat p fs = collect (map (bind_field p) fs)"

text \<open>
  An element of a list of models is rebuilt as that model. The models listed in this
  module have only scalar fields, so one level is all there is.
\<close>

definition as_model :: "string \<Rightarrow> pyval \<Rightarrow> py_error + pyval" where
  "as_model d v =
     (case v of
        PObj ob \<Rightarrow>
          (case bind_flat (map_of ob) (fields_of d) of
             Inl e \<Rightarrow> Inl e
           | Inr ob' \<Rightarrow> Inr (PObj ob'))
      | _ \<Rightarrow> Inl (ValidationError d))"

text \<open>
  The class that a list annotation names as its element, by name or as a forward
  reference. The mapper resolves the annotation of a relationship by name, so this is
  the target class of a relationship; it is not how a field is validated.
\<close>

fun element_model :: "ann \<Rightarrow> string option" where
  "element_model (AList (AName d)) = Some d"
| "element_model (AList (AFwd d)) = Some d"
| "element_model _ = None"

text \<open>
  How a field is validated: as a scalar, as a list of a model that was bound when the
  class was built, or not at all. A list field whose element is still a forward
  reference has never been prepared, and any value supplied for it, the empty list
  included, raises \<open>ConfigError\<close>; left out, the field takes its default.
\<close>

datatype field_kind = Scalar | ListOf string | Unprepared string

fun kind_of :: "ann \<Rightarrow> field_kind" where
  "kind_of (AList (AName d)) = ListOf d"
| "kind_of (AList (AFwd d)) = Unprepared d"
| "kind_of a = Scalar"

fun relabel :: "string \<Rightarrow> py_error \<Rightarrow> py_error" where
  "relabel k (Unmodelled x) = Unmodelled k"
| "relabel k e = ValidationError k"

definition coerce :: "string \<Rightarrow> string \<Rightarrow> pyval \<Rightarrow> py_error + (string \<times> pyval)" where
  "coerce d k v =
     (case v of
        PList vs \<Rightarrow>
          (case collect (map (as_model d) vs) of
             Inl e \<Rightarrow> Inl (relabel k e)
           | Inr vs' \<Rightarrow> Inr (k, PList vs'))
      | _ \<Rightarrow> Inl (ValidationError k))"

definition bind_nested :: "payload \<Rightarrow> field \<Rightarrow> py_error + (string \<times> pyval)" where
  "bind_nested p f =
     (case kind_of (f_ann f) of
        Scalar \<Rightarrow> bind_field p f
      | ListOf d \<Rightarrow>
          (case p (f_name f) of None \<Rightarrow> bind_default f | Some v \<Rightarrow> coerce d (f_name f) v)
      | Unprepared d \<Rightarrow>
          (case p (f_name f) of None \<Rightarrow> bind_default f | Some v \<Rightarrow> Inl (ConfigError (f_name f))))"

definition instantiate :: "string \<Rightarrow> payload \<Rightarrow> py_error + obj" where
  "instantiate c p =
     (case map_of schema c of
        None \<Rightarrow> Inl (NameError c)
      | Some m \<Rightarrow> collect (map (bind_nested p) (m_fields m)))"

text \<open>\<open>C.from_orm(x)\<close> builds the shape from the attributes of \<open>x\<close>.\<close>

definition from_orm :: "string \<Rightarrow> obj \<Rightarrow> py_error + obj" where
  "from_orm c ob = instantiate c (map_of ob)"

section \<open>Tables, keys and relationships\<close>

text \<open>
  A class with \<open>table=True\<close> is a table whose name is the class name in lower case and
  whose columns are the fields of the class. The declarations of the module fix the
  constraints of each table: \<open>primary_key=True\<close> columns form the primary key of the
  table (together, when there are several), a primary key or a column whose annotation is
  not \<open>Optional\<close> is not nullable, and \<open>foreign_key="t.c"\<close> refers to column \<open>c\<close> of
  table \<open>t\<close>. The functions below give these declarations their relational meaning.
  The module imports \<open>create_engine\<close> and \<open>Session\<close> and uses neither: the store
  itself (engine, session, transactions) is no part of it.
\<close>

definition lower_char :: "char \<Rightarrow> char" where
  "lower_char c =
     (let n = (of_char c :: nat) in if 65 \<le> n \<and> n \<le> 90 then char_of (n + 32) else c)"

definition tablename :: "string \<Rightarrow> string" where
  "tablename c = map lower_char c"

type_synonym row = "(string \<times> pyval) list"

type_synonym db = "string \<Rightarrow> row list"

text \<open>The value of a column in a row; a column the row does not set is null.\<close>

definition col :: "row \<Rightarrow> string \<Rightarrow> pyval" where
  "col r k = (case map_of r k of Some v \<Rightarrow> v | None \<Rightarrow> PNone)"

text \<open>
  The row of a new instance of table class \<open>c\<close>: every column, from the payload, else
  the default, else null. The values are taken as they are given: the statements below
  make rows from objects that validation has built, or from payloads that fit the class,
  whose values validation keeps.
\<close>

definition field_value :: "payload \<Rightarrow> field \<Rightarrow> pyval" where
  "field_value p f =
     (case p (f_name f) of
        Some v \<Rightarrow> v
      | None \<Rightarrow> (case f_default f of Some d \<Rightarrow> d | None \<Rightarrow> PNone))"

definition new_row :: "string \<Rightarrow> payload \<Rightarrow> row" where
  "new_row c p = map (\<lambda>f. (f_name f, field_value p f)) (fields_of c)"

definition pk_cols :: "string \<Rightarrow> string list" where
  "pk_cols c = map f_name (filter f_pk (fields_of c))"

definition nullable :: "field \<Rightarrow> bool" where
  "nullable f = (\<not> f_pk f \<and> is_optional (f_ann f))"

text \<open>\<open>"material.id"\<close> is column \<open>id\<close> of table \<open>material\<close>.\<close>

definition split_fk :: "string \<Rightarrow> string \<times> string" where
  "split_fk s = (takeWhile (\<lambda>c. c \<noteq> CHR ''.'') s, drop 1 (dropWhile (\<lambda>c. c \<noteq> CHR ''.'') s))"

fun int_of :: "pyval \<Rightarrow> int" where
  "int_of (PInt i) = i"
| "int_of _ = 0"

text \<open>
  A single integer primary key left null is assigned on insert: \<open>1\<close> in an empty
  table, else one more than the largest key of the table. (At the largest 64-bit key an
  engine has no such key left and does something else; the model has unbounded keys.)
\<close>

definition next_id :: "row list \<Rightarrow> string \<Rightarrow> int" where
  "next_id rows k =
     (case rows of
        [] \<Rightarrow> 1
      | r # rs \<Rightarrow> 1 + fold max (map (\<lambda>s. int_of (col s k)) rs) (int_of (col r k)))"

fun set_col :: "string \<Rightarrow> pyval \<Rightarrow> row \<Rightarrow> row" where
  "set_col k v [] = [(k, v)]"
| "set_col k v (x # xs) = (if fst x = k then (k, v) # xs else x # set_col k v xs)"

definition assign_key :: "string \<Rightarrow> row list \<Rightarrow> row \<Rightarrow> row" where
  "assign_key c rows r =
     (case pk_cols c of
        [k] \<Rightarrow> if col r k = PNone then set_col k (PInt (next_id rows k)) r else r
      | _ \<Rightarrow> r)"

datatype db_error =
  NoSuchTable string
  | NotNullViolation string
  | UniqueViolation "string list"
  | ForeignKeyViolation string string

definition same_key :: "string list \<Rightarrow> row \<Rightarrow> row \<Rightarrow> bool" where
  "same_key ks r s = list_all (\<lambda>k. col r k = col s k) ks"

text \<open>
  Modelled from the spec: the check of a declared foreign key, which the persistence
  layer makes and the module does not. The spec's words are that \<^emph>\<open>foreign-key
  violations (referencing a non-existent Material/MSite id) must be rejected by the
  persistence layer\<close> and that \<^emph>\<open>foreign-key columns may be null\<close>. A foreign key of a
  row is broken when its column is not null and no row of the referenced table has that
  value in the referenced column.
\<close>

definition fk_broken :: "db \<Rightarrow> row \<Rightarrow> field \<Rightarrow> bool" where
  "fk_broken d r f =
     (case f_fk f of
        None \<Rightarrow> False
      | Some s \<Rightarrow>
          col r (f_name f) \<noteq> PNone \<and>
          \<not> list_ex (\<lambda>t. col t (snd (split_fk s)) = col r (f_name f)) (d (fst (split_fk s))))"

text \<open>
  Inserting a row into the table of class \<open>c\<close>: the key is assigned, then the not-null
  columns and the primary key are checked, in this order, and then the foreign keys when
  the store enforces them. Whether it does is not decided by the module, which declares
  the foreign keys and configures no engine: SQLite, as \<open>create_engine\<close> opens it,
  records a declared foreign key and does not check it unless the application turns the
  check on for the connection, and other engines always check. So enforcement is the
  parameter \<open>enforce\<close> of the insert.
\<close>

definition insert_with :: "bool \<Rightarrow> db \<Rightarrow> string \<Rightarrow> row \<Rightarrow> db_error + db" where
  "insert_with enforce d c r =
     (case map_of schema c of
        None \<Rightarrow> Inl (NoSuchTable c)
      | Some m \<Rightarrow>
          if \<not> m_table m then Inl (NoSuchTable c)
          else
            (let t = tablename c; r' = assign_key c (d t) r in
             case filter (\<lambda>f. \<not> nullable f \<and> col r' (f_name f) = PNone) (m_fields m) of
               f # _ \<Rightarrow> Inl (NotNullViolation (f_name f))
             | [] \<Rightarrow>
                 if list_ex (same_key (pk_cols c) r') (d t) then Inl (UniqueViolation (pk_cols c))
                 else
                   (case (if enforce then filter (fk_broken d r') (m_fields m) else []) of
                      f # _ \<Rightarrow> Inl (ForeignKeyViolation (f_name f) (case f_fk f of Some s \<Rightarrow> s | None \<Rightarrow> []))
                    | [] \<Rightarrow> Inr (d(t := d t @ [r'])))))"

text \<open>
  The insert of a store that checks what every engine checks, not-null columns and
  primary keys, and leaves the declared foreign keys unchecked.
\<close>

definition insert_row :: "db \<Rightarrow> string \<Rightarrow> row \<Rightarrow> db_error + db" where
  "insert_row d c r = insert_with False d c r"

text \<open>The store with no rows.\<close>

definition empty_db :: db where
  "empty_db = (\<lambda>t. [])"

text \<open>The key of a row, and a table in which no two rows have the same key.\<close>

definition row_key :: "string \<Rightarrow> row \<Rightarrow> pyval list" where
  "row_key c r = map (col r) (pk_cols c)"

definition unique_keys :: "string \<Rightarrow> db \<Rightarrow> bool" where
  "unique_keys c d = distinct (map (row_key c) (d (tablename c)))"

subsection \<open>Relationships through a link table\<close>

text \<open>
  \<open>Relationship(link_model=L)\<close> on a table class \<open>c\<close>, annotated as a list of class
  \<open>d\<close>, joins the two tables through the table of \<open>L\<close>: the foreign key of \<open>L\<close> that
  refers to the table of \<open>c\<close> selects the link rows of a row of \<open>c\<close>, and the foreign key
  that refers to the table of \<open>d\<close> leads to the related rows.
\<close>

record join =
  j_link :: string
  j_self :: string
  j_self_key :: string
  j_other :: string
  j_other_key :: string
  j_target :: string

definition fk_col_to :: "string \<Rightarrow> string \<Rightarrow> (string \<times> string) option" where
  "fk_col_to l t =
     (case find (\<lambda>f. case f_fk f of None \<Rightarrow> False | Some s \<Rightarrow> fst (split_fk s) = t)
             (fields_of l) of
        None \<Rightarrow> None
      | Some f \<Rightarrow> (case f_fk f of None \<Rightarrow> None | Some s \<Rightarrow> Some (f_name f, snd (split_fk s))))"

definition join_of :: "string \<Rightarrow> string \<Rightarrow> join option" where
  "join_of c rn =
     (case find (\<lambda>x. r_name x = rn) (rels_of c) of
        None \<Rightarrow> None
      | Some rel \<Rightarrow>
          (case element_model (r_ann rel) of
             None \<Rightarrow> None
           | Some d \<Rightarrow>
               (case (fk_col_to (r_link_model rel) (tablename c),
                      fk_col_to (r_link_model rel) (tablename d)) of
                  (Some (lc, ck), Some (ld, dk)) \<Rightarrow>
                    Some \<lparr>j_link = tablename (r_link_model rel), j_self = lc, j_self_key = ck,
                          j_other = ld, j_other_key = dk, j_target = tablename d\<rparr>
                | _ \<Rightarrow> None)))"

text \<open>Two column values join when they are equal and not null.\<close>

definition joins :: "pyval \<Rightarrow> pyval \<Rightarrow> bool" where
  "joins a b = (a \<noteq> PNone \<and> a = b)"

definition links_of :: "db \<Rightarrow> join \<Rightarrow> row \<Rightarrow> row list" where
  "links_of d j r = filter (\<lambda>l. joins (col l (j_self j)) (col r (j_self_key j))) (d (j_link j))"

definition related :: "db \<Rightarrow> string \<Rightarrow> string \<Rightarrow> row \<Rightarrow> row list" where
  "related d c rn r =
     (case join_of c rn of
        None \<Rightarrow> []
      | Some j \<Rightarrow>
          concat (map (\<lambda>l. filter (\<lambda>s. joins (col s (j_other_key j)) (col l (j_other j)))
                              (d (j_target j)))
                      (links_of d j r)))"

text \<open>
  A loaded instance of table class \<open>c\<close>: the columns of its row, and for each
  relationship of the class the list of the related rows.
\<close>

definition load :: "db \<Rightarrow> string \<Rightarrow> row \<Rightarrow> obj" where
  "load d c r =
     map (\<lambda>rel. (r_name rel, PList (map PObj (related d c (r_name rel) r)))) (rels_of c) @ r"

section \<open>The entities and their shapes\<close>

definition entities :: "string list" where
  "entities = [''Material'', ''MSite'', ''Magnet'', ''MPart'', ''MRecord'']"

definition base_of :: "string \<Rightarrow> string" where
  "base_of e = e @ ''Base''"

definition create_of :: "string \<Rightarrow> string" where
  "create_of e = e @ ''Create''"

definition read_of :: "string \<Rightarrow> string" where
  "read_of e = e @ ''Read''"

definition update_of :: "string \<Rightarrow> string" where
  "update_of e = e @ ''Update''"

definition drop_id :: "field list \<Rightarrow> field list" where
  "drop_id fs = filter (\<lambda>f. f_name f \<noteq> ''id'') fs"

text \<open>What a shape says of a field to its caller: name, annotation and default.\<close>

definition shape_of :: "field \<Rightarrow> string \<times> ann \<times> pyval option" where
  "shape_of f = (f_name f, f_ann f, f_default f)"

definition required_names :: "string \<Rightarrow> string list" where
  "required_names c = map f_name (filter (\<lambda>f. f_default f = None) (fields_of c))"

text \<open>
  A value has the type of a scalar annotation: these are the values that validation
  keeps as they are. A payload fits a field when it leaves out a field that has a
  default, or gives a scalar field a value of its type, or gives a list to a field that
  is a list of models; no value fits a list field that was never prepared.
\<close>

fun has_type :: "ann \<Rightarrow> pyval \<Rightarrow> bool" where
  "has_type (AOptional a) v = (v = PNone \<or> has_type a v)"
| "has_type AStr v = (case v of PStr s \<Rightarrow> True | _ \<Rightarrow> False)"
| "has_type AInt v = (case v of PInt i \<Rightarrow> True | _ \<Rightarrow> False)"
| "has_type AFloat v = (case v of PFloat x \<Rightarrow> True | _ \<Rightarrow> False)"
| "has_type a v = False"

definition field_ok :: "payload \<Rightarrow> field \<Rightarrow> bool" where
  "field_ok p f =
     (case p (f_name f) of
        None \<Rightarrow> f_default f \<noteq> None
      | Some v \<Rightarrow>
          (case kind_of (f_ann f) of
             Scalar \<Rightarrow> has_type (f_ann f) v
           | ListOf d \<Rightarrow> (case v of PList vs \<Rightarrow> True | _ \<Rightarrow> False)
           | Unprepared d \<Rightarrow> False))"

definition fits :: "string \<Rightarrow> payload \<Rightarrow> bool" where
  "fits c p = list_all (field_ok p) (fields_of c)"

text \<open>A class all of whose fields are scalars (none is a list of models).\<close>

definition flat :: "string \<Rightarrow> bool" where
  "flat c = list_all (\<lambda>f. element_model (f_ann f) = None) (fields_of c)"

text \<open>The material an MPart payload refers to: the value of \<open>material_id\<close>, null when left out.\<close>

definition material_ref :: "payload \<Rightarrow> pyval" where
  "material_ref p = (case p ''material_id'' of Some v \<Rightarrow> v | None \<Rightarrow> PNone)"

text \<open>
  The parts linked to a magnet row: the rows of \<open>mpart\<close> that some row of the link table
  pairs with the magnet.
\<close>

definition linked_mparts :: "db \<Rightarrow> row \<Rightarrow> row set" where
  "linked_mparts d r =
     {s \<in> set (d ''mpart''). \<exists>l \<in> set (d ''mpartmagnetlink'').
        joins (col l ''magnet_id'') (col r ''id'') \<and> joins (col s ''id'') (col l ''mpart_id'')}"

text \<open>
  The table classes of the module, a foreign key that names the primary key of one of
  their tables, and a relationship whose \<open>back_populates\<close> names the relationship of
  the target class that leads back through the same link model.
\<close>

definition table_classes :: "string list" where
  "table_classes = map fst (filter (\<lambda>cm. m_table (snd cm)) schema)"

definition fk_resolves :: "string \<Rightarrow> bool" where
  "fk_resolves s =
     list_ex (\<lambda>t. tablename t = fst (split_fk s) \<and> pk_cols t = [snd (split_fk s)]) table_classes"

definition paired :: "string \<Rightarrow> relationship \<Rightarrow> bool" where
  "paired c rel =
     (case element_model (r_ann rel) of
        None \<Rightarrow> False
      | Some d \<Rightarrow>
          list_ex (\<lambda>back. r_name back = r_back_populates rel
                          \<and> r_back_populates back = r_name rel
                          \<and> element_model (r_ann back) = Some c
                          \<and> r_link_model back = r_link_model rel)
            (rels_of d))"

section \<open>The update operation\<close>

text \<open>
  Modelled from the spec: the operation that applies an Update shape to a stored entity
  belongs to the API layer, and no such function is in the module. The spec's words are
  that an Update shape carries \<^emph>\<open>the full mutable field set (no partial-patch semantics
  \<dots> every field must be resupplied)\<close>, that \<^emph>\<open>omission zeroes the relationship\<close>, and
  that empty collections \<^emph>\<open>clear previously linked relationships (full-replace
  semantics)\<close>. So \<open>apply_update\<close> builds the Update shape from the payload (defaults
  filled in by the shape), writes every field of the shape that is a column of the table
  into the stored row, and for every field that is a relationship of the table replaces
  the link rows of the entity by one link row per listed entity, inserted under the
  constraints of the link table.
\<close>

datatype op_error = Invalid py_error | NotFound | Integrity db_error

definition write_columns :: "string \<Rightarrow> obj \<Rightarrow> row \<Rightarrow> row" where
  "write_columns c ob r =
     fold (\<lambda>kv s. if fst kv \<in> set (field_names c) then set_col (fst kv) (snd kv) s else s) ob r"

fun attrs_of :: "pyval \<Rightarrow> obj" where
  "attrs_of (PObj ob) = ob"
| "attrs_of _ = []"

fun items_of :: "pyval \<Rightarrow> pyval list" where
  "items_of (PList vs) = vs"
| "items_of _ = []"

fun insert_links :: "db \<Rightarrow> string \<Rightarrow> row list \<Rightarrow> db_error + db" where
  "insert_links d l [] = Inr d"
| "insert_links d l (r # rs) =
     (case insert_row d l r of Inl e \<Rightarrow> Inl e | Inr d' \<Rightarrow> insert_links d' l rs)"

text \<open>
  Modelled from the spec: replacing a relationship of a stored entity (\<^emph>\<open>omission zeroes
  the relationship\<close>, \<^emph>\<open>full-replace semantics\<close>); no such function is in the module.
  The link rows of the entity are removed and one link row per listed entity is inserted.
\<close>

definition replace_links :: "db \<Rightarrow> string \<Rightarrow> relationship \<Rightarrow> row \<Rightarrow> pyval list \<Rightarrow> db_error + db" where
  "replace_links d c rel r vs =
     (case join_of c (r_name rel) of
        None \<Rightarrow> Inr d
      | Some j \<Rightarrow>
          insert_links
            (d(j_link j :=
                 filter (\<lambda>l. \<not> joins (col l (j_self j)) (col r (j_self_key j))) (d (j_link j))))
            (r_link_model rel)
            (map (\<lambda>v. [(j_self j, col r (j_self_key j)),
                        (j_other j, col (attrs_of v) (j_other_key j))]) vs))"

fun replace_all_links :: "db \<Rightarrow> string \<Rightarrow> row \<Rightarrow> obj \<Rightarrow> relationship list \<Rightarrow> db_error + db" where
  "replace_all_links d c r ob [] = Inr d"
| "replace_all_links d c r ob (rel # rels) =
     (case map_of ob (r_name rel) of
        None \<Rightarrow> replace_all_links d c r ob rels
      | Some v \<Rightarrow>
          (case replace_links d c rel r (items_of v) of
             Inl e \<Rightarrow> Inl e
           | Inr d' \<Rightarrow> replace_all_links d' c r ob rels))"

text \<open>
  Modelled from the spec: the update function of the API layer, which is not in the
  module. \<open>apply_update d c u key p\<close> applies the payload \<open>p\<close>, read as the Update
  shape \<open>u\<close>, to the row of table class \<open>c\<close> whose key is \<open>key\<close>, replacing
  every column and every relationship the shape names (full replace, no partial patch).
\<close>

definition apply_update :: "db \<Rightarrow> string \<Rightarrow> string \<Rightarrow> pyval \<Rightarrow> payload \<Rightarrow> op_error + db" where
  "apply_update d c u key p =
     (case instantiate u p of
        Inl e \<Rightarrow> Inl (Invalid e)
      | Inr ob \<Rightarrow>
          (case pk_cols c of
             [k] \<Rightarrow>
               (case find (\<lambda>r. joins (col r k) key) (d (tablename c)) of
                  None \<Rightarrow> Inl NotFound
                | Some r \<Rightarrow>
                    (case replace_all_links
                            (d(tablename c :=
                                 map (\<lambda>s. if joins (col s k) key then write_columns c ob s else s)
                                   (d (tablename c))))
                            c r ob (rels_of c) of
                       Inl e \<Rightarrow> Inl (Integrity e)
                     | Inr d' \<Rightarrow> Inr d'))
           | _ \<Rightarrow> Inl NotFound))"

text \<open>A payload leaves the list \<open>k\<close> empty: it omits it or gives the empty list.\<close>

definition left_empty :: "payload \<Rightarrow> string \<Rightarrow> bool" where
  "left_empty p k = (p k = None \<or> p k = Some (PList []))"

section \<open>The module evaluated\<close>

text \<open>
  Running the class statements in order binds every class of the module; the environment
  is the following (the latest binding first).
\<close>

lemma schema_eq [code]:
  "schema =
   [(''MRecordUpdate'',
        \<lparr>m_bases = [''SQLModel''], m_table = False,
           m_fields =
            [\<lparr>f_name = ''timestamp'', f_ann = AStr, f_default = None, f_pk = False, f_fk = None\<rparr>,
             \<lparr>f_name = ''name'', f_ann = AStr, f_default = None, f_pk = False, f_fk = None\<rparr>,
             \<lparr>f_name = ''msite_id'', f_ann = AOptional AInt, f_default = Some PNone, f_pk = False, f_fk = None\<rparr>],
           m_rels = []\<rparr>),
      (''MRecordCreate'',
        \<lparr>m_bases = [''MRecordBase''], m_table = False,
           m_fields =
            [\<lparr>f_name = ''id'', f_ann = AOptional AInt, f_default = Some PNone, f_pk = True, f_fk = None\<rparr>,
             \<lparr>f_name = ''timestamp'', f_ann = AStr, f_default = None, f_pk = False, f_fk = None\<rparr>,
             \<lparr>f_name = ''name'', f_ann = AStr, f_default = None, f_pk = False, f_fk = None\<rparr>,
             \<lparr>f_name = ''msite_id'', f_ann = AOptional AInt, f_default = Some PNone, f_pk = False, f_fk = Some ''msite.id''\<rparr>],
           m_rels = []\<rparr>),
      (''MRecordRead'',
        \<lparr>m_bases = [''MRecordBase''], m_table = False,
           m_fields =
            [\<lparr>f_name = ''id'', f_ann = AInt, f_default = None, f_pk = False, f_fk = None\<rparr>,
             \<lparr>f_name = ''timestamp'', f_ann = AStr, f_default = None, f_pk = False, f_fk = None\<rparr>,
             \<lparr>f_name = ''name'', f_ann = AStr, f_default = None, f_pk = False, f_fk = None\<rparr>,
             \<lparr>f_name = ''msite_id'', f_ann = AOptional AInt, f_default = Some PNone, f_pk = False, f_fk = Some ''msite.id''\<rparr>],
           m_rels = []\<rparr>),
      (''MRecord'',
        \<lparr>m_bases = [''MRecordBase''], m_table = True,
           m_fields =
            [\<lparr>f_name = ''id'', f_ann = AOptional AInt, f_default = Some PNone, f_pk = True, f_fk = None\<rparr>,
             \<lparr>f_name = ''timestamp'', f_ann = AStr, f_default = None, f_pk = False, f_fk = None\<rparr>,
             \<lparr>f_name = ''name'', f_ann = AStr, f_default = None, f_pk = False, f_fk = None\<rparr>,
             \<lparr>f_name = ''msite_id'', f_ann = AOptional AInt, f_default = Some PNone, f_pk = False, f_fk = Some ''msite.id''\<rparr>],
           m_rels = []\<rparr>),
      (''MRecordBase'',
        \<lparr>m_bases = [''SQLModel''], m_table = False,
           m_fields =
            [\<lparr>f_name = ''id'', f_ann = AOptional AInt, f_default = Some PNone, f_pk = True, f_fk = None\<rparr>,
             \<lparr>f_name = ''timestamp'', f_ann = AStr, f_default = None, f_pk = False, f_fk = None\<rparr>,
             \<lparr>f_name = ''name'', f_ann = AStr, f_default = None, f_pk = False, f_fk = None\<rparr>,
             \<lparr>f_name = ''msite_id'', f_ann = AOptional AInt, f_default = Some PNone, f_pk = False, f_fk = Some ''msite.id''\<rparr>],
           m_rels = []\<rparr>),
      (''MSiteReadWithMagnets'',
        \<lparr>m_bases = [''MSiteRead''], m_table = False,
           m_fields =
            [\<lparr>f_name = ''name'', f_ann = AStr, f_default = None, f_pk = False, f_fk = None\<rparr>,
             \<lparr>f_name = ''conffile'', f_ann = AStr, f_default = None, f_pk = False, f_fk = None\<rparr>,
             \<lparr>f_name = ''status'', f_ann = AStr, f_default = None, f_pk = False, f_fk = None\<rparr>,
             \<lparr>f_name = ''id'', f_ann = AInt, f_default = None, f_pk = False, f_fk = None\<rparr>,
             \<lparr>f_name = ''magnets'', f_ann = AList (AName ''MagnetRead''), f_default = Some (PList []), f_pk = False, f_fk = None\<rparr>],
           m_rels = []\<rparr>),
      (''MagnetReadWithMSite'',
        \<lparr>m_bases = [''MagnetRead''], m_table = False,
           m_fields =
            [\<lparr>f_name = ''name'', f_ann = AStr, f_default = None, f_pk = False, f_fk = None\<rparr>,
             \<lparr>f_name = ''be'', f_ann = AStr, f_default = None, f_pk = False, f_fk = None\<rparr>,
             \<lparr>f_name = ''geom'', f_ann = AStr, f_default = None, f_pk = False, f_fk = None\<rparr>,
             \<lparr>f_name = ''status'', f_ann = AStr, f_default = None, f_pk = False, f_fk = None\<rparr>,
             \<lparr>f_name = ''id'', f_ann = AInt, f_default = None, f_pk = False, f_fk = None\<rparr>,
             \<lparr>f_name = ''msites'', f_ann = AList (AName ''MSiteRead''), f_default = Some (PList []), f_pk = False, f_fk = None\<rparr>],
           m_rels = []\<rparr>),
      (''MagnetReadWithMParts'',
        \<lparr>m_bases = [''MagnetRead''], m_table = False,
           m_fields =
            [\<lparr>f_name = ''name'', f_ann = AStr, f_default = None, f_pk = False, f_fk = None\<rparr>,
             \<lparr>f_name = ''be'', f_ann = AStr, f_default = None, f_pk = False, f_fk = None\<rparr>,
             \<lparr>f_name = ''geom'', f_ann = AStr, f_default = None, f_pk = False, f_fk = None\<rparr>,
             \<lparr>f_name = ''status'', f_ann = AStr, f_default = None, f_pk = False, f_fk = None\<rparr>,
             \<lparr>f_name = ''id'', f_ann = AInt, f_default = None, f_pk = False, f_fk = None\<rparr>,
             \<lparr>f_name = ''mparts'', f_ann = AList (AName ''MPartRead''), f_default = Some (PList []), f_pk = False, f_fk = None\<rparr>],
           m_rels = []\<rparr>),
      (''MPartReadWithMagnet'',
        \<lparr>m_bases = [''MPartRead''], m_table = False,
           m_fields =
            [\<lparr>f_name = ''name'', f_ann = AStr, f_default = None, f_pk = False, f_fk = None\<rparr>,
             \<lparr>f_name = ''type'', f_ann = AStr, f_default = None, f_pk = False, f_fk = None\<rparr>,
             \<lparr>f_name = ''be'', f_ann = AStr, f_default = None, f_pk = False, f_fk = None\<rparr>,
             \<lparr>f_name = ''geom'', f_ann = AStr, f_default = None, f_pk = False, f_fk = None\<rparr>,
             \<lparr>f_name = ''status'', f_ann = AStr, f_default = None, f_pk = False, f_fk = None\<rparr>,
             \<lparr>f_name = ''material_id'', f_ann = AOptional AInt, f_default = Some PNone, f_pk = False, f_fk = Some ''material.id''\<rparr>,
             \<lparr>f_name = ''id'', f_ann = AInt, f_default = None, f_pk = False, f_fk = None\<rparr>,
             \<lparr>f_name = ''magnets'', f_ann = AList (AName ''MagnetRead''), f_default = Some (PList []), f_pk = False, f_fk = None\<rparr>],
           m_rels = []\<rparr>),
      (''MPartUpdate'',
        \<lparr>m_bases = [''SQLModel''], m_table = False,
           m_fields =
            [\<lparr>f_name = ''name'', f_ann = AStr, f_default = None, f_pk = False, f_fk = None\<rparr>,
             \<lparr>f_name = ''type'', f_ann = AStr, f_default = None, f_pk = False, f_fk = None\<rparr>,
             \<lparr>f_name = ''be'', f_ann = AStr, f_default = None, f_pk = False, f_fk = None\<rparr>,
             \<lparr>f_name = ''geom'', f_ann = AStr, f_default = None, f_pk = False, f_fk = None\<rparr>,
             \<lparr>f_name = ''status'', f_ann = AStr, f_default = None, f_pk = False, f_fk = None\<rparr>,
             \<lparr>f_name = ''material_id'', f_ann = AOptional AInt, f_default = Some PNone, f_pk = False, f_fk = None\<rparr>,
             \<lparr>f_name = ''magnets'', f_ann = AList (AName ''Magnet''), f_default = Some (PList []), f_pk = False, f_fk = None\<rparr>],
           m_rels = []\<rparr>),
      (''MPartCreate'',
        \<lparr>m_bases = [''MPartBase''], m_table = False,
           m_fields =
            [\<lparr>f_name = ''name'', f_ann = AStr, f_default = None, f_pk = False, f_fk = None\<rparr>,
             \<lparr>f_name = ''type'', f_ann = AStr, f_default = None, f_pk = False, f_fk = None\<rparr>,
             \<lparr>f_name = ''be'', f_ann = AStr, f_default = None, f_pk = False, f_fk = None\<rparr>,
             \<lparr>f_name = ''geom'', f_ann = AStr, f_default = None, f_pk = False, f_fk = None\<rparr>,
             \<lparr>f_name = ''status'', f_ann = AStr, f_default = None, f_pk = False, f_fk = None\<rparr>,
             \<lparr>f_name = ''material_id'', f_ann = AOptional AInt, f_default = Some PNone, f_pk = False, f_fk = Some ''material.id''\<rparr>],
           m_rels = []\<rparr>),
      (''MPartRead'',
        \<lparr>m_bases = [''MPartBase''], m_table = False,
           m_fields =
            [\<lparr>f_name = ''name'', f_ann = AStr, f_default = None, f_pk = False, f_fk = None\<rparr>,
             \<lparr>f_name = ''type'', f_ann = AStr, f_default = None, f_pk = False, f_fk = None\<rparr>,
             \<lparr>f_name = ''be'', f_ann = AStr, f_default = None, f_pk = False, f_fk = None\<rparr>,
             \<lparr>f_name = ''geom'', f_ann = AStr, f_default = None, f_pk = False, f_fk = None\<rparr>,
             \<lparr>f_name = ''status'', f_ann = AStr, f_default = None, f_pk = False, f_fk = None\<rparr>,
             \<lparr>f_name = ''material_id'', f_ann = AOptional AInt, f_default = Some PNone, f_pk = False, f_fk = Some ''material.id''\<rparr>,
             \<lparr>f_name = ''id'', f_ann = AInt, f_default = None, f_pk = False, f_fk = None\<rparr>],
           m_rels = []\<rparr>),
      (''MPart'',
        \<lparr>m_bases = [''MPartBase''], m_table = True,
           m_fields =
            [\<lparr>f_name = ''name'', f_ann = AStr, f_default = None, f_pk = False, f_fk = None\<rparr>,
             \<lparr>f_name = ''type'', f_ann = AStr, f_default = None, f_pk = False, f_fk = None\<rparr>,
             \<lparr>f_name = ''be'', f_ann = AStr, f_default = None, f_pk = False, f_fk = None\<rparr>,
             \<lparr>f_name = ''geom'', f_ann = AStr, f_default = None, f_pk = False, f_fk = None\<rparr>,
             \<lparr>f_name = ''status'', f_ann = AStr, f_default = None, f_pk = False, f_fk = None\<rparr>,
             \<lparr>f_name = ''material_id'', f_ann = AOptional AInt, f_default = Some PNone, f_pk = False, f_fk = Some ''material.id''\<rparr>,
             \<lparr>f_name = ''id'', f_ann = AOptional AInt, f_default = Some PNone, f_pk = True, f_fk = None\<rparr>],
           m_rels =
            [\<lparr>r_name = ''magnets'', r_ann = AList (AName ''Magnet''), r_back_populates = ''mparts'', r_link_model = ''MPartMagnetLink''\<rparr>]\<rparr>),
      (''MPartBase'',
        \<lparr>m_bases = [''SQLModel''], m_table = False,
           m_fields =
            [\<lparr>f_name = ''name'', f_ann = AStr, f_default = None, f_pk = False, f_fk = None\<rparr>,
             \<lparr>f_name = ''type'', f_ann = AStr, f_default = None, f_pk = False, f_fk = None\<rparr>,
             \<lparr>f_name = ''be'', f_ann = AStr, f_default = None, f_pk = False, f_fk = None\<rparr>,
             \<lparr>f_name = ''geom'', f_ann = AStr, f_default = None, f_pk = False, f_fk = None\<rparr>,
             \<lparr>f_name = ''status'', f_ann = AStr, f_default = None, f_pk = False, f_fk = None\<rparr>,
             \<lparr>f_name = ''material_id'', f_ann = AOptional AInt, f_default = Some PNone, f_pk = False, f_fk = Some ''material.id''\<rparr>],
           m_rels = []\<rparr>),
      (''MagnetUpdate'',
        \<lparr>m_bases = [''SQLModel''], m_table = False,
           m_fields =
            [\<lparr>f_name = ''name'', f_ann = AStr, f_default = None, f_pk = False, f_fk = None\<rparr>,
             \<lparr>f_name = ''be'', f_ann = AStr, f_default = None, f_pk = False, f_fk = None\<rparr>,
             \<lparr>f_name = ''geom'', f_ann = AStr, f_default = None, f_pk = False, f_fk = None\<rparr>,
             \<lparr>f_name = ''status'', f_ann = AStr, f_default = None, f_pk = False, f_fk = None\<rparr>,
             \<lparr>f_name = ''msites'', f_ann = AList (AName ''MSite''), f_default = Some (PList []), f_pk = False, f_fk = None\<rparr>,
             \<lparr>f_name = ''mparts'', f_ann = AList (AFwd ''MPart''), f_default = Some (PList []), f_pk = False, f_fk = None\<rparr>],
           m_rels = []\<rparr>),
      (''MagnetCreate'',
        \<lparr>m_bases = [''MagnetBase''], m_table = False,
           m_fields =
            [\<lparr>f_name = ''name'', f_ann = AStr, f_default = None, f_pk = False, f_fk = None\<rparr>,
             \<lparr>f_name = ''be'', f_ann = AStr, f_default = None, f_pk = False, f_fk = None\<rparr>,
             \<lparr>f_name = ''geom'', f_ann = AStr, f_default = None, f_pk = False, f_fk = None\<rparr>,
             \<lparr>f_name = ''status'', f_ann = AStr, f_default = None, f_pk = False, f_fk = None\<rparr>],
           m_rels = []\<rparr>),
      (''MagnetRead'',
        \<lparr>m_bases = [''MagnetBase''], m_table = False,
           m_fields =
            [\<lparr>f_name = ''name'', f_ann = AStr, f_default = None, f_pk = False, f_fk = None\<rparr>,
             \<lparr>f_name = ''be'', f_ann = AStr, f_default = None, f_pk = False, f_fk = None\<rparr>,
             \<lparr>f_name = ''geom'', f_ann = AStr, f_default = None, f_pk = False, f_fk = None\<rparr>,
             \<lparr>f_name = ''status'', f_ann = AStr, f_default = None, f_pk = False, f_fk = None\<rparr>,
             \<lparr>f_name = ''id'', f_ann = AInt, f_default = None, f_pk = False, f_fk = None\<rparr>],
           m_rels = []\<rparr>),
      (''Magnet'',
        \<lparr>m_bases = [''MagnetBase''], m_table = True,
           m_fields =
            [\<lparr>f_name = ''name'', f_ann = AStr, f_default = None, f_pk = False, f_fk = None\<rparr>,
             \<lparr>f_name = ''be'', f_ann = AStr, f_default = None, f_pk = False, f_fk = None\<rparr>,
             \<lparr>f_name = ''geom'', f_ann = AStr, f_default = None, f_pk = False, f_fk = None\<rparr>,
             \<lparr>f_name = ''status'', f_ann = AStr, f_default = None, f_pk = False, f_fk = None\<rparr>,
             \<lparr>f_name = ''id'', f_ann = AOptional AInt, f_default = Some PNone, f_pk = True, f_fk = None\<rparr>],
           m_rels =
            [\<lparr>r_name = ''msites'', r_ann = AList (AName ''MSite''), r_back_populates = ''magnets'', r_link_model = ''MagnetMSiteLink''\<rparr>,
             \<lparr>r_name = ''mparts'', r_ann = AList (AFwd ''MPart''), r_back_populates = ''magnets'', r_link_model = ''MPartMagnetLink''\<rparr>]\<rparr>),
      (''MagnetBase'',
        \<lparr>m_bases = [''SQLModel''], m_table = False,
           m_fields =
            [\<lparr>f_name = ''name'', f_ann = AStr, f_default = None, f_pk = False, f_fk = None\<rparr>,
             \<lparr>f_name = ''be'', f_ann = AStr, f_default = None, f_pk = False, f_fk = None\<rparr>,
             \<lparr>f_name = ''geom'', f_ann = AStr, f_default = None, f_pk = False, f_fk = None\<rparr>,
             \<lparr>f_name = ''status'', f_ann = AStr, f_default = None, f_pk = False, f_fk = None\<rparr>],
           m_rels = []\<rparr>),
      (''MSiteUpdate'',
        \<lparr>m_bases = [''SQLModel''], m_table = False,
           m_fields =
            [\<lparr>f_name = ''name'', f_ann = AStr, f_default = None, f_pk = False, f_fk = None\<rparr>,
             \<lparr>f_name = ''conffile'', f_ann = AStr, f_default = None, f_pk = False, f_fk = None\<rparr>,
             \<lparr>f_name = ''status'', f_ann = AStr, f_default = None, f_pk = False, f_fk = None\<rparr>,
             \<lparr>f_name = ''magnets'', f_ann = AList (AFwd ''Magnet''), f_default = Some (PList []), f_pk = False, f_fk = None\<rparr>],
           m_rels = []\<rparr>),
      (''MSiteCreate'',
        \<lparr>m_bases = [''MSiteBase''], m_table = False,
           m_fields =
            [\<lparr>f_name = ''name'', f_ann = AStr, f_default = None, f_pk = False, f_fk = None\<rparr>,
             \<lparr>f_name = ''conffile'', f_ann = AStr, f_default = None, f_pk = False, f_fk = None\<rparr>,
             \<lparr>f_name = ''status'', f_ann = AStr, f_default = None, f_pk = False, f_fk = None\<rparr>],
           m_rels = []\<rparr>),
      (''MSiteRead'',
        \<lparr>m_bases = [''MSiteBase''], m_table = False,
           m_fields =
            [\<lparr>f_name = ''name'', f_ann = AStr, f_default = None, f_pk = False, f_fk = None\<rparr>,
             \<lparr>f_name = ''conffile'', f_ann = AStr, f_default = None, f_pk = False, f_fk = None\<rparr>,
             \<lparr>f_name = ''status'', f_ann = AStr, f_default = None, f_pk = False, f_fk = None\<rparr>,
             \<lparr>f_name = ''id'', f_ann = AInt, f_default = None, f_pk = False, f_fk = None\<rparr>],
           m_rels = []\<rparr>),
      (''MSite'',
        \<lparr>m_bases = [''MSiteBase''], m_table = True,
           m_fields =
            [\<lparr>f_name = ''name'', f_ann = AStr, f_default = None, f_pk = False, f_fk = None\<rparr>,
             \<lparr>f_name = ''conffile'', f_ann = AStr, f_default = None, f_pk = False, f_fk = None\<rparr>,
             \<lparr>f_name = ''status'', f_ann = AStr, f_default = None, f_pk = False, f_fk = None\<rparr>,
             \<lparr>f_name = ''id'', f_ann = AOptional AInt, f_default = Some PNone, f_pk = True, f_fk = None\<rparr>],
           m_rels =
            [\<lparr>r_name = ''magnets'', r_ann = AList (AFwd ''Magnet''), r_back_populates = ''msites'', r_link_model = ''MagnetMSiteLink''\<rparr>]\<rparr>),
      (''MSiteBase'',
        \<lparr>m_bases = [''SQLModel''], m_table = False,
           m_fields =
            [\<lparr>f_name = ''name'', f_ann = AStr, f_default = None, f_pk = False, f_fk = None\<rparr>,
             \<lparr>f_name = ''conffile'', f_ann = AStr, f_default = None, f_pk = False, f_fk = None\<rparr>,
             \<lparr>f_name = ''status'', f_ann = AStr, f_default = None, f_pk = False, f_fk = None\<rparr>],
           m_rels = []\<rparr>),
      (''MagnetMSiteLink'',
        \<lparr>m_bases = [''SQLModel''], m_table = True,
           m_fields =
            [\<lparr>f_name = ''magnet_id'', f_ann = AOptional AInt, f_default = Some PNone, f_pk = True, f_fk = Some ''magnet.id''\<rparr>,
             \<lparr>f_name = ''msite_id'', f_ann = AOptional AInt, f_default = Some PNone, f_pk = True, f_fk = Some ''msite.id''\<rparr>],
           m_rels = []\<rparr>),
      (''MPartMagnetLink'',
        \<lparr>m_bases = [''SQLModel''], m_table = True,
           m_fields =
            [\<lparr>f_name = ''magnet_id'', f_ann = AOptional AInt, f_default = Some PNone, f_pk = True, f_fk = Some ''magnet.id''\<rparr>,
             \<lparr>f_name = ''mpart_id'', f_ann = AOptional AInt, f_default = Some PNone, f_pk = True, f_fk = Some ''mpart.id''\<rparr>],
           m_rels = []\<rparr>),
      (''MaterialUpdate'',
        \<lparr>m_bases = [''SQLModel''], m_table = False,
           m_fields =
            [\<lparr>f_name = ''name'', f_ann = AStr, f_default = None, f_pk = False, f_fk = None\<rparr>,
             \<lparr>f_name = ''Tref'', f_ann = AFloat, f_default = None, f_pk = False, f_fk = None\<rparr>,
             \<lparr>f_name = ''VolumicMass'', f_ann = AFloat, f_default = None, f_pk = False, f_fk = None\<rparr>,
             \<lparr>f_name = ''SpecificHeat'', f_ann = AFloat, f_default = None, f_pk = False, f_fk = None\<rparr>,
             \<lparr>f_name = ''alpha'', f_ann = AOptional AFloat, f_default = Some (PInt 0), f_pk = False, f_fk = None\<rparr>,
             \<lparr>f_name = ''ElectricalConductivity'', f_ann = AOptional AFloat, f_default = Some (PInt 0), f_pk = False, f_fk = None\<rparr>,
             \<lparr>f_name = ''ThermalConductivity'', f_ann = AFloat, f_default = None, f_pk = False, f_fk = None\<rparr>,
             \<lparr>f_name = ''MagnetPermeability'', f_ann = AFloat, f_default = None, f_pk = False, f_fk = None\<rparr>,
             \<lparr>f_name = ''Young'', f_ann = AFloat, f_default = None, f_pk = False, f_fk = None\<rparr>,
             \<lparr>f_name = ''Poisson'', f_ann = AFloat, f_default = None, f_pk = False, f_fk = None\<rparr>,
             \<lparr>f_name = ''CoefDilatation'', f_ann = AFloat, f_default = None, f_pk = False, f_fk = None\<rparr>,
             \<lparr>f_name = ''ref'', f_ann = AOptional AStr, f_default = Some PNone, f_pk = False, f_fk = None\<rparr>],
           m_rels = []\<rparr>),
      (''MaterialRead'',
        \<lparr>m_bases = [''MaterialBase''], m_table = False,
           m_fields =
            [\<lparr>f_name = ''name'', f_ann = AStr, f_default = None, f_pk = False, f_fk = None\<rparr>,
             \<lparr>f_name = ''Tref'', f_ann = AFloat, f_default = None, f_pk = False, f_fk = None\<rparr>,
             \<lparr>f_name = ''VolumicMass'', f_ann = AFloat, f_default = None, f_pk = False, f_fk = None\<rparr>,
             \<lparr>f_name = ''SpecificHeat'', f_ann = AFloat, f_default = None, f_pk = False, f_fk = None\<rparr>,
             \<lparr>f_name = ''alpha'', f_ann = AOptional AFloat, f_default = Some (PInt 0), f_pk = False, f_fk = None\<rparr>,
             \<lparr>f_name = ''ElectricalConductivity'', f_ann = AOptional AFloat, f_default = Some (PInt 0), f_pk = False, f_fk = None\<rparr>,
             \<lparr>f_name = ''ThermalConductivity'', f_ann = AFloat, f_default = None, f_pk = False, f_fk = None\<rparr>,
             \<lparr>f_name = ''MagnetPermeability'', f_ann = AFloat, f_default = None, f_pk = False, f_fk = None\<rparr>,
             \<lparr>f_name = ''Young'', f_ann = AFloat, f_default = None, f_pk = False, f_fk = None\<rparr>,
             \<lparr>f_name = ''Poisson'', f_ann = AFloat, f_default = None, f_pk = False, f_fk = None\<rparr>,
             \<lparr>f_name = ''CoefDilatation'', f_ann = AFloat, f_default = None, f_pk = False, f_fk = None\<rparr>,
             \<lparr>f_name = ''ref'', f_ann = AOptional AStr, f_default = Some PNone, f_pk = False, f_fk = None\<rparr>,
             \<lparr>f_name = ''id'', f_ann = AInt, f_default = None, f_pk = False, f_fk = None\<rparr>],
           m_rels = []\<rparr>),
      (''MaterialCreate'',
        \<lparr>m_bases = [''MaterialBase''], m_table = False,
           m_fields =
            [\<lparr>f_name = ''name'', f_ann = AStr, f_default = None, f_pk = False, f_fk = None\<rparr>,
             \<lparr>f_name = ''Tref'', f_ann = AFloat, f_default = None, f_pk = False, f_fk = None\<rparr>,
             \<lparr>f_name = ''VolumicMass'', f_ann = AFloat, f_default = None, f_pk = False, f_fk = None\<rparr>,
             \<lparr>f_name = ''SpecificHeat'', f_ann = AFloat, f_default = None, f_pk = False, f_fk = None\<rparr>,
             \<lparr>f_name = ''alpha'', f_ann = AOptional AFloat, f_default = Some (PInt 0), f_pk = False, f_fk = None\<rparr>,
             \<lparr>f_name = ''ElectricalConductivity'', f_ann = AOptional AFloat, f_default = Some (PInt 0), f_pk = False, f_fk = None\<rparr>,
             \<lparr>f_name = ''ThermalConductivity'', f_ann = AFloat, f_default = None, f_pk = False, f_fk = None\<rparr>,
             \<lparr>f_name = ''MagnetPermeability'', f_ann = AFloat, f_default = None, f_pk = False, f_fk = None\<rparr>,
             \<lparr>f_name = ''Young'', f_ann = AFloat, f_default = None, f_pk = False, f_fk = None\<rparr>,
             \<lparr>f_name = ''Poisson'', f_ann = AFloat, f_default = None, f_pk = False, f_fk = None\<rparr>,
             \<lparr>f_name = ''CoefDilatation'', f_ann = AFloat, f_default = None, f_pk = False, f_fk = None\<rparr>,
             \<lparr>f_name = ''ref'', f_ann = AOptional AStr, f_default = Some PNone, f_pk = False, f_fk = None\<rparr>],
           m_rels = []\<rparr>),
      (''Material'',
        \<lparr>m_bases = [''MaterialBase''], m_table = True,
           m_fields =
            [\<lparr>f_name = ''name'', f_ann = AStr, f_default = None, f_pk = False, f_fk = None\<rparr>,
             \<lparr>f_name = ''Tref'', f_ann = AFloat, f_default = None, f_pk = False, f_fk = None\<rparr>,
             \<lparr>f_name = ''VolumicMass'', f_ann = AFloat, f_default = None, f_pk = False, f_fk = None\<rparr>,
             \<lparr>f_name = ''SpecificHeat'', f_ann = AFloat, f_default = None, f_pk = False, f_fk = None\<rparr>,
             \<lparr>f_name = ''alpha'', f_ann = AOptional AFloat, f_default = Some (PInt 0), f_pk = False, f_fk = None\<rparr>,
             \<lparr>f_name = ''ElectricalConductivity'', f_ann = AOptional AFloat, f_default = Some (PInt 0), f_pk = False, f_fk = None\<rparr>,
             \<lparr>f_name = ''ThermalConductivity'', f_ann = AFloat, f_default = None, f_pk = False, f_fk = None\<rparr>,
             \<lparr>f_name = ''MagnetPermeability'', f_ann = AFloat, f_default = None, f_pk = False, f_fk = None\<rparr>,
             \<lparr>f_name = ''Young'', f_ann = AFloat, f_default = None, f_pk = False, f_fk = None\<rparr>,
             \<lparr>f_name = ''Poisson'', f_ann = AFloat, f_default = None, f_pk = False, f_fk = None\<rparr>,
             \<lparr>f_name = ''CoefDilatation'', f_ann = AFloat, f_default = None, f_pk = False, f_fk = None\<rparr>,
             \<lparr>f_name = ''ref'', f_ann = AOptional AStr, f_default = Some PNone, f_pk = False, f_fk = None\<rparr>,
             \<lparr>f_name = ''id'', f_ann = AOptional AInt, f_default = Some PNone, f_pk = True, f_fk = None\<rparr>],
           m_rels = []\<rparr>),
      (''MaterialBase'',
        \<lparr>m_bases = [''SQLModel''], m_table = False,
           m_fields =
            [\<lparr>f_name = ''name'', f_ann = AStr, f_default = None, f_pk = False, f_fk = None\<rparr>,
             \<lparr>f_name = ''Tref'', f_ann = AFloat, f_default = None, f_pk = False, f_fk = None\<rparr>,
             \<lparr>f_name = ''VolumicMass'', f_ann = AFloat, f_default = None, f_pk = False, f_fk = None\<rparr>,
             \<lparr>f_name = ''SpecificHeat'', f_ann = AFloat, f_default = None, f_pk = False, f_fk = None\<rparr>,
             \<lparr>f_name = ''alpha'', f_ann = AOptional AFloat, f_default = Some (PInt 0), f_pk = False, f_fk = None\<rparr>,
             \<lparr>f_name = ''ElectricalConductivity'', f_ann = AOptional AFloat, f_default = Some (PInt 0), f_pk = False, f_fk = None\<rparr>,
             \<lparr>f_name = ''ThermalConductivity'', f_ann = AFloat, f_default = None, f_pk = False, f_fk = None\<rparr>,
             \<lparr>f_name = ''MagnetPermeability'', f_ann = AFloat, f_default = None, f_pk = False, f_fk = None\<rparr>,
             \<lparr>f_name = ''Young'', f_ann = AFloat, f_default = None, f_pk = False, f_fk = None\<rparr>,
             \<lparr>f_name = ''Poisson'', f_ann = AFloat, f_default = None, f_pk = False, f_fk = None\<rparr>,
             \<lparr>f_name = ''CoefDilatation'', f_ann = AFloat, f_default = None, f_pk = False, f_fk = None\<rparr>,
             \<lparr>f_name = ''ref'', f_ann = AOptional AStr, f_default = Some PNone, f_pk = False, f_fk = None\<rparr>],
           m_rels = []\<rparr>),
      (''SQLModel'',
        \<lparr>m_bases = [], m_table = False,
           m_fields = [],
           m_rels = []\<rparr>)]"
  by code_simp

lemma module_runs: "exec_module builtins models = Inr schema"
  unfolding schema_def by code_simp

section \<open>Facts about the functions above\<close>

lemma lefts_map_Inr: "lefts (map Inr ys) = []"
  by (induction ys) simp_all

lemma rights_map_Inr: "rights (map Inr ys) = ys"
  by (induction ys) simp_all

lemma lefts_Nil_D: "lefts xs = [] \<Longrightarrow> xs = map Inr (rights xs)"
  by (induction xs) (auto split: sum.splits)

lemma lefts_mem: "Inl e \<in> set xs \<Longrightarrow> e \<in> set (lefts xs)"
  by (induction xs) (auto split: sum.splits)

lemma lefts_mem_D: "e \<in> set (lefts xs) \<Longrightarrow> Inl e \<in> set xs"
  by (induction xs) (auto split: sum.splits)

lemma collect_map_Inr: "collect (map Inr ys) = Inr ys"
  by (simp add: collect_def lefts_map_Inr rights_map_Inr)

lemma collect_Inr_D: "collect xs = Inr ys \<Longrightarrow> xs = map Inr ys"
  by (auto simp: collect_def split: list.splits dest: lefts_Nil_D)

lemma collect_Inl: "Inl e \<in> set xs \<Longrightarrow> isl (collect xs)"
proof -
  assume "Inl e \<in> set xs"
  then have "lefts xs \<noteq> []"
    by (auto dest: lefts_mem)
  then show ?thesis
    by (auto simp: collect_def split: list.splits)
qed

text \<open>A \<open>ConfigError\<close> among the results is what is raised, whatever the other fields give.\<close>

lemma collect_config:
  assumes "Inl (ConfigError k) \<in> set xs"
    and "\<And>k'. Inl (ConfigError k') \<in> set xs \<Longrightarrow> k' = k"
  shows "collect xs = Inl (ConfigError k)"
proof -
  from assms(1) have "ConfigError k \<in> set (filter is_config (lefts xs))"
    by (auto dest: lefts_mem)
  then obtain e rest where f: "filter is_config (lefts xs) = e # rest"
    by (cases "filter is_config (lefts xs)") auto
  then have "e \<in> set (filter is_config (lefts xs))" by simp
  then have e: "is_config e" "Inl e \<in> set xs"
    by (auto dest: lefts_mem_D)
  from e(1) obtain k' where k': "e = ConfigError k'"
    by (cases e) simp_all
  with e(2) have "k' = k" by (auto dest: assms(2))
  with f k' show ?thesis
    by (simp add: collect_def)
qed

lemma validate_has_type: "has_type a v \<Longrightarrow> validate a v = Accepted v"
  by (induction a v rule: has_type.induct) (auto split: pyval.splits)

lemma has_type_None: "has_type a PNone \<Longrightarrow> is_optional a"
  by (cases a) auto

lemma kind_of_scalar: "element_model a = None \<Longrightarrow> kind_of a = Scalar"
  by (induction a rule: kind_of.induct) auto

lemma bind_field_ok:
  "field_ok p f \<Longrightarrow> kind_of (f_ann f) = Scalar \<Longrightarrow> bind_field p f = Inr (f_name f, field_value p f)"
  by (auto simp: bind_field_def bind_default_def field_value_def field_ok_def validate_has_type
      split: option.splits)

lemma field_value_not_null:
  "field_ok p f \<Longrightarrow> \<not> is_optional (f_ann f) \<Longrightarrow> f_default f \<noteq> Some PNone \<Longrightarrow> field_value p f \<noteq> PNone"
  by (auto simp: field_value_def field_ok_def split: option.splits field_kind.splits
      dest: has_type_None)

lemma bind_nested_scalars:
  "list_all (\<lambda>f. element_model (f_ann f) = None) fs \<Longrightarrow> list_all (field_ok p) fs \<Longrightarrow>
   map (bind_nested p) fs = map Inr (map (\<lambda>f. (f_name f, field_value p f)) fs)"
  by (induction fs) (simp_all add: bind_nested_def bind_field_ok kind_of_scalar)

lemma instantiate_flat:
  assumes "map_of schema c = Some m" "flat c" "fits c p"
  shows "instantiate c p = Inr (new_row c p)"
proof -
  have fs: "fields_of c = m_fields m"
    using assms(1) by (simp add: fields_of_def)
  have "map (bind_nested p) (m_fields m) = map Inr (map (\<lambda>f. (f_name f, field_value p f)) (m_fields m))"
    using assms(2,3) unfolding flat_def fits_def fs by (rule bind_nested_scalars)
  then have "collect (map (bind_nested p) (m_fields m)) = Inr (map (\<lambda>f. (f_name f, field_value p f)) (m_fields m))"
    by (simp only: collect_map_Inr)
  then show ?thesis
    by (simp add: instantiate_def assms(1) new_row_def fs)
qed

lemma fold_max_ge: "(a::int) \<le> fold max xs a"
proof (induction xs arbitrary: a)
  case Nil
  show ?case by simp
next
  case (Cons x xs)
  have "a \<le> max x a" by simp
  also have "\<dots> \<le> fold max xs (max x a)" by (rule Cons.IH)
  finally show ?case by simp
qed

lemma fold_max_mem: "x \<in> set xs \<Longrightarrow> (x::int) \<le> fold max xs a"
proof (induction xs arbitrary: a)
  case Nil
  then show ?case by simp
next
  case (Cons y ys)
  show ?case
  proof (cases "x = y")
    case True
    have "x \<le> max y a" using True by simp
    also have "\<dots> \<le> fold max ys (max y a)" by (rule fold_max_ge)
    finally show ?thesis by simp
  next
    case False
    with Cons.prems have "x \<in> set ys" by simp
    then show ?thesis by (simp add: Cons.IH)
  qed
qed

lemma next_id_fresh: "s \<in> set rows \<Longrightarrow> col s k \<noteq> PInt (next_id rows k)"
proof
  assume s: "s \<in> set rows" and eq: "col s k = PInt (next_id rows k)"
  from s obtain r rs where rows: "rows = r # rs"
    by (cases rows) auto
  have "int_of (col s k) \<le> fold max (map (\<lambda>s. int_of (col s k)) rs) (int_of (col r k))"
  proof (cases "s = r")
    case True
    then show ?thesis by (simp add: fold_max_ge)
  next
    case False
    with s rows have "int_of (col s k) \<in> set (map (\<lambda>s. int_of (col s k)) rs)"
      by auto
    then show ?thesis by (rule fold_max_mem)
  qed
  with eq show False by (simp add: next_id_def rows)
qed

lemma col_set_col: "col (set_col k v r) k' = (if k' = k then v else col r k')"
  by (induction r) (auto simp: col_def)

lemma insert_with_InrD:
  assumes "insert_with e d c r = Inr d'"
  shows "\<exists>m. map_of schema c = Some m \<and> m_table m
     \<and> filter (\<lambda>f. \<not> nullable f \<and> col (assign_key c (d (tablename c)) r) (f_name f) = PNone)
          (m_fields m) = []
     \<and> \<not> list_ex (same_key (pk_cols c) (assign_key c (d (tablename c)) r)) (d (tablename c))
     \<and> d' = d(tablename c := d (tablename c) @ [assign_key c (d (tablename c)) r])"
  using assms
  by (simp add: insert_with_def Let_def split: option.splits if_splits list.splits)

lemma insert_with_InrI:
  assumes "map_of schema c = Some m" "m_table m"
    and "filter (\<lambda>f. \<not> nullable f \<and> col (assign_key c (d (tablename c)) r) (f_name f) = PNone)
          (m_fields m) = []"
    and "\<not> list_ex (same_key (pk_cols c) (assign_key c (d (tablename c)) r)) (d (tablename c))"
    and "e \<Longrightarrow> filter (fk_broken d (assign_key c (d (tablename c)) r)) (m_fields m) = []"
  shows "insert_with e d c r = Inr (d(tablename c := d (tablename c) @ [assign_key c (d (tablename c)) r]))"
  using assms by (simp add: insert_with_def Let_def)

lemma insert_row_InrD:
  assumes "insert_row d c r = Inr d'"
  shows "\<exists>m. map_of schema c = Some m \<and> m_table m
     \<and> filter (\<lambda>f. \<not> nullable f \<and> col (assign_key c (d (tablename c)) r) (f_name f) = PNone)
          (m_fields m) = []
     \<and> \<not> list_ex (same_key (pk_cols c) (assign_key c (d (tablename c)) r)) (d (tablename c))
     \<and> d' = d(tablename c := d (tablename c) @ [assign_key c (d (tablename c)) r])"
  using assms unfolding insert_row_def by (rule insert_with_InrD)

lemma insert_row_InrI:
  assumes "map_of schema c = Some m" "m_table m"
    and "filter (\<lambda>f. \<not> nullable f \<and> col (assign_key c (d (tablename c)) r) (f_name f) = PNone)
          (m_fields m) = []"
    and "\<not> list_ex (same_key (pk_cols c) (assign_key c (d (tablename c)) r)) (d (tablename c))"
  shows "insert_row d c r = Inr (d(tablename c := d (tablename c) @ [assign_key c (d (tablename c)) r]))"
  unfolding insert_row_def using assms by (rule insert_with_InrI) simp

lemma bind_flat_fits:
  "list_all (\<lambda>f. element_model (f_ann f) = None) fs \<Longrightarrow> list_all (field_ok p) fs \<Longrightarrow>
   bind_flat p fs = Inr (map (\<lambda>f. (f_name f, field_value p f)) fs)"
proof -
  assume "list_all (\<lambda>f. element_model (f_ann f) = None) fs" "list_all (field_ok p) fs"
  then have "map (bind_field p) fs = map Inr (map (\<lambda>f. (f_name f, field_value p f)) fs)"
    by (induction fs) (simp_all add: bind_field_ok kind_of_scalar)
  then show ?thesis
    by (simp only: bind_flat_def collect_map_Inr)
qed

lemma as_model_fits:
  "flat c \<Longrightarrow> fits c (map_of s) \<Longrightarrow> as_model c (PObj s) = Inr (PObj (new_row c (map_of s)))"
  by (simp add: as_model_def fits_def flat_def bind_flat_fits new_row_def)

lemma collect_as_model:
  "flat c \<Longrightarrow> list_all (\<lambda>s. fits c (map_of s)) rs \<Longrightarrow>
   collect (map (as_model c) (map PObj rs)) = Inr (map (\<lambda>s. PObj (new_row c (map_of s))) rs)"
proof -
  assume "flat c" "list_all (\<lambda>s. fits c (map_of s)) rs"
  then have "map (as_model c) (map PObj rs) = map Inr (map (\<lambda>s. PObj (new_row c (map_of s))) rs)"
    by (induction rs) (simp_all add: as_model_fits)
  then show ?thesis
    by (simp only: collect_map_Inr)
qed

lemma field_ok_cong: "p (f_name f) = q (f_name f) \<Longrightarrow> field_ok p f = field_ok q f"
  by (simp add: field_ok_def)

lemma field_value_cong: "p (f_name f) = q (f_name f) \<Longrightarrow> field_value p f = field_value q f"
  by (simp add: field_value_def)

lemma bind_nested_fst: "bind_nested p f = Inr kv \<Longrightarrow> fst kv = f_name f"
  by (auto simp: bind_nested_def bind_field_def bind_default_def coerce_def
      split: sum.splits option.splits if_splits pyval.splits field_kind.splits conv.splits)

text \<open>A field the payload leaves out takes its default, whatever its kind.\<close>

lemma bind_nested_omitted:
  "p (f_name f) = None \<Longrightarrow> bind_nested p f = bind_default f"
  by (simp add: bind_nested_def bind_field_def split: field_kind.splits)

lemma instantiate_InrD:
  assumes "instantiate c p = Inr ob"
  shows "map (bind_nested p) (fields_of c) = map Inr ob"
  using assms
  by (auto simp: instantiate_def fields_of_def split: option.splits dest: collect_Inr_D)

lemma bind_nested_keys:
  "map (bind_nested p) fs = map Inr ob \<Longrightarrow> map fst ob = map f_name fs"
  by (induction fs arbitrary: ob) (auto dest: bind_nested_fst)

lemma instantiate_keys: "instantiate c p = Inr ob \<Longrightarrow> map fst ob = field_names c"
  unfolding field_names_def by (rule bind_nested_keys) (rule instantiate_InrD)

lemma required_field_missing:
  assumes "k \<in> set (required_names c)" "p k = None"
  shows "isl (instantiate c p)"
proof (cases "map_of schema c")
  case None
  then show ?thesis by (simp add: instantiate_def)
next
  case (Some m)
  from assms(1) obtain f where f: "f \<in> set (m_fields m)" "f_default f = None" "f_name f = k"
    by (auto simp: required_names_def fields_of_def Some)
  with assms(2) have "bind_nested p f = Inl (ValidationError k)"
    by (simp add: bind_nested_omitted bind_default_def)
  with f(1) have "Inl (ValidationError k) \<in> set (map (bind_nested p) (m_fields m))"
    by (metis (no_types, lifting) image_eqI list.set_map)
  then show ?thesis
    by (simp add: instantiate_def Some collect_Inl)
qed

text \<open>What validation accepts has the type of the annotation.\<close>

lemma parse_int_Accepted: "parse_int s = Accepted w \<Longrightarrow> \<exists>i. w = PInt i"
  by (auto simp: parse_int_def split: if_splits)

lemma validate_Accepted: "validate a v = Accepted w \<Longrightarrow> has_type a w"
  by (induction a v rule: validate.induct)
     (auto split: pyval.splits if_splits dest: parse_int_Accepted)

lemma bind_field_typed:
  assumes "bind_field p f = Inr kv"
  shows "fst kv = f_name f \<and> (has_type (f_ann f) (snd kv) \<or> f_default f = Some (snd kv))"
  using assms
  by (auto simp: bind_field_def bind_default_def split: option.splits conv.splits
      dest: validate_Accepted)

lemma bind_nested_typed:
  "list_all (\<lambda>f. element_model (f_ann f) = None) fs \<Longrightarrow> map (bind_nested p) fs = map Inr ob \<Longrightarrow>
   list_all2 (\<lambda>f kv. fst kv = f_name f \<and> (has_type (f_ann f) (snd kv) \<or> f_default f = Some (snd kv)))
     fs ob"
proof (induction fs arbitrary: ob)
  case Nil
  then show ?case by simp
next
  case (Cons f fs)
  from Cons.prems(2) obtain kv ob' where ob: "ob = kv # ob'"
    and kv: "bind_nested p f = Inr kv" and rest: "map (bind_nested p) fs = map Inr ob'"
    by (cases ob) auto
  from Cons.prems(1) have "kind_of (f_ann f) = Scalar"
    by (simp add: kind_of_scalar)
  with kv have "bind_field p f = Inr kv"
    by (simp add: bind_nested_def)
  then have "fst kv = f_name f \<and> (has_type (f_ann f) (snd kv) \<or> f_default f = Some (snd kv))"
    by (rule bind_field_typed)
  moreover from Cons.prems(1) rest have "list_all2
      (\<lambda>f kv. fst kv = f_name f \<and> (has_type (f_ann f) (snd kv) \<or> f_default f = Some (snd kv))) fs ob'"
    by (simp add: Cons.IH)
  ultimately show ?case by (simp add: ob)
qed

lemma instantiate_typed:
  assumes "instantiate c p = Inr ob" "flat c"
  shows "list_all2 (\<lambda>f kv. fst kv = f_name f \<and> (has_type (f_ann f) (snd kv) \<or> f_default f = Some (snd kv)))
     (fields_of c) ob"
  using assms(2) instantiate_InrD [OF assms(1)] unfolding flat_def by (rule bind_nested_typed)

lemma col_write_columns:
  "k \<in> set (field_names c) \<Longrightarrow>
   col (write_columns c ob s) k = (case map_of (rev ob) k of Some v \<Rightarrow> v | None \<Rightarrow> col s k)"
proof (induction ob arbitrary: s)
  case Nil
  then show ?case by (simp add: write_columns_def)
next
  case (Cons kv ob)
  have "write_columns c (kv # ob) s =
      write_columns c ob (if fst kv \<in> set (field_names c) then set_col (fst kv) (snd kv) s else s)"
    by (simp add: write_columns_def)
  with Cons show ?case
    by (auto simp: col_set_col map_of_append split: option.splits)
qed

lemma col_write_columns_other:
  "k \<notin> fst ` set ob \<Longrightarrow> col (write_columns c ob s) k = col s k"
proof (induction ob arbitrary: s)
  case Nil
  then show ?case by (simp add: write_columns_def)
next
  case (Cons kv ob)
  have "write_columns c (kv # ob) s =
      write_columns c ob (if fst kv \<in> set (field_names c) then set_col (fst kv) (snd kv) s else s)"
    by (simp add: write_columns_def)
  with Cons show ?case
    by (auto simp: col_set_col)
qed

lemma insert_links_frame:
  "insert_links d l rs = Inr d' \<Longrightarrow> t \<noteq> tablename l \<Longrightarrow> d' t = d t"
proof (induction rs arbitrary: d)
  case Nil
  then show ?case by simp
next
  case (Cons r rs)
  from Cons.prems(1) obtain d1 where 1: "insert_row d l r = Inr d1" and 2: "insert_links d1 l rs = Inr d'"
    by (auto split: sum.splits)
  from insert_row_InrD [OF 1] Cons.prems(2) have "d1 t = d t" by auto
  with Cons.IH [OF 2 Cons.prems(2)] show ?case by simp
qed

lemma map_of_rev_distinct: "distinct (map fst xs) \<Longrightarrow> map_of (rev xs) = map_of xs"
proof (induction xs)
  case Nil
  show ?case by simp
next
  case (Cons a xs)
  then have ih: "map_of (rev xs) = map_of xs" and new: "map_of xs (fst a) = None"
    by (auto simp: map_of_eq_None_iff)
  show ?case
  proof
    fix k
    show "map_of (rev (a # xs)) k = map_of (a # xs) k"
      using new by (cases a) (auto simp: map_of_append ih map_add_def split: option.splits)
  qed
qed

lemma bind_nested_mem:
  "map (bind_nested p) fs = map Inr ob \<Longrightarrow> f \<in> set fs \<Longrightarrow> bind_nested p f = Inr kv \<Longrightarrow> kv \<in> set ob"
  by (induction fs arbitrary: ob) auto

lemma instantiate_field:
  assumes "instantiate c p = Inr ob" "f \<in> set (fields_of c)" "bind_nested p f = Inr (k, v)"
    and "distinct (field_names c)"
  shows "map_of ob k = Some v"
proof -
  have "(k, v) \<in> set ob"
    using instantiate_InrD [OF assms(1)] assms(2,3) by (rule bind_nested_mem)
  moreover have "distinct (map fst ob)"
    using assms(4) by (simp add: instantiate_keys [OF assms(1)])
  ultimately show ?thesis by (rule map_of_is_SomeI [rotated])
qed

lemma bind_nested_ex:
  "map (bind_nested p) fs = map Inr ob \<Longrightarrow> f \<in> set fs \<Longrightarrow> \<exists>kv. bind_nested p f = Inr kv \<and> kv \<in> set ob"
  by (induction fs arbitrary: ob) auto

lemma collect_Nil: "collect [] = Inr []"
  by (simp add: collect_def)

text \<open>
  A list field with default \<open>[]\<close> that the payload leaves empty is the empty list in
  the object, when the object is built.
\<close>

lemma list_field_left_empty:
  assumes "instantiate c p = Inr ob" "f \<in> set (fields_of c)" "f_default f = Some (PList [])"
    and "kind_of (f_ann f) \<noteq> Scalar" "left_empty p (f_name f)" "distinct (field_names c)"
  shows "map_of ob (f_name f) = Some (PList [])"
proof -
  from bind_nested_ex [OF instantiate_InrD [OF assms(1)] assms(2)]
  obtain kv where kv: "bind_nested p f = Inr kv" "kv \<in> set ob"
    by blast
  from kv(1) assms(3-5) have "kv = (f_name f, PList [])"
    by (auto simp: bind_nested_def bind_default_def coerce_def collect_Nil left_empty_def
        split: field_kind.splits)
  with kv(2) have "(f_name f, PList []) \<in> set ob" by simp
  moreover have "distinct (map fst ob)"
    using assms(6) by (simp add: instantiate_keys [OF assms(1)])
  ultimately show ?thesis by (rule map_of_is_SomeI [rotated])
qed

text \<open>Any value supplied for a list field that was never prepared is a \<open>ConfigError\<close>.\<close>

lemma bind_nested_config:
  "bind_nested p g = Inl (ConfigError k) \<Longrightarrow> k = f_name g \<and> (\<exists>x. kind_of (f_ann g) = Unprepared x)"
proof -
  have r: "relabel k' e \<noteq> ConfigError k" for k' e
    by (cases e) simp_all
  assume "bind_nested p g = Inl (ConfigError k)"
  then show ?thesis
    by (auto simp: bind_nested_def bind_field_def bind_default_def coerce_def r
        split: field_kind.splits option.splits conv.splits pyval.splits sum.splits)
qed

lemma unprepared_raises:
  assumes "map_of schema c = Some m" "f \<in> set (m_fields m)" "kind_of (f_ann f) = Unprepared x"
    and "p (f_name f) = Some v"
    and "\<And>g y. g \<in> set (m_fields m) \<Longrightarrow> kind_of (f_ann g) = Unprepared y \<Longrightarrow> f_name g = f_name f"
  shows "instantiate c p = Inl (ConfigError (f_name f))"
proof -
  have "bind_nested p f = Inl (ConfigError (f_name f))"
    using assms(3,4) by (simp add: bind_nested_def)
  with assms(2) have "Inl (ConfigError (f_name f)) \<in> set (map (bind_nested p) (m_fields m))"
    by (metis (no_types, lifting) image_eqI list.set_map)
  moreover have "k' = f_name f" if "Inl (ConfigError k') \<in> set (map (bind_nested p) (m_fields m))" for k'
  proof -
    from that obtain g where g: "g \<in> set (m_fields m)" "bind_nested p g = Inl (ConfigError k')"
      by auto
    from bind_nested_config [OF g(2)] g(1) show ?thesis
      by (auto dest: assms(5))
  qed
  ultimately have "collect (map (bind_nested p) (m_fields m)) = Inl (ConfigError (f_name f))"
    by (rule collect_config)
  then show ?thesis
    by (simp add: instantiate_def assms(1))
qed

text \<open>
  A fitting payload that leaves every list field empty builds the object: the scalar
  fields as the payload or the defaults have them, the list fields empty.
\<close>

lemma bind_nested_lists_empty:
  "list_all (field_ok p) fs \<Longrightarrow>
   list_all (\<lambda>f. kind_of (f_ann f) = Scalar \<or> f_default f = Some (PList []) \<and> left_empty p (f_name f)) fs \<Longrightarrow>
   map (bind_nested p) fs =
     map Inr (map (\<lambda>f. (f_name f, if kind_of (f_ann f) = Scalar then field_value p f else PList [])) fs)"
proof (induction fs)
  case Nil
  show ?case by simp
next
  case (Cons f fs)
  have "bind_nested p f = Inr (f_name f, if kind_of (f_ann f) = Scalar then field_value p f else PList [])"
  proof (cases "kind_of (f_ann f) = Scalar")
    case True
    with Cons.prems(1) show ?thesis
      by (simp add: bind_nested_def bind_field_ok)
  next
    case False
    with Cons.prems have "f_default f = Some (PList [])" "left_empty p (f_name f)" "field_ok p f"
      by simp_all
    with False show ?thesis
      by (auto simp: bind_nested_def bind_default_def coerce_def collect_Nil left_empty_def
          field_ok_def split: field_kind.splits)
  qed
  with Cons show ?case by simp
qed

lemma instantiate_lists_empty:
  assumes "map_of schema c = Some m" "fits c p"
    and "list_all (\<lambda>f. kind_of (f_ann f) = Scalar \<or> f_default f = Some (PList []) \<and> left_empty p (f_name f))
           (fields_of c)"
  shows "\<exists>ob. instantiate c p = Inr ob"
proof -
  have fs: "fields_of c = m_fields m"
    using assms(1) by (simp add: fields_of_def)
  from bind_nested_lists_empty [OF assms(2) [unfolded fits_def] assms(3)]
  have "collect (map (bind_nested p) (m_fields m)) =
      Inr (map (\<lambda>f. (f_name f, if kind_of (f_ann f) = Scalar then field_value p f else PList []))
             (m_fields m))"
    by (simp only: fs collect_map_Inr)
  then show ?thesis
    by (simp add: instantiate_def assms(1))
qed

text \<open>Replacing by nothing always succeeds, and removes the link rows of the entity.\<close>

lemma replace_links_empty:
  "replace_links d c rel r [] =
     Inr (case join_of c (r_name rel) of
            None \<Rightarrow> d
          | Some j \<Rightarrow> d(j_link j :=
              filter (\<lambda>l. \<not> joins (col l (j_self j)) (col r (j_self_key j))) (d (j_link j))))"
  by (simp add: replace_links_def split: option.splits)

lemma replace_all_links_empty:
  "list_all (\<lambda>rel. map_of ob (r_name rel) = Some (PList [])) rels \<Longrightarrow>
   \<exists>d'. replace_all_links d c r ob rels = Inr d'"
  by (induction rels arbitrary: d) (simp_all add: replace_links_empty)

lemma apply_update_InrD:
  assumes "apply_update d c u key p = Inr d'" "pk_cols c = [k]"
    and "find (\<lambda>r. joins (col r k) key) (d (tablename c)) = Some r"
  shows "\<exists>ob. instantiate u p = Inr ob
     \<and> replace_all_links
          (d(tablename c := map (\<lambda>s. if joins (col s k) key then write_columns c ob s else s)
                              (d (tablename c))))
          c r ob (rels_of c) = Inr d'"
  using assms by (auto simp: apply_update_def split: sum.splits)

lemma apply_update_total:
  assumes "instantiate u p = Inr ob" "pk_cols c = [k]"
    and "find (\<lambda>r. joins (col r k) key) (d (tablename c)) = Some r"
    and "list_all (\<lambda>rel. map_of ob (r_name rel) = Some (PList [])) (rels_of c)"
  shows "\<exists>d'. apply_update d c u key p = Inr d'"
proof -
  from replace_all_links_empty [OF assms(4)]
  obtain d' where "replace_all_links
          (d(tablename c := map (\<lambda>s. if joins (col s k) key then write_columns c ob s else s)
                              (d (tablename c))))
          c r ob (rels_of c) = Inr d'"
    by blast
  then show ?thesis
    by (simp add: apply_update_def assms(1-3))
qed

lemma apply_update_Invalid: "instantiate u p = Inl e \<Longrightarrow> apply_update d c u key p = Inl (Invalid e)"
  by (simp add: apply_update_def)

lemma split_fk_values:
  "split_fk ''magnet.id'' = (''magnet'', ''id'')"
  "split_fk ''mpart.id'' = (''mpart'', ''id'')"
  "split_fk ''msite.id'' = (''msite'', ''id'')"
  "split_fk ''material.id'' = (''material'', ''id'')"
  by (simp_all add: split_fk_def)

section \<open>Create and Read shapes\<close>

text \<open>
  Claim C1. For every entity the Create shape has exactly the fields of the Base shape,
  and no Create shape has an \<open>id\<close> field. The first half holds for the five entities,
  and the Create shapes of Material, MSite, Magnet and MPart have no \<open>id\<close>. The
  second half fails for MRecord: \<open>MRecordBase\<close> declares \<open>id\<close> as an optional primary
  key itself (the other four Base shapes leave the key to the table class, and the table
  class \<open>MRecord\<close> declares the same \<open>id\<close> once more), so \<open>MRecordCreate\<close> has the
  field, and a payload that sets \<open>id\<close> keeps it in the Create object.
\<close>

theorem MRecordCreate_exposes_id:
  "list_all (\<lambda>e. fields_of (create_of e) = fields_of (base_of e) \<and> fields_of (base_of e) \<noteq> [])
     entities
   \<and> list_all (\<lambda>e. ''id'' \<notin> set (field_names (create_of e)))
         [''Material'', ''MSite'', ''Magnet'', ''MPart'']
   \<and> field_names ''MRecordCreate'' = [''id'', ''timestamp'', ''name'', ''msite_id'']
   \<and> get_field ''MRecordCreate'' ''id'' =
         Some \<lparr>f_name = ''id'', f_ann = AOptional AInt, f_default = Some PNone,
                f_pk = True, f_fk = None\<rparr>
   \<and> instantiate ''MRecordCreate''
         (map_of [(''id'', PInt 7), (''timestamp'', PStr ''t0''), (''name'', PStr ''run'')])
       = Inr [(''id'', PInt 7), (''timestamp'', PStr ''t0''), (''name'', PStr ''run''),
              (''msite_id'', PNone)]"
  by code_simp

text \<open>
  Claim C6. For every entity the Read shape has the field names of the persisted (table)
  class, which are the names of the Base shape and \<open>id\<close>; the fields other than \<open>id\<close>
  are those of the Base shape, unchanged, in the Read shape as in the table class; and
  \<open>id\<close> is a required integer in the Read shape (annotation \<open>int\<close>, no default), where
  the table class has it optional with default \<open>None\<close>. The relationship attributes of
  the table classes are not fields.
\<close>

theorem read_has_persisted_fields:
  "list_all (\<lambda>e.
      set (field_names (read_of e)) = set (field_names e)
    \<and> set (field_names (read_of e)) = set (field_names (base_of e)) \<union> {''id''}
    \<and> distinct (field_names (read_of e))
    \<and> distinct (field_names e)
    \<and> drop_id (fields_of (read_of e)) = drop_id (fields_of (base_of e))
    \<and> drop_id (fields_of e) = drop_id (fields_of (base_of e))
    \<and> get_field (read_of e) ''id'' =
         Some \<lparr>f_name = ''id'', f_ann = AInt, f_default = None, f_pk = False, f_fk = None\<rparr>
    \<and> get_field e ''id'' =
         Some \<lparr>f_name = ''id'', f_ann = AOptional AInt, f_default = Some PNone,
                f_pk = True, f_fk = None\<rparr>)
     entities"
  by code_simp

section \<open>Foreign keys without navigation, and the expanded Read shape of MPart\<close>

text \<open>
  Claim C8. The table class \<open>MPart\<close> has the column \<open>material_id\<close>, a foreign key to
  \<open>material.id\<close> (the primary key of the table of \<open>Material\<close>), and \<open>MRecord\<close> has
  \<open>msite_id\<close>, a foreign key to \<open>msite.id\<close>. Neither class has an attribute that leads
  to the referenced entity: \<open>MPart\<close> has no attribute \<open>material\<close> and its only
  relationship goes to \<open>Magnet\<close>; \<open>MRecord\<close> has no attribute \<open>msite\<close> and no
  relationship at all; and nothing leads back from \<open>Material\<close> to its parts or from
  \<open>MSite\<close> to its records.
\<close>

theorem foreign_keys_not_navigable:
  "get_field ''MPart'' ''material_id'' =
     Some \<lparr>f_name = ''material_id'', f_ann = AOptional AInt, f_default = Some PNone,
            f_pk = False, f_fk = Some ''material.id''\<rparr>
   \<and> split_fk ''material.id'' = (tablename ''Material'', ''id'')
   \<and> pk_cols ''Material'' = [''id'']
   \<and> attr_names ''MPart'' =
         [''name'', ''type'', ''be'', ''geom'', ''status'', ''material_id'', ''id'', ''magnets'']
   \<and> ''material'' \<notin> set (attr_names ''MPart'')
   \<and> map (\<lambda>r. (r_name r, element_model (r_ann r))) (rels_of ''MPart'') =
         [(''magnets'', Some ''Magnet'')]
   \<and> get_field ''MRecord'' ''msite_id'' =
         Some \<lparr>f_name = ''msite_id'', f_ann = AOptional AInt, f_default = Some PNone,
                f_pk = False, f_fk = Some ''msite.id''\<rparr>
   \<and> split_fk ''msite.id'' = (tablename ''MSite'', ''id'')
   \<and> pk_cols ''MSite'' = [''id'']
   \<and> attr_names ''MRecord'' = [''id'', ''timestamp'', ''name'', ''msite_id'']
   \<and> ''msite'' \<notin> set (attr_names ''MRecord'')
   \<and> rels_of ''MRecord'' = []
   \<and> rels_of ''Material'' = []
   \<and> map (\<lambda>r. (r_name r, element_model (r_ann r))) (rels_of ''MSite'') =
         [(''magnets'', Some ''Magnet'')]"
  by code_simp

text \<open>
  Claim C10. \<open>MPartReadWithMagnet\<close> extends \<open>MPartRead\<close> by one field, \<open>magnets\<close>, a
  list of \<open>MagnetRead\<close> with the empty list as its default: a payload without
  \<open>magnets\<close> gives the empty list, and a listed magnet is rebuilt as a \<open>MagnetRead\<close>
  (its other attributes are dropped).
\<close>

theorem MPartReadWithMagnet_shape:
  "map_of schema ''MPartReadWithMagnet'' =
     Some \<lparr>m_bases = [''MPartRead''], m_table = False,
            m_fields = fields_of ''MPartRead'' @
              [\<lparr>f_name = ''magnets'', f_ann = AList (AName ''MagnetRead''),
                f_default = Some (PList []), f_pk = False, f_fk = None\<rparr>],
            m_rels = []\<rparr>
   \<and> fields_of ''MPartRead'' \<noteq> []
   \<and> instantiate ''MPartReadWithMagnet''
         (map_of [(''name'', PStr ''H1''), (''type'', PStr ''helix''), (''be'', PStr ''b''),
                  (''geom'', PStr ''g''), (''status'', PStr ''ok''), (''id'', PInt 4)])
       = Inr [(''name'', PStr ''H1''), (''type'', PStr ''helix''), (''be'', PStr ''b''),
              (''geom'', PStr ''g''), (''status'', PStr ''ok''), (''material_id'', PNone),
              (''id'', PInt 4), (''magnets'', PList [])]
   \<and> instantiate ''MPartReadWithMagnet''
         (map_of [(''name'', PStr ''H1''), (''type'', PStr ''helix''), (''be'', PStr ''b''),
                  (''geom'', PStr ''g''), (''status'', PStr ''ok''), (''id'', PInt 4),
                  (''magnets'', PList [PObj [(''id'', PInt 9), (''name'', PStr ''M9''),
                      (''be'', PStr ''b''), (''geom'', PStr ''g''), (''status'', PStr ''ok''),
                      (''mparts'', PList [])]])])
       = Inr [(''name'', PStr ''H1''), (''type'', PStr ''helix''), (''be'', PStr ''b''),
              (''geom'', PStr ''g''), (''status'', PStr ''ok''), (''material_id'', PNone),
              (''id'', PInt 4),
              (''magnets'', PList [PObj [(''name'', PStr ''M9''), (''be'', PStr ''b''),
                  (''geom'', PStr ''g''), (''status'', PStr ''ok''), (''id'', PInt 9)]])]"
  by code_simp

section \<open>Defaults of the optional fields of Material\<close>

lemma Material_class:
  "map_of schema ''Material'' = Some \<lparr>m_bases = [''MaterialBase''], m_table = True,
      m_fields = fields_of ''Material'', m_rels = []\<rparr>"
  "map_of schema ''MaterialCreate'' = Some \<lparr>m_bases = [''MaterialBase''], m_table = False,
      m_fields = fields_of ''MaterialCreate'', m_rels = []\<rparr>"
  "flat ''MaterialCreate''"
  "tablename ''Material'' = ''material''"
  "pk_cols ''Material'' = [''id'']"
  by code_simp+

lemma fields_MaterialCreate:
  "fields_of ''MaterialCreate'' =
     [\<lparr>f_name = ''name'', f_ann = AStr, f_default = None, f_pk = False, f_fk = None\<rparr>,
      \<lparr>f_name = ''Tref'', f_ann = AFloat, f_default = None, f_pk = False, f_fk = None\<rparr>,
      \<lparr>f_name = ''VolumicMass'', f_ann = AFloat, f_default = None, f_pk = False, f_fk = None\<rparr>,
      \<lparr>f_name = ''SpecificHeat'', f_ann = AFloat, f_default = None, f_pk = False, f_fk = None\<rparr>,
      \<lparr>f_name = ''alpha'', f_ann = AOptional AFloat, f_default = Some (PInt 0), f_pk = False, f_fk = None\<rparr>,
      \<lparr>f_name = ''ElectricalConductivity'', f_ann = AOptional AFloat, f_default = Some (PInt 0), f_pk = False, f_fk = None\<rparr>,
      \<lparr>f_name = ''ThermalConductivity'', f_ann = AFloat, f_default = None, f_pk = False, f_fk = None\<rparr>,
      \<lparr>f_name = ''MagnetPermeability'', f_ann = AFloat, f_default = None, f_pk = False, f_fk = None\<rparr>,
      \<lparr>f_name = ''Young'', f_ann = AFloat, f_default = None, f_pk = False, f_fk = None\<rparr>,
      \<lparr>f_name = ''Poisson'', f_ann = AFloat, f_default = None, f_pk = False, f_fk = None\<rparr>,
      \<lparr>f_name = ''CoefDilatation'', f_ann = AFloat, f_default = None, f_pk = False, f_fk = None\<rparr>,
      \<lparr>f_name = ''ref'', f_ann = AOptional AStr, f_default = Some PNone, f_pk = False, f_fk = None\<rparr>]"
  by code_simp

lemma fields_Material:
  "fields_of ''Material'' = fields_of ''MaterialCreate'' @
     [\<lparr>f_name = ''id'', f_ann = AOptional AInt, f_default = Some PNone, f_pk = True, f_fk = None\<rparr>]"
  by code_simp

lemma Material_row:
  "new_row ''Material'' (map_of (new_row ''MaterialCreate'' p)) =
     new_row ''MaterialCreate'' p @ [(''id'', PNone)]"
  by (simp add: new_row_def fields_Material fields_MaterialCreate field_value_def)

lemma Material_row_not_null:
  assumes "fits ''MaterialCreate'' p"
  shows "filter (\<lambda>f. \<not> nullable f \<and> col (new_row ''MaterialCreate'' p @ [(''id'', PInt n)]) (f_name f) = PNone)
           (fields_of ''Material'') = []"
  using assms
  by (simp add: fits_def fields_Material fields_MaterialCreate nullable_def new_row_def col_def
        field_value_not_null)

text \<open>
  Claim C5. A payload that fits \<open>MaterialCreate\<close> builds the Create object, and the
  row of the table class \<open>Material\<close> made from that object is accepted by the table
  and stored with a new key. Where the payload leaves out \<open>alpha\<close> or
  \<open>ElectricalConductivity\<close>, the Create object and the stored row hold \<open>0\<close> there;
  where it leaves out \<open>ref\<close>, they hold \<open>None\<close>.
\<close>

theorem material_optional_defaults:
  assumes "fits ''MaterialCreate'' p"
  shows "\<exists>ob r.
      instantiate ''MaterialCreate'' p = Inr ob
    \<and> insert_row d ''Material'' (new_row ''Material'' (map_of ob)) =
        Inr (d(''material'' := d ''material'' @ [r]))
    \<and> (p ''alpha'' = None \<longrightarrow> map_of ob ''alpha'' = Some (PInt 0) \<and> col r ''alpha'' = PInt 0)
    \<and> (p ''ElectricalConductivity'' = None \<longrightarrow>
          map_of ob ''ElectricalConductivity'' = Some (PInt 0)
          \<and> col r ''ElectricalConductivity'' = PInt 0)
    \<and> (p ''ref'' = None \<longrightarrow> map_of ob ''ref'' = Some PNone \<and> col r ''ref'' = PNone)
    \<and> col r ''id'' = PInt (next_id (d ''material'') ''id'')"
proof -
  define ob where "ob = new_row ''MaterialCreate'' p"
  define n where "n = next_id (d ''material'') ''id''"
  define r where "r = ob @ [(''id'', PInt n)]"
  have inst: "instantiate ''MaterialCreate'' p = Inr ob"
    unfolding ob_def using Material_class(2,3) assms by (rule instantiate_flat)
  have key: "assign_key ''Material'' (d ''material'') (ob @ [(''id'', PNone)]) = r"
    by (simp add: assign_key_def Material_class r_def n_def ob_def new_row_def
          fields_MaterialCreate col_def)
  have nn: "filter (\<lambda>f. \<not> nullable f \<and> col r (f_name f) = PNone) (fields_of ''Material'') = []"
    unfolding r_def ob_def using assms by (rule Material_row_not_null)
  have idr: "col r ''id'' = PInt n"
    by (simp add: r_def ob_def new_row_def fields_MaterialCreate col_def)
  have fresh: "\<not> list_ex (same_key [''id''] r) (d ''material'')"
  proof
    assume "list_ex (same_key [''id''] r) (d ''material'')"
    then obtain s where s: "s \<in> set (d ''material'')" and "col s ''id'' = PInt n"
      by (auto simp: list_ex_iff same_key_def idr)
    with next_id_fresh [OF s, of "''id''"] show False
      by (simp add: n_def)
  qed
  have ins: "insert_row d ''Material'' (new_row ''Material'' (map_of ob)) =
        Inr (d(''material'' := d ''material'' @ [r]))"
    unfolding ob_def Material_row
    by (simp add: insert_row_def insert_with_def Let_def Material_class key [unfolded ob_def]
          nn fresh)
  have vals:
    "p ''alpha'' = None \<longrightarrow> map_of ob ''alpha'' = Some (PInt 0) \<and> col r ''alpha'' = PInt 0"
    "p ''ElectricalConductivity'' = None \<longrightarrow>
       map_of ob ''ElectricalConductivity'' = Some (PInt 0)
       \<and> col r ''ElectricalConductivity'' = PInt 0"
    "p ''ref'' = None \<longrightarrow> map_of ob ''ref'' = Some PNone \<and> col r ''ref'' = PNone"
    by (simp_all add: r_def ob_def new_row_def fields_MaterialCreate col_def field_value_def)
  show ?thesis
    by (intro exI [of _ ob] exI [of _ r] conjI inst ins vals idr [unfolded n_def])
qed

theorem material_optional_defaults_witness:
  "fits ''MaterialCreate''
     (map_of [(''name'', PStr ''Cu''), (''Tref'', PFloat 293), (''VolumicMass'', PFloat 8960),
              (''SpecificHeat'', PFloat 385), (''ThermalConductivity'', PFloat 401),
              (''MagnetPermeability'', PFloat 1), (''Young'', PFloat 117),
              (''Poisson'', PFloat 1), (''CoefDilatation'', PFloat 1)])
   \<and> (\<exists>ob r.
        instantiate ''MaterialCreate''
          (map_of [(''name'', PStr ''Cu''), (''Tref'', PFloat 293), (''VolumicMass'', PFloat 8960),
              (''SpecificHeat'', PFloat 385), (''ThermalConductivity'', PFloat 401),
              (''MagnetPermeability'', PFloat 1), (''Young'', PFloat 117),
              (''Poisson'', PFloat 1), (''CoefDilatation'', PFloat 1)]) = Inr ob
      \<and> insert_row (\<lambda>t. []) ''Material'' (new_row ''Material'' (map_of ob)) =
          Inr ((\<lambda>t. [])(''material'' := [r]))
      \<and> map_of ob ''alpha'' = Some (PInt 0) \<and> col r ''alpha'' = PInt 0
      \<and> map_of ob ''ElectricalConductivity'' = Some (PInt 0)
      \<and> col r ''ElectricalConductivity'' = PInt 0
      \<and> map_of ob ''ref'' = Some PNone \<and> col r ''ref'' = PNone
      \<and> col r ''id'' = PInt 1)"
proof -
  let ?p = "map_of [(''name'', PStr ''Cu''), (''Tref'', PFloat 293), (''VolumicMass'', PFloat 8960),
              (''SpecificHeat'', PFloat 385), (''ThermalConductivity'', PFloat 401),
              (''MagnetPermeability'', PFloat 1), (''Young'', PFloat 117),
              (''Poisson'', PFloat 1), (''CoefDilatation'', PFloat 1)]"
  have f: "fits ''MaterialCreate'' ?p"
    by (simp add: fits_def fields_MaterialCreate field_ok_def)
  from material_optional_defaults [OF f, of "\<lambda>t. []"]
  obtain ob r where inst: "instantiate ''MaterialCreate'' ?p = Inr ob"
    and ins: "insert_row (\<lambda>t. []) ''Material'' (new_row ''Material'' (map_of ob)) =
          Inr ((\<lambda>t. [])(''material'' := [r]))"
    and vals: "map_of ob ''alpha'' = Some (PInt 0)" "col r ''alpha'' = PInt 0"
      "map_of ob ''ElectricalConductivity'' = Some (PInt 0)"
      "col r ''ElectricalConductivity'' = PInt 0"
      "map_of ob ''ref'' = Some PNone" "col r ''ref'' = PNone"
      "col r ''id'' = PInt 1"
    by (auto simp: next_id_def)
  with f inst ins vals show ?thesis by blast
qed

section \<open>The link tables\<close>

lemma MPartMagnetLink_class:
  "map_of schema ''MPartMagnetLink'' = Some \<lparr>m_bases = [''SQLModel''], m_table = True,
      m_fields =
        [\<lparr>f_name = ''magnet_id'', f_ann = AOptional AInt, f_default = Some PNone,
           f_pk = True, f_fk = Some ''magnet.id''\<rparr>,
         \<lparr>f_name = ''mpart_id'', f_ann = AOptional AInt, f_default = Some PNone,
           f_pk = True, f_fk = Some ''mpart.id''\<rparr>],
      m_rels = []\<rparr>"
  "pk_cols ''MPartMagnetLink'' = [''magnet_id'', ''mpart_id'']"
  "tablename ''MPartMagnetLink'' = ''mpartmagnetlink''"
  by code_simp+

lemma MagnetMSiteLink_class:
  "map_of schema ''MagnetMSiteLink'' = Some \<lparr>m_bases = [''SQLModel''], m_table = True,
      m_fields =
        [\<lparr>f_name = ''magnet_id'', f_ann = AOptional AInt, f_default = Some PNone,
           f_pk = True, f_fk = Some ''magnet.id''\<rparr>,
         \<lparr>f_name = ''msite_id'', f_ann = AOptional AInt, f_default = Some PNone,
           f_pk = True, f_fk = Some ''msite.id''\<rparr>],
      m_rels = []\<rparr>"
  "pk_cols ''MagnetMSiteLink'' = [''magnet_id'', ''msite_id'']"
  "tablename ''MagnetMSiteLink'' = ''magnetmsitelink''"
  by code_simp+

lemma duplicate_mpart_link:
  assumes "insert_row d ''MPartMagnetLink'' r = Inr d'"
    and "col r2 ''magnet_id'' = col r ''magnet_id''" "col r2 ''mpart_id'' = col r ''mpart_id''"
  shows "insert_row d' ''MPartMagnetLink'' r2 = Inl (UniqueViolation [''magnet_id'', ''mpart_id''])"
proof -
  have k: "assign_key ''MPartMagnetLink'' rows x = x" for rows x
    by (simp add: assign_key_def MPartMagnetLink_class)
  from insert_row_InrD [OF assms(1)]
  have nn: "col r ''magnet_id'' \<noteq> PNone" "col r ''mpart_id'' \<noteq> PNone"
    and d': "d' = d(''mpartmagnetlink'' := d ''mpartmagnetlink'' @ [r])"
    by (auto simp: MPartMagnetLink_class k nullable_def split: if_splits)
  show ?thesis
    using nn assms(2,3)
    by (simp add: insert_row_def insert_with_def Let_def MPartMagnetLink_class k nullable_def d' same_key_def)
qed

lemma duplicate_msite_link:
  assumes "insert_row d ''MagnetMSiteLink'' r = Inr d'"
    and "col r2 ''magnet_id'' = col r ''magnet_id''" "col r2 ''msite_id'' = col r ''msite_id''"
  shows "insert_row d' ''MagnetMSiteLink'' r2 = Inl (UniqueViolation [''magnet_id'', ''msite_id''])"
proof -
  have k: "assign_key ''MagnetMSiteLink'' rows x = x" for rows x
    by (simp add: assign_key_def MagnetMSiteLink_class)
  from insert_row_InrD [OF assms(1)]
  have nn: "col r ''magnet_id'' \<noteq> PNone" "col r ''msite_id'' \<noteq> PNone"
    and d': "d' = d(''magnetmsitelink'' := d ''magnetmsitelink'' @ [r])"
    by (auto simp: MagnetMSiteLink_class k nullable_def split: if_splits)
  show ?thesis
    using nn assms(2,3)
    by (simp add: insert_row_def insert_with_def Let_def MagnetMSiteLink_class k nullable_def d' same_key_def)
qed

lemma same_key_iff: "same_key ks r s \<longleftrightarrow> map (col r) ks = map (col s) ks"
  by (induction ks) (auto simp: same_key_def)

lemma insert_row_unique_keys:
  assumes "unique_keys c d" "insert_row d c r = Inr d'"
  shows "unique_keys c d'"
proof -
  let ?t = "tablename c" and ?r = "assign_key c (d (tablename c)) r"
  from insert_row_InrD [OF assms(2)]
  have new: "\<not> list_ex (same_key (pk_cols c) ?r) (d ?t)" and d': "d' = d(?t := d ?t @ [?r])"
    by auto
  from new have "row_key c ?r \<notin> set (map (row_key c) (d ?t))"
    by (auto simp: list_ex_iff same_key_iff row_key_def)
  with assms(1) show ?thesis
    by (simp add: unique_keys_def d')
qed

text \<open>
  Claim C3. Each of the two link tables has exactly two columns, both foreign keys and
  both part of the primary key, and no other attribute. When a row has been inserted
  into a link table, inserting a row with the same pair of keys again fails with a
  uniqueness violation, and an insert keeps the rows of the table pairwise different in
  their keys.
\<close>

theorem link_tables_composite_key:
  assumes "(l, k) \<in> set [(''MPartMagnetLink'', ''mpart_id''), (''MagnetMSiteLink'', ''msite_id'')]"
    and "insert_row d l r = Inr d'"
    and "col r2 ''magnet_id'' = col r ''magnet_id''" "col r2 k = col r k"
  shows "map (\<lambda>f. (f_name f, f_pk f, f_fk f)) (fields_of ''MPartMagnetLink'') =
           [(''magnet_id'', True, Some ''magnet.id''), (''mpart_id'', True, Some ''mpart.id'')]
       \<and> map (\<lambda>f. (f_name f, f_pk f, f_fk f)) (fields_of ''MagnetMSiteLink'') =
           [(''magnet_id'', True, Some ''magnet.id''), (''msite_id'', True, Some ''msite.id'')]
       \<and> attr_names l = [''magnet_id'', k]
       \<and> pk_cols l = [''magnet_id'', k]
       \<and> insert_row d' l r2 = Inl (UniqueViolation [''magnet_id'', k])
       \<and> (unique_keys l d \<longrightarrow> unique_keys l d')"
proof -
  have shape:
    "map (\<lambda>f. (f_name f, f_pk f, f_fk f)) (fields_of ''MPartMagnetLink'') =
       [(''magnet_id'', True, Some ''magnet.id''), (''mpart_id'', True, Some ''mpart.id'')]"
    "map (\<lambda>f. (f_name f, f_pk f, f_fk f)) (fields_of ''MagnetMSiteLink'') =
       [(''magnet_id'', True, Some ''magnet.id''), (''msite_id'', True, Some ''msite.id'')]"
    by (simp_all add: fields_of_def MPartMagnetLink_class MagnetMSiteLink_class)
  have attrs: "attr_names l = [''magnet_id'', k]"
    using assms(1)
    by (auto simp: attr_names_def field_names_def fields_of_def rels_of_def
          MPartMagnetLink_class MagnetMSiteLink_class)
  have pk: "pk_cols l = [''magnet_id'', k]"
    using assms(1) by (auto simp: MPartMagnetLink_class MagnetMSiteLink_class)
  have dup: "insert_row d' l r2 = Inl (UniqueViolation [''magnet_id'', k])"
    using assms duplicate_mpart_link [of d r d' r2] duplicate_msite_link [of d r d' r2]
    by auto
  have inv: "unique_keys l d \<longrightarrow> unique_keys l d'"
    using assms(2) by (auto intro: insert_row_unique_keys)
  show ?thesis
    by (intro conjI shape attrs pk dup inv)
qed

theorem link_tables_composite_key_witness:
  "insert_row ((\<lambda>t. [])(''magnet'' := [[(''id'', PInt 1)]], ''mpart'' := [[(''id'', PInt 2)]]))
     ''MPartMagnetLink'' [(''magnet_id'', PInt 1), (''mpart_id'', PInt 2)]
   = Inr ((\<lambda>t. [])(''magnet'' := [[(''id'', PInt 1)]], ''mpart'' := [[(''id'', PInt 2)]],
            ''mpartmagnetlink'' := [[(''magnet_id'', PInt 1), (''mpart_id'', PInt 2)]]))
   \<and> insert_row ((\<lambda>t. [])(''magnet'' := [[(''id'', PInt 1)]], ''mpart'' := [[(''id'', PInt 2)]],
            ''mpartmagnetlink'' := [[(''magnet_id'', PInt 1), (''mpart_id'', PInt 2)]]))
     ''MPartMagnetLink'' [(''magnet_id'', PInt 1), (''mpart_id'', PInt 2)]
   = Inl (UniqueViolation [''magnet_id'', ''mpart_id''])"
proof -
  let ?d = "(\<lambda>t. [])(''magnet'' := [[(''id'', PInt 1)]], ''mpart'' := [[(''id'', PInt 2)]])"
  let ?r = "[(''magnet_id'', PInt 1), (''mpart_id'', PInt 2)]"
  let ?d' = "?d(''mpartmagnetlink'' := [?r])"
  have first: "insert_row ?d ''MPartMagnetLink'' ?r = Inr ?d'"
    by (simp add: insert_row_def insert_with_def Let_def MPartMagnetLink_class assign_key_def nullable_def
          col_def fk_broken_def split_fk_values)
  have pair: "(''MPartMagnetLink'', ''mpart_id'') \<in>
      set [(''MPartMagnetLink'', ''mpart_id''), (''MagnetMSiteLink'', ''msite_id'')]"
    by simp
  from link_tables_composite_key [OF pair first refl refl]
  have "insert_row ?d' ''MPartMagnetLink'' ?r = Inl (UniqueViolation [''magnet_id'', ''mpart_id''])"
    by simp
  with first show ?thesis by simp
qed

section \<open>The foreign key of MPart\<close>

lemma MPart_class:
  "map_of schema ''MPart'' = Some \<lparr>m_bases = [''MPartBase''], m_table = True,
      m_fields = fields_of ''MPart'', m_rels = rels_of ''MPart''\<rparr>"
  "map_of schema ''MPartCreate'' = Some \<lparr>m_bases = [''MPartBase''], m_table = False,
      m_fields = fields_of ''MPartCreate'', m_rels = []\<rparr>"
  "flat ''MPartCreate''"
  "tablename ''MPart'' = ''mpart''"
  "pk_cols ''MPart'' = [''id'']"
  by code_simp+

lemma fields_MPartCreate:
  "fields_of ''MPartCreate'' =
     [\<lparr>f_name = ''name'', f_ann = AStr, f_default = None, f_pk = False, f_fk = None\<rparr>,
      \<lparr>f_name = ''type'', f_ann = AStr, f_default = None, f_pk = False, f_fk = None\<rparr>,
      \<lparr>f_name = ''be'', f_ann = AStr, f_default = None, f_pk = False, f_fk = None\<rparr>,
      \<lparr>f_name = ''geom'', f_ann = AStr, f_default = None, f_pk = False, f_fk = None\<rparr>,
      \<lparr>f_name = ''status'', f_ann = AStr, f_default = None, f_pk = False, f_fk = None\<rparr>,
      \<lparr>f_name = ''material_id'', f_ann = AOptional AInt, f_default = Some PNone,
        f_pk = False, f_fk = Some ''material.id''\<rparr>]"
  by code_simp

lemma fields_MPart:
  "fields_of ''MPart'' = fields_of ''MPartCreate'' @
     [\<lparr>f_name = ''id'', f_ann = AOptional AInt, f_default = Some PNone, f_pk = True, f_fk = None\<rparr>]"
  by code_simp

lemma MPartCreate_object:
  assumes "instantiate ''MPartCreate'' p = Inr ob"
  shows "\<exists>v1 v2 v3 v4 v5 v6.
      ob = [(''name'', v1), (''type'', v2), (''be'', v3), (''geom'', v4), (''status'', v5),
            (''material_id'', v6)]
    \<and> has_type AStr v1 \<and> has_type AStr v2 \<and> has_type AStr v3 \<and> has_type AStr v4
    \<and> has_type AStr v5 \<and> has_type (AOptional AInt) v6"
proof -
  from instantiate_typed [OF assms MPart_class(3)]
  show ?thesis
    unfolding fields_MPartCreate
    by (auto simp: list_all2_Cons1 prod_eq_iff)
qed

lemma MPart_insert:
  assumes "has_type AStr v1" "has_type AStr v2" "has_type AStr v3" "has_type AStr v4"
    "has_type AStr v5"
    and ob_def: "ob = [(''name'', v1), (''type'', v2), (''be'', v3), (''geom'', v4), (''status'', v5),
            (''material_id'', v6)]"
  shows "insert_with enforce d ''MPart'' (new_row ''MPart'' (map_of ob)) =
      (if enforce \<and> v6 \<noteq> PNone \<and> \<not> list_ex (\<lambda>t. col t ''id'' = v6) (d ''material'')
       then Inl (ForeignKeyViolation ''material_id'' ''material.id'')
       else Inr (d(''mpart'' := d ''mpart'' @ [ob @ [(''id'', PInt (next_id (d ''mpart'') ''id''))]])))"
proof -
  define n where "n = next_id (d ''mpart'') ''id''"
  define r where "r = ob @ [(''id'', PInt n)]"
  have row: "new_row ''MPart'' (map_of ob) = ob @ [(''id'', PNone)]"
    by (simp add: new_row_def fields_MPart fields_MPartCreate field_value_def ob_def)
  have key: "assign_key ''MPart'' (d ''mpart'') (ob @ [(''id'', PNone)]) = r"
    by (simp add: assign_key_def MPart_class r_def n_def ob_def col_def)
  have nn: "filter (\<lambda>f. \<not> nullable f \<and> col r (f_name f) = PNone) (fields_of ''MPart'') = []"
    using assms(1-5)
    by (auto simp: fields_MPart fields_MPartCreate nullable_def r_def ob_def col_def)
  have idr: "col r ''id'' = PInt n"
    by (simp add: r_def ob_def col_def)
  have ref: "col r ''material_id'' = v6"
    by (simp add: r_def ob_def col_def)
  have fresh: "\<not> list_ex (same_key [''id''] r) (d ''mpart'')"
  proof
    assume "list_ex (same_key [''id''] r) (d ''mpart'')"
    then obtain s where s: "s \<in> set (d ''mpart'')" and "col s ''id'' = PInt n"
      by (auto simp: list_ex_iff same_key_def idr)
    with next_id_fresh [OF s, of "''id''"] show False
      by (simp add: n_def)
  qed
  have fk: "filter (fk_broken d r) (fields_of ''MPart'') =
      (if v6 \<noteq> PNone \<and> \<not> list_ex (\<lambda>t. col t ''id'' = v6) (d ''material'')
       then [\<lparr>f_name = ''material_id'', f_ann = AOptional AInt, f_default = Some PNone,
               f_pk = False, f_fk = Some ''material.id''\<rparr>]
       else [])"
    by (simp add: fields_MPart fields_MPartCreate fk_broken_def split_fk_values ref)
  have "insert_with enforce d ''MPart'' (ob @ [(''id'', PNone)]) =
      (if enforce \<and> v6 \<noteq> PNone \<and> \<not> list_ex (\<lambda>t. col t ''id'' = v6) (d ''material'')
       then Inl (ForeignKeyViolation ''material_id'' ''material.id'')
       else Inr (d(''mpart'' := d ''mpart'' @ [r])))"
    by (simp add: insert_with_def Let_def MPart_class key nn fresh fk)
  then show ?thesis
    by (simp only: row r_def n_def)
qed

text \<open>
  Claim C4, as the module has it. \<open>material_id\<close> of \<open>MPart\<close> is an optional column
  declared as a foreign key to \<open>material.id\<close>, and the declaration is all the module
  says: it configures no engine. A store that checks what every engine checks and leaves
  declared foreign keys unchecked stores a part whose \<open>material_id\<close> names no material;
  here the part refers to material 3 and the store has no material at all.
\<close>

theorem dangling_material_reference_is_stored:
  "empty_db ''material'' = []
   \<and> instantiate ''MPartCreate''
       (map_of [(''name'', PStr ''H1''), (''type'', PStr ''helix''), (''be'', PStr ''b''),
                (''geom'', PStr ''g''), (''status'', PStr ''ok''), (''material_id'', PInt 3)])
     = Inr [(''name'', PStr ''H1''), (''type'', PStr ''helix''), (''be'', PStr ''b''),
            (''geom'', PStr ''g''), (''status'', PStr ''ok''), (''material_id'', PInt 3)]
   \<and> insert_row empty_db ''MPart''
       (new_row ''MPart''
          (map_of [(''name'', PStr ''H1''), (''type'', PStr ''helix''), (''be'', PStr ''b''),
                   (''geom'', PStr ''g''), (''status'', PStr ''ok''), (''material_id'', PInt 3)]))
     = Inr (empty_db(''mpart'' :=
         [[(''name'', PStr ''H1''), (''type'', PStr ''helix''), (''be'', PStr ''b''),
           (''geom'', PStr ''g''), (''status'', PStr ''ok''), (''material_id'', PInt 3),
           (''id'', PInt 1)]]))"
proof -
  have "instantiate ''MPartCreate''
       (map_of [(''name'', PStr ''H1''), (''type'', PStr ''helix''), (''be'', PStr ''b''),
                (''geom'', PStr ''g''), (''status'', PStr ''ok''), (''material_id'', PInt 3)])
     = Inr [(''name'', PStr ''H1''), (''type'', PStr ''helix''), (''be'', PStr ''b''),
            (''geom'', PStr ''g''), (''status'', PStr ''ok''), (''material_id'', PInt 3)]"
    by code_simp
  moreover have "insert_row empty_db ''MPart''
       (new_row ''MPart''
          (map_of [(''name'', PStr ''H1''), (''type'', PStr ''helix''), (''be'', PStr ''b''),
                   (''geom'', PStr ''g''), (''status'', PStr ''ok''), (''material_id'', PInt 3)]))
     = Inr (empty_db(''mpart'' :=
         [[(''name'', PStr ''H1''), (''type'', PStr ''helix''), (''be'', PStr ''b''),
           (''geom'', PStr ''g''), (''status'', PStr ''ok''), (''material_id'', PInt 3),
           (''id'', PInt 1)]]))"
  proof -
    have "insert_with False empty_db ''MPart''
       (new_row ''MPart''
          (map_of [(''name'', PStr ''H1''), (''type'', PStr ''helix''), (''be'', PStr ''b''),
                   (''geom'', PStr ''g''), (''status'', PStr ''ok''), (''material_id'', PInt 3)]))
      = (if False \<and> PInt 3 \<noteq> PNone \<and> \<not> list_ex (\<lambda>t. col t ''id'' = PInt 3) (empty_db ''material'')
         then Inl (ForeignKeyViolation ''material_id'' ''material.id'')
         else Inr (empty_db(''mpart'' := empty_db ''mpart'' @
           [[(''name'', PStr ''H1''), (''type'', PStr ''helix''), (''be'', PStr ''b''),
             (''geom'', PStr ''g''), (''status'', PStr ''ok''), (''material_id'', PInt 3)]
            @ [(''id'', PInt (next_id (empty_db ''mpart'') ''id''))]])))"
      by (rule MPart_insert [OF _ _ _ _ _ refl]) simp_all
    then show ?thesis
      by (simp add: insert_row_def empty_db_def next_id_def)
  qed
  ultimately show ?thesis
    by (simp add: empty_db_def)
qed

text \<open>
  Claim C4, amended. Every object that \<open>MPartCreate\<close> builds has an integer or
  \<open>None\<close> as its \<open>material_id\<close> (the value of the payload when the payload fits the
  shape). The row of \<open>MPart\<close> made from the object is rejected with a foreign-key
  violation exactly when the store enforces declared foreign keys, \<open>material_id\<close> is
  not null and no row of \<open>material\<close> has that \<open>id\<close>; in every other case it is stored
  with a new key and with \<open>material_id\<close> as the object has it. So a null
  \<open>material_id\<close> is accepted by either store, and a reference to a missing material is
  rejected by the store that enforces foreign keys and stored by the one that does not.
\<close>

theorem mpart_material_reference:
  "get_field ''MPart'' ''material_id'' =
      Some \<lparr>f_name = ''material_id'', f_ann = AOptional AInt, f_default = Some PNone,
             f_pk = False, f_fk = Some ''material.id''\<rparr>
   \<and> (fits ''MPartCreate'' p \<longrightarrow>
        (\<exists>ob. instantiate ''MPartCreate'' p = Inr ob \<and> col ob ''material_id'' = material_ref p))
   \<and> (\<forall>ob. instantiate ''MPartCreate'' p = Inr ob \<longrightarrow>
        has_type (AOptional AInt) (col ob ''material_id'')
      \<and> (\<exists>r. col r ''material_id'' = col ob ''material_id''
            \<and> insert_with enforce d ''MPart'' (new_row ''MPart'' (map_of ob)) =
                (if enforce \<and> col ob ''material_id'' \<noteq> PNone
                     \<and> \<not> list_ex (\<lambda>t. col t ''id'' = col ob ''material_id'') (d ''material'')
                 then Inl (ForeignKeyViolation ''material_id'' ''material.id'')
                 else Inr (d(''mpart'' := d ''mpart'' @ [r])))))"
proof -
  have decl: "get_field ''MPart'' ''material_id'' =
        Some \<lparr>f_name = ''material_id'', f_ann = AOptional AInt, f_default = Some PNone,
               f_pk = False, f_fk = Some ''material.id''\<rparr>"
    by (simp add: get_field_def fields_MPart fields_MPartCreate)
  have fit: "\<exists>ob. instantiate ''MPartCreate'' p = Inr ob \<and> col ob ''material_id'' = material_ref p"
    if "fits ''MPartCreate'' p"
  proof -
    have "instantiate ''MPartCreate'' p = Inr (new_row ''MPartCreate'' p)"
      using MPart_class(2,3) that by (rule instantiate_flat)
    moreover have "col (new_row ''MPartCreate'' p) ''material_id'' = material_ref p"
      by (simp add: new_row_def fields_MPartCreate col_def field_value_def material_ref_def
            split: option.splits)
    ultimately show ?thesis by blast
  qed
  have ins: "has_type (AOptional AInt) (col ob ''material_id'')
      \<and> (\<exists>r. col r ''material_id'' = col ob ''material_id''
            \<and> insert_with enforce d ''MPart'' (new_row ''MPart'' (map_of ob)) =
                (if enforce \<and> col ob ''material_id'' \<noteq> PNone
                     \<and> \<not> list_ex (\<lambda>t. col t ''id'' = col ob ''material_id'') (d ''material'')
                 then Inl (ForeignKeyViolation ''material_id'' ''material.id'')
                 else Inr (d(''mpart'' := d ''mpart'' @ [r]))))"
    if "instantiate ''MPartCreate'' p = Inr ob" for ob
  proof -
    from MPartCreate_object [OF that] obtain v1 v2 v3 v4 v5 v6
      where ob: "ob = [(''name'', v1), (''type'', v2), (''be'', v3), (''geom'', v4),
                       (''status'', v5), (''material_id'', v6)]"
        and ty: "has_type AStr v1" "has_type AStr v2" "has_type AStr v3" "has_type AStr v4"
          "has_type AStr v5"
        and ty6: "has_type (AOptional AInt) v6"
      by blast
    let ?r = "ob @ [(''id'', PInt (next_id (d ''mpart'') ''id''))]"
    have c: "col ob ''material_id'' = v6" "col ?r ''material_id'' = v6"
      by (simp_all add: ob col_def)
    have "insert_with enforce d ''MPart'' (new_row ''MPart'' (map_of ob)) =
        (if enforce \<and> v6 \<noteq> PNone \<and> \<not> list_ex (\<lambda>t. col t ''id'' = v6) (d ''material'')
         then Inl (ForeignKeyViolation ''material_id'' ''material.id'')
         else Inr (d(''mpart'' := d ''mpart'' @ [?r])))"
      by (rule MPart_insert [OF ty ob])
    with ty6 c show ?thesis
      by (intro conjI exI [of _ ?r]) simp_all
  qed
  from decl fit ins show ?thesis by blast
qed

theorem mpart_material_reference_witness:
  "fits ''MPartCreate''
     (map_of [(''name'', PStr ''H1''), (''type'', PStr ''helix''), (''be'', PStr ''b''),
              (''geom'', PStr ''g''), (''status'', PStr ''ok''), (''material_id'', PInt 3)])
   \<and> (\<exists>ob. instantiate ''MPartCreate''
            (map_of [(''name'', PStr ''H1''), (''type'', PStr ''helix''), (''be'', PStr ''b''),
                     (''geom'', PStr ''g''), (''status'', PStr ''ok''),
                     (''material_id'', PInt 3)]) = Inr ob
      \<and> col ob ''material_id'' = PInt 3
      \<and> insert_with True empty_db ''MPart'' (new_row ''MPart'' (map_of ob)) =
          Inl (ForeignKeyViolation ''material_id'' ''material.id'')
      \<and> (\<exists>r. insert_with False empty_db ''MPart'' (new_row ''MPart'' (map_of ob)) =
               Inr (empty_db(''mpart'' := [r]))
             \<and> col r ''material_id'' = PInt 3)
      \<and> (\<exists>r. insert_with True (empty_db(''material'' := [[(''id'', PInt 3)]])) ''MPart''
               (new_row ''MPart'' (map_of ob)) =
               Inr (empty_db(''material'' := [[(''id'', PInt 3)]], ''mpart'' := [r]))
             \<and> col r ''material_id'' = PInt 3))
   \<and> (\<exists>ob. instantiate ''MPartCreate''
            (map_of [(''name'', PStr ''H1''), (''type'', PStr ''helix''), (''be'', PStr ''b''),
                     (''geom'', PStr ''g''), (''status'', PStr ''ok'')]) = Inr ob
      \<and> col ob ''material_id'' = PNone
      \<and> (\<exists>r. insert_with True empty_db ''MPart'' (new_row ''MPart'' (map_of ob)) =
               Inr (empty_db(''mpart'' := [r]))
             \<and> col r ''material_id'' = PNone))
   \<and> (\<exists>ob. instantiate ''MPartCreate''
            (map_of [(''name'', PStr ''H1''), (''type'', PStr ''helix''), (''be'', PStr ''b''),
                     (''geom'', PStr ''g''), (''status'', PStr ''ok''),
                     (''material_id'', PStr ''3'')]) = Inr ob
      \<and> col ob ''material_id'' = PInt 3
      \<and> (\<exists>r. insert_with True (empty_db(''material'' := [[(''id'', PInt 3)]])) ''MPart''
               (new_row ''MPart'' (map_of ob)) =
               Inr (empty_db(''material'' := [[(''id'', PInt 3)]], ''mpart'' := [r]))
             \<and> col r ''material_id'' = PInt 3))"
proof -
  let ?p = "map_of [(''name'', PStr ''H1''), (''type'', PStr ''helix''), (''be'', PStr ''b''),
                     (''geom'', PStr ''g''), (''status'', PStr ''ok''),
                     (''material_id'', PInt 3)]"
  let ?q = "map_of [(''name'', PStr ''H1''), (''type'', PStr ''helix''), (''be'', PStr ''b''),
                     (''geom'', PStr ''g''), (''status'', PStr ''ok'')]"
  let ?s = "map_of [(''name'', PStr ''H1''), (''type'', PStr ''helix''), (''be'', PStr ''b''),
                     (''geom'', PStr ''g''), (''status'', PStr ''ok''),
                     (''material_id'', PStr ''3'')]"
  let ?m = "empty_db(''material'' := [[(''id'', PInt 3)]])"
  have fp: "fits ''MPartCreate'' ?p" and fq: "fits ''MPartCreate'' ?q"
    by (simp_all add: fits_def fields_MPartCreate field_ok_def)
  have refp: "material_ref ?p = PInt 3" and refq: "material_ref ?q = PNone"
    by (simp_all add: material_ref_def)
  have no: "empty_db ''material'' = []" "empty_db ''mpart'' = []"
    "?m ''material'' = [[(''id'', PInt 3)]]" "?m ''mpart'' = []"
    by (simp_all add: empty_db_def)
  from mpart_material_reference [of ?p True empty_db, THEN conjunct2, THEN conjunct1, THEN mp, OF fp]
  obtain ob where ip: "instantiate ''MPartCreate'' ?p = Inr ob"
    and "col ob ''material_id'' = material_ref ?p"
    by (elim exE conjE)
  then have cp: "col ob ''material_id'' = PInt 3"
    by (simp only: refp)
  from mpart_material_reference [of ?q True empty_db, THEN conjunct2, THEN conjunct1, THEN mp, OF fq]
  obtain ob' where iq: "instantiate ''MPartCreate'' ?q = Inr ob'"
    and "col ob' ''material_id'' = material_ref ?q"
    by (elim exE conjE)
  then have cq: "col ob' ''material_id'' = PNone"
    by (simp only: refq)
  let ?o = "[(''name'', PStr ''H1''), (''type'', PStr ''helix''), (''be'', PStr ''b''),
           (''geom'', PStr ''g''), (''status'', PStr ''ok''), (''material_id'', PInt 3)]"
  have ins3: "instantiate ''MPartCreate'' ?s = Inr ?o"
    by code_simp
  have cs: "col ?o ''material_id'' = PInt 3" and c3: "col [(''id'', PInt 3)] ''id'' = PInt 3"
    by (simp_all add: col_def)
  from mpart_material_reference [of ?p True empty_db, THEN conjunct2, THEN conjunct2, THEN spec,
      THEN mp, OF ip, THEN conjunct2]
  have a1: "insert_with True empty_db ''MPart'' (new_row ''MPart'' (map_of ob)) =
          Inl (ForeignKeyViolation ''material_id'' ''material.id'')"
    by (auto simp: cp no)
  from mpart_material_reference [of ?p False empty_db, THEN conjunct2, THEN conjunct2, THEN spec,
      THEN mp, OF ip, THEN conjunct2]
  have a2: "\<exists>r. insert_with False empty_db ''MPart'' (new_row ''MPart'' (map_of ob)) =
               Inr (empty_db(''mpart'' := [r])) \<and> col r ''material_id'' = PInt 3"
    by (auto simp: cp no)
  from mpart_material_reference [of ?p True ?m, THEN conjunct2, THEN conjunct2, THEN spec,
      THEN mp, OF ip, THEN conjunct2]
  have a3: "\<exists>r. insert_with True ?m ''MPart'' (new_row ''MPart'' (map_of ob)) =
               Inr (?m(''mpart'' := [r])) \<and> col r ''material_id'' = PInt 3"
    by (auto simp: cp no c3)
  from mpart_material_reference [of ?q True empty_db, THEN conjunct2, THEN conjunct2, THEN spec,
      THEN mp, OF iq, THEN conjunct2]
  have b: "\<exists>r. insert_with True empty_db ''MPart'' (new_row ''MPart'' (map_of ob')) =
               Inr (empty_db(''mpart'' := [r])) \<and> col r ''material_id'' = PNone"
    by (auto simp: cq no)
  from mpart_material_reference [of ?s True ?m, THEN conjunct2, THEN conjunct2, THEN spec,
      THEN mp, OF ins3, THEN conjunct2]
  have c: "\<exists>r. insert_with True ?m ''MPart'' (new_row ''MPart'' (map_of ?o)) =
               Inr (?m(''mpart'' := [r])) \<and> col r ''material_id'' = PInt 3"
    by (auto simp: cs no c3)
  show ?thesis
    apply (rule conjI [OF fp])
    apply (rule conjI)
     apply (rule exI [of _ ob])
     apply (intro conjI ip cp a1 a2 a3)
    apply (rule conjI)
     apply (rule exI [of _ ob'])
     apply (intro conjI iq cq b)
    apply (rule exI [of _ ?o])
    apply (intro conjI ins3 cs c)
    done
qed

section \<open>The expanded Read shapes\<close>

lemma Magnet_joins:
  "join_of ''Magnet'' ''mparts'' =
     Some \<lparr>j_link = ''mpartmagnetlink'', j_self = ''magnet_id'', j_self_key = ''id'',
           j_other = ''mpart_id'', j_other_key = ''id'', j_target = ''mpart''\<rparr>"
  "join_of ''Magnet'' ''msites'' =
     Some \<lparr>j_link = ''magnetmsitelink'', j_self = ''magnet_id'', j_self_key = ''id'',
           j_other = ''msite_id'', j_other_key = ''id'', j_target = ''msite''\<rparr>"
  by code_simp+

lemma Magnet_rels:
  "map r_name (rels_of ''Magnet'') = [''msites'', ''mparts'']"
  by code_simp

lemma fields_MagnetRead:
  "fields_of ''MagnetRead'' =
     [\<lparr>f_name = ''name'', f_ann = AStr, f_default = None, f_pk = False, f_fk = None\<rparr>,
      \<lparr>f_name = ''be'', f_ann = AStr, f_default = None, f_pk = False, f_fk = None\<rparr>,
      \<lparr>f_name = ''geom'', f_ann = AStr, f_default = None, f_pk = False, f_fk = None\<rparr>,
      \<lparr>f_name = ''status'', f_ann = AStr, f_default = None, f_pk = False, f_fk = None\<rparr>,
      \<lparr>f_name = ''id'', f_ann = AInt, f_default = None, f_pk = False, f_fk = None\<rparr>]"
  by code_simp

lemma expanded_shapes:
  "map_of schema ''MagnetReadWithMParts'' =
     Some \<lparr>m_bases = [''MagnetRead''], m_table = False,
            m_fields = fields_of ''MagnetRead'' @
              [\<lparr>f_name = ''mparts'', f_ann = AList (AName ''MPartRead''),
                f_default = Some (PList []), f_pk = False, f_fk = None\<rparr>],
            m_rels = []\<rparr>"
  "map_of schema ''MagnetReadWithMSite'' =
     Some \<lparr>m_bases = [''MagnetRead''], m_table = False,
            m_fields = fields_of ''MagnetRead'' @
              [\<lparr>f_name = ''msites'', f_ann = AList (AName ''MSiteRead''),
                f_default = Some (PList []), f_pk = False, f_fk = None\<rparr>],
            m_rels = []\<rparr>"
  "map_of schema ''MSiteReadWithMagnets'' =
     Some \<lparr>m_bases = [''MSiteRead''], m_table = False,
            m_fields = fields_of ''MSiteRead'' @
              [\<lparr>f_name = ''magnets'', f_ann = AList (AName ''MagnetRead''),
                f_default = Some (PList []), f_pk = False, f_fk = None\<rparr>],
            m_rels = []\<rparr>"
  by code_simp+

lemma read_shapes_flat:
  "flat ''MPartRead''" "flat ''MSiteRead''" "flat ''MagnetRead''"
  by code_simp+

lemma related_mparts: "set (related d ''Magnet'' ''mparts'' r) = linked_mparts d r"
  by (auto simp: related_def Magnet_joins links_of_def linked_mparts_def)

lemma load_Magnet:
  "map_of (load d ''Magnet'' r) ''mparts'' = Some (PList (map PObj (related d ''Magnet'' ''mparts'' r)))"
  "k \<noteq> ''mparts'' \<Longrightarrow> k \<noteq> ''msites'' \<Longrightarrow> map_of (load d ''Magnet'' r) k = map_of r k"
proof -
  obtain a b where ab: "rels_of ''Magnet'' = [a, b]" "r_name a = ''msites''" "r_name b = ''mparts''"
    using Magnet_rels by (cases "rels_of ''Magnet''") auto
  show "map_of (load d ''Magnet'' r) ''mparts'' = Some (PList (map PObj (related d ''Magnet'' ''mparts'' r)))"
    by (simp add: load_def ab)
  show "k \<noteq> ''mparts'' \<Longrightarrow> k \<noteq> ''msites'' \<Longrightarrow> map_of (load d ''Magnet'' r) k = map_of r k"
    by (simp add: load_def ab)
qed

lemma fields_MPartRead:
  "fields_of ''MPartRead'' =
     [\<lparr>f_name = ''name'', f_ann = AStr, f_default = None, f_pk = False, f_fk = None\<rparr>,
      \<lparr>f_name = ''type'', f_ann = AStr, f_default = None, f_pk = False, f_fk = None\<rparr>,
      \<lparr>f_name = ''be'', f_ann = AStr, f_default = None, f_pk = False, f_fk = None\<rparr>,
      \<lparr>f_name = ''geom'', f_ann = AStr, f_default = None, f_pk = False, f_fk = None\<rparr>,
      \<lparr>f_name = ''status'', f_ann = AStr, f_default = None, f_pk = False, f_fk = None\<rparr>,
      \<lparr>f_name = ''material_id'', f_ann = AOptional AInt, f_default = Some PNone,
        f_pk = False, f_fk = Some ''material.id''\<rparr>,
      \<lparr>f_name = ''id'', f_ann = AInt, f_default = None, f_pk = False, f_fk = None\<rparr>]"
  by code_simp

text \<open>
  Claim C7. The three expanded Read shapes extend the Read shape of Magnet or MSite by one
  field: a list of the Read shape of the related entity, with the empty list as default;
  the listed Read shapes have only scalar fields, so the expansion is one level deep.
  \<open>MagnetReadWithMParts\<close>, built from a loaded magnet, has the fields of the magnet and
  under \<open>mparts\<close> the Read shapes of exactly the parts that the link table pairs with
  the magnet. The statement is about the set of the listed shapes; it says nothing of
  their order.
\<close>

theorem expanded_read_lists_linked_parts:
  assumes "fits ''MagnetRead'' (map_of r)"
    and "list_all (\<lambda>s. fits ''MPartRead'' (map_of s)) (d ''mpart'')"
  shows "\<exists>ob xs.
      map_of schema ''MagnetReadWithMParts'' =
        Some \<lparr>m_bases = [''MagnetRead''], m_table = False,
               m_fields = fields_of ''MagnetRead'' @
                 [\<lparr>f_name = ''mparts'', f_ann = AList (AName ''MPartRead''),
                   f_default = Some (PList []), f_pk = False, f_fk = None\<rparr>],
               m_rels = []\<rparr>
    \<and> map_of schema ''MagnetReadWithMSite'' =
        Some \<lparr>m_bases = [''MagnetRead''], m_table = False,
               m_fields = fields_of ''MagnetRead'' @
                 [\<lparr>f_name = ''msites'', f_ann = AList (AName ''MSiteRead''),
                   f_default = Some (PList []), f_pk = False, f_fk = None\<rparr>],
               m_rels = []\<rparr>
    \<and> map_of schema ''MSiteReadWithMagnets'' =
        Some \<lparr>m_bases = [''MSiteRead''], m_table = False,
               m_fields = fields_of ''MSiteRead'' @
                 [\<lparr>f_name = ''magnets'', f_ann = AList (AName ''MagnetRead''),
                   f_default = Some (PList []), f_pk = False, f_fk = None\<rparr>],
               m_rels = []\<rparr>
    \<and> flat ''MPartRead'' \<and> flat ''MSiteRead'' \<and> flat ''MagnetRead''
    \<and> from_orm ''MagnetReadWithMParts'' (load d ''Magnet'' r) = Inr ob
    \<and> map_of ob ''mparts'' = Some (PList xs)
    \<and> set xs = (\<lambda>s. PObj (new_row ''MPartRead'' (map_of s))) ` linked_mparts d r
    \<and> map (\<lambda>k. map_of ob k) (field_names ''MagnetRead'') = map (\<lambda>k. map_of r k) (field_names ''MagnetRead'')"
proof -
  let ?p = "map_of (load d ''Magnet'' r)"
  let ?rel = "related d ''Magnet'' ''mparts'' r"
  let ?xs = "map (\<lambda>s. PObj (new_row ''MPartRead'' (map_of s))) ?rel"
  let ?ob = "map (\<lambda>f. (f_name f, field_value (map_of r) f)) (fields_of ''MagnetRead'') @ [(''mparts'', PList ?xs)]"
  have "set ?rel \<subseteq> set (d ''mpart'')"
    by (auto simp: related_mparts linked_mparts_def)
  with assms(2) have rel_fit: "list_all (\<lambda>s. fits ''MPartRead'' (map_of s)) ?rel"
    by (auto simp: list_all_iff)
  have scal: "map (bind_nested ?p) (fields_of ''MagnetRead'') =
      map Inr (map (\<lambda>f. (f_name f, field_value (map_of r) f)) (fields_of ''MagnetRead''))"
    using assms(1)
    by (simp add: fits_def fields_MagnetRead bind_nested_def coerce_def
          bind_field_ok [of "map_of (load d ''Magnet'' r)"] load_Magnet
          field_ok_cong [of "map_of (load d ''Magnet'' r)" _ "map_of r"]
          field_value_cong [of "map_of (load d ''Magnet'' r)" _ "map_of r"])
  have lst: "bind_nested ?p \<lparr>f_name = ''mparts'', f_ann = AList (AName ''MPartRead''),
                f_default = Some (PList []), f_pk = False, f_fk = None\<rparr> = Inr (''mparts'', PList ?xs)"
    by (simp add: bind_nested_def load_Magnet coerce_def
          collect_as_model [OF read_shapes_flat(1) rel_fit, unfolded map_map])
  have "map (bind_nested ?p) (fields_of ''MagnetRead'' @ [\<lparr>f_name = ''mparts'', f_ann = AList (AName ''MPartRead''),
                f_default = Some (PList []), f_pk = False, f_fk = None\<rparr>]) = map Inr ?ob"
    by (simp only: map_append scal lst list.map)
  then have inst: "from_orm ''MagnetReadWithMParts'' (load d ''Magnet'' r) = Inr ?ob"
    by (simp only: from_orm_def instantiate_def expanded_shapes option.case model.select_convs collect_map_Inr)
  have m: "map_of ?ob ''mparts'' = Some (PList ?xs)"
    by (simp add: fields_MagnetRead)
  have s: "set ?xs = (\<lambda>s. PObj (new_row ''MPartRead'' (map_of s))) ` linked_mparts d r"
    by (simp add: related_mparts)
  have k: "map (\<lambda>k. map_of ?ob k) (field_names ''MagnetRead'') = map (\<lambda>k. map_of r k) (field_names ''MagnetRead'')"
    using assms(1)
    by (auto simp: field_names_def fields_MagnetRead fits_def field_ok_def field_value_def split: option.splits)
  show ?thesis
    by (intro exI [of _ ?ob] exI [of _ ?xs] conjI expanded_shapes read_shapes_flat inst m s k)
qed

theorem expanded_read_lists_linked_parts_witness:
  "\<exists>ob xs.
      from_orm ''MagnetReadWithMParts''
        (load ((\<lambda>t. [])
                (''mpart'' :=
                   [[(''name'', PStr ''H1''), (''type'', PStr ''helix''), (''be'', PStr ''b''),
                     (''geom'', PStr ''g''), (''status'', PStr ''ok''), (''material_id'', PNone),
                     (''id'', PInt 2)],
                    [(''name'', PStr ''R1''), (''type'', PStr ''ring''), (''be'', PStr ''b''),
                     (''geom'', PStr ''g''), (''status'', PStr ''ok''), (''material_id'', PNone),
                     (''id'', PInt 3)]],
                 ''mpartmagnetlink'' :=
                   [[(''magnet_id'', PInt 1), (''mpart_id'', PInt 2)],
                    [(''magnet_id'', PInt 5), (''mpart_id'', PInt 3)]]))
           ''Magnet''
           [(''name'', PStr ''M1''), (''be'', PStr ''b''), (''geom'', PStr ''g''),
            (''status'', PStr ''ok''), (''id'', PInt 1)]) = Inr ob
    \<and> map_of ob ''mparts'' = Some (PList xs)
    \<and> set xs =
        {PObj [(''name'', PStr ''H1''), (''type'', PStr ''helix''), (''be'', PStr ''b''),
               (''geom'', PStr ''g''), (''status'', PStr ''ok''), (''material_id'', PNone),
               (''id'', PInt 2)]}"
proof -
  let ?h = "[(''name'', PStr ''H1''), (''type'', PStr ''helix''), (''be'', PStr ''b''),
             (''geom'', PStr ''g''), (''status'', PStr ''ok''), (''material_id'', PNone),
             (''id'', PInt 2)]"
  let ?g = "[(''name'', PStr ''R1''), (''type'', PStr ''ring''), (''be'', PStr ''b''),
             (''geom'', PStr ''g''), (''status'', PStr ''ok''), (''material_id'', PNone),
             (''id'', PInt 3)]"
  let ?d = "(\<lambda>t. [])
              (''mpart'' := [?h, ?g],
               ''mpartmagnetlink'' :=
                 [[(''magnet_id'', PInt 1), (''mpart_id'', PInt 2)],
                  [(''magnet_id'', PInt 5), (''mpart_id'', PInt 3)]])"
  let ?r = "[(''name'', PStr ''M1''), (''be'', PStr ''b''), (''geom'', PStr ''g''),
             (''status'', PStr ''ok''), (''id'', PInt 1)]"
  have fr: "fits ''MagnetRead'' (map_of ?r)"
    by (simp add: fits_def fields_MagnetRead field_ok_def)
  have fs: "list_all (\<lambda>s. fits ''MPartRead'' (map_of s)) (?d ''mpart'')"
    by (simp add: fits_def fields_MPartRead field_ok_def)
  have lk: "linked_mparts ?d ?r = {?h}"
    by (auto simp: linked_mparts_def joins_def col_def)
  have rd: "new_row ''MPartRead'' (map_of ?h) = ?h"
    by (simp add: new_row_def fields_MPartRead field_value_def)
  from expanded_read_lists_linked_parts [where r = ?r and d = ?d, OF fr fs] show ?thesis
    by (simp only: lk rd image_insert image_empty) blast
qed

section \<open>Update shapes and the update operation\<close>

lemma fields_MagnetUpdate:
  "fields_of ''MagnetUpdate'' =
     [\<lparr>f_name = ''name'', f_ann = AStr, f_default = None, f_pk = False, f_fk = None\<rparr>,
      \<lparr>f_name = ''be'', f_ann = AStr, f_default = None, f_pk = False, f_fk = None\<rparr>,
      \<lparr>f_name = ''geom'', f_ann = AStr, f_default = None, f_pk = False, f_fk = None\<rparr>,
      \<lparr>f_name = ''status'', f_ann = AStr, f_default = None, f_pk = False, f_fk = None\<rparr>,
      \<lparr>f_name = ''msites'', f_ann = AList (AName ''MSite''), f_default = Some (PList []),
        f_pk = False, f_fk = None\<rparr>,
      \<lparr>f_name = ''mparts'', f_ann = AList (AFwd ''MPart''), f_default = Some (PList []),
        f_pk = False, f_fk = None\<rparr>]"
  by code_simp

lemma fields_MSiteUpdate:
  "fields_of ''MSiteUpdate'' =
     [\<lparr>f_name = ''name'', f_ann = AStr, f_default = None, f_pk = False, f_fk = None\<rparr>,
      \<lparr>f_name = ''conffile'', f_ann = AStr, f_default = None, f_pk = False, f_fk = None\<rparr>,
      \<lparr>f_name = ''status'', f_ann = AStr, f_default = None, f_pk = False, f_fk = None\<rparr>,
      \<lparr>f_name = ''magnets'', f_ann = AList (AFwd ''Magnet''), f_default = Some (PList []),
        f_pk = False, f_fk = None\<rparr>]"
  by code_simp

lemma fields_MPartUpdate:
  "fields_of ''MPartUpdate'' =
     [\<lparr>f_name = ''name'', f_ann = AStr, f_default = None, f_pk = False, f_fk = None\<rparr>,
      \<lparr>f_name = ''type'', f_ann = AStr, f_default = None, f_pk = False, f_fk = None\<rparr>,
      \<lparr>f_name = ''be'', f_ann = AStr, f_default = None, f_pk = False, f_fk = None\<rparr>,
      \<lparr>f_name = ''geom'', f_ann = AStr, f_default = None, f_pk = False, f_fk = None\<rparr>,
      \<lparr>f_name = ''status'', f_ann = AStr, f_default = None, f_pk = False, f_fk = None\<rparr>,
      \<lparr>f_name = ''material_id'', f_ann = AOptional AInt, f_default = Some PNone,
        f_pk = False, f_fk = None\<rparr>,
      \<lparr>f_name = ''magnets'', f_ann = AList (AName ''Magnet''), f_default = Some (PList []),
        f_pk = False, f_fk = None\<rparr>]"
  by code_simp

lemma Update_classes:
  "map_of schema ''MaterialUpdate'' = Some \<lparr>m_bases = [''SQLModel''], m_table = False,
      m_fields = fields_of ''MaterialUpdate'', m_rels = []\<rparr>"
  "map_of schema ''MSiteUpdate'' = Some \<lparr>m_bases = [''SQLModel''], m_table = False,
      m_fields = fields_of ''MSiteUpdate'', m_rels = []\<rparr>"
  "map_of schema ''MagnetUpdate'' = Some \<lparr>m_bases = [''SQLModel''], m_table = False,
      m_fields = fields_of ''MagnetUpdate'', m_rels = []\<rparr>"
  "map_of schema ''MPartUpdate'' = Some \<lparr>m_bases = [''SQLModel''], m_table = False,
      m_fields = fields_of ''MPartUpdate'', m_rels = []\<rparr>"
  "map_of schema ''MRecordUpdate'' = Some \<lparr>m_bases = [''SQLModel''], m_table = False,
      m_fields = fields_of ''MRecordUpdate'', m_rels = []\<rparr>"
  by code_simp+

lemma Update_flat:
  "flat ''MaterialUpdate''" "flat ''MRecordUpdate''"
  by code_simp+

lemma entity_keys:
  "pk_cols ''Material'' = [''id'']" "pk_cols ''MSite'' = [''id'']" "pk_cols ''Magnet'' = [''id'']"
  "pk_cols ''MPart'' = [''id'']" "pk_cols ''MRecord'' = [''id'']"
  by code_simp+

lemma entity_tables:
  "tablename ''Material'' = ''material''" "tablename ''MSite'' = ''msite''"
  "tablename ''Magnet'' = ''magnet''" "tablename ''MPart'' = ''mpart''"
  "tablename ''MRecord'' = ''mrecord''"
  by code_simp+

lemma entity_rels:
  "rels_of ''Material'' = []"
  "rels_of ''MSite'' =
     [\<lparr>r_name = ''magnets'', r_ann = AList (AFwd ''Magnet''), r_back_populates = ''msites'',
       r_link_model = ''MagnetMSiteLink''\<rparr>]"
  "rels_of ''Magnet'' =
     [\<lparr>r_name = ''msites'', r_ann = AList (AName ''MSite''), r_back_populates = ''magnets'',
       r_link_model = ''MagnetMSiteLink''\<rparr>,
      \<lparr>r_name = ''mparts'', r_ann = AList (AFwd ''MPart''), r_back_populates = ''magnets'',
       r_link_model = ''MPartMagnetLink''\<rparr>]"
  "rels_of ''MPart'' =
     [\<lparr>r_name = ''magnets'', r_ann = AList (AName ''Magnet''), r_back_populates = ''mparts'',
       r_link_model = ''MPartMagnetLink''\<rparr>]"
  "rels_of ''MRecord'' = []"
  by code_simp+

lemma MSite_join:
  "join_of ''MSite'' ''magnets'' =
     Some \<lparr>j_link = ''magnetmsitelink'', j_self = ''msite_id'', j_self_key = ''id'',
           j_other = ''magnet_id'', j_other_key = ''id'', j_target = ''magnet''\<rparr>"
  by code_simp

lemma MPart_join:
  "join_of ''MPart'' ''magnets'' =
     Some \<lparr>j_link = ''mpartmagnetlink'', j_self = ''mpart_id'', j_self_key = ''id'',
           j_other = ''magnet_id'', j_other_key = ''id'', j_target = ''magnet''\<rparr>"
  by code_simp

lemma update_shapes:
  "list_all (\<lambda>e.
       map shape_of (filter (\<lambda>f. element_model (f_ann f) = None) (fields_of (update_of e))) =
       map shape_of (drop_id (fields_of (base_of e)))
     \<and> map (\<lambda>f. (f_name f, element_model (f_ann f), f_default f))
         (filter (\<lambda>f. element_model (f_ann f) \<noteq> None) (fields_of (update_of e))) =
       map (\<lambda>r. (r_name r, element_model (r_ann r), Some (PList []))) (rels_of e)
     \<and> required_names (update_of e) = required_names (base_of e)
     \<and> required_names (update_of e) \<noteq> [])
     entities"
  by code_simp

text \<open>
  The two list fields that name a class bound only later: any value given for them
  is a \<open>ConfigError\<close>, and nothing is applied.
\<close>

lemma MagnetUpdate_mparts_raises:
  assumes "q ''mparts'' = Some v"
  shows "instantiate ''MagnetUpdate'' q = Inl (ConfigError ''mparts'')"
proof -
  let ?f = "\<lparr>f_name = ''mparts'', f_ann = AList (AFwd ''MPart''), f_default = Some (PList []),
        f_pk = False, f_fk = None\<rparr>"
  have "instantiate ''MagnetUpdate'' q = Inl (ConfigError (f_name ?f))"
  proof (rule unprepared_raises [OF Update_classes(3)])
    show "?f \<in> set (m_fields \<lparr>m_bases = [''SQLModel''], m_table = False,
        m_fields = fields_of ''MagnetUpdate'', m_rels = []\<rparr>)"
      by (simp add: fields_MagnetUpdate)
    show "kind_of (f_ann ?f) = Unprepared ''MPart''" by simp
    show "q (f_name ?f) = Some v" using assms by simp
    show "f_name g = f_name ?f"
      if "g \<in> set (m_fields \<lparr>m_bases = [''SQLModel''], m_table = False,
        m_fields = fields_of ''MagnetUpdate'', m_rels = []\<rparr>)" "kind_of (f_ann g) = Unprepared y" for g y
      using that by (auto simp: fields_MagnetUpdate)
  qed
  then show ?thesis by simp
qed

lemma MSiteUpdate_magnets_raises:
  assumes "q ''magnets'' = Some v"
  shows "instantiate ''MSiteUpdate'' q = Inl (ConfigError ''magnets'')"
proof -
  let ?f = "\<lparr>f_name = ''magnets'', f_ann = AList (AFwd ''Magnet''), f_default = Some (PList []),
        f_pk = False, f_fk = None\<rparr>"
  have "instantiate ''MSiteUpdate'' q = Inl (ConfigError (f_name ?f))"
  proof (rule unprepared_raises [OF Update_classes(2)])
    show "?f \<in> set (m_fields \<lparr>m_bases = [''SQLModel''], m_table = False,
        m_fields = fields_of ''MSiteUpdate'', m_rels = []\<rparr>)"
      by (simp add: fields_MSiteUpdate)
    show "kind_of (f_ann ?f) = Unprepared ''Magnet''" by simp
    show "q (f_name ?f) = Some v" using assms by simp
    show "f_name g = f_name ?f"
      if "g \<in> set (m_fields \<lparr>m_bases = [''SQLModel''], m_table = False,
        m_fields = fields_of ''MSiteUpdate'', m_rels = []\<rparr>)" "kind_of (f_ann g) = Unprepared y" for g y
      using that by (auto simp: fields_MSiteUpdate)
  qed
  then show ?thesis by simp
qed

text \<open>After an update that was applied, per entity: the link rows of the entity are gone.\<close>

lemma MSite_update_links:
  assumes "apply_update d ''MSite'' ''MSiteUpdate'' key p = Inr d'"
    and "find (\<lambda>s. joins (col s ''id'') key) (d ''msite'') = Some r"
    and "left_empty p ''magnets''"
  shows "d' ''magnetmsitelink'' =
           filter (\<lambda>l. \<not> joins (col l ''msite_id'') key) (d ''magnetmsitelink'')"
proof -
  from assms(2) have key: "col r ''id'' = key"
    by (auto simp: find_Some_iff joins_def)
  from apply_update_InrD [OF assms(1) entity_keys(2)] assms(2)
  obtain ob where inst: "instantiate ''MSiteUpdate'' p = Inr ob"
    and rep: "replace_all_links
          (d(''msite'' := map (\<lambda>s. if joins (col s ''id'') key then write_columns ''MSite'' ob s else s)
                              (d ''msite'')))
          ''MSite'' r ob (rels_of ''MSite'') = Inr d'"
    by (auto simp: entity_tables)
  let ?f = "\<lparr>f_name = ''magnets'', f_ann = AList (AFwd ''Magnet''), f_default = Some (PList []),
        f_pk = False, f_fk = None\<rparr>"
  have "map_of ob (f_name ?f) = Some (PList [])"
    using inst
    by (rule list_field_left_empty)
       (simp_all add: fields_MSiteUpdate field_names_def assms(3))
  then have m: "map_of ob ''magnets'' = Some (PList [])" by simp
  from rep show ?thesis
    by (auto simp: entity_rels m replace_links_empty MSite_join key)
qed

lemma MPart_update_links:
  assumes "apply_update d ''MPart'' ''MPartUpdate'' key p = Inr d'"
    and "find (\<lambda>s. joins (col s ''id'') key) (d ''mpart'') = Some r"
    and "left_empty p ''magnets''"
  shows "d' ''mpartmagnetlink'' =
           filter (\<lambda>l. \<not> joins (col l ''mpart_id'') key) (d ''mpartmagnetlink'')"
proof -
  from assms(2) have key: "col r ''id'' = key"
    by (auto simp: find_Some_iff joins_def)
  from apply_update_InrD [OF assms(1) entity_keys(4)] assms(2)
  obtain ob where inst: "instantiate ''MPartUpdate'' p = Inr ob"
    and rep: "replace_all_links
          (d(''mpart'' := map (\<lambda>s. if joins (col s ''id'') key then write_columns ''MPart'' ob s else s)
                              (d ''mpart'')))
          ''MPart'' r ob (rels_of ''MPart'') = Inr d'"
    by (auto simp: entity_tables)
  let ?f = "\<lparr>f_name = ''magnets'', f_ann = AList (AName ''Magnet''), f_default = Some (PList []),
        f_pk = False, f_fk = None\<rparr>"
  have "map_of ob (f_name ?f) = Some (PList [])"
    using inst
    by (rule list_field_left_empty)
       (simp_all add: fields_MPartUpdate field_names_def assms(3))
  then have m: "map_of ob ''magnets'' = Some (PList [])" by simp
  from rep show ?thesis
    by (auto simp: entity_rels m replace_links_empty MPart_join key)
qed

lemma Magnet_update_links:
  assumes "apply_update d ''Magnet'' ''MagnetUpdate'' key p = Inr d'"
    and "find (\<lambda>s. joins (col s ''id'') key) (d ''magnet'') = Some r"
  shows "(left_empty p ''msites'' \<longrightarrow>
            d' ''magnetmsitelink'' =
              filter (\<lambda>l. \<not> joins (col l ''magnet_id'') key) (d ''magnetmsitelink''))
       \<and> (left_empty p ''mparts'' \<longrightarrow>
            d' ''mpartmagnetlink'' =
              filter (\<lambda>l. \<not> joins (col l ''magnet_id'') key) (d ''mpartmagnetlink''))"
proof -
  let ?upd = "\<lambda>ob s. if joins (col s ''id'') key then write_columns ''Magnet'' ob s else s"
  from assms(2) have key: "col r ''id'' = key"
    by (auto simp: find_Some_iff joins_def)
  from apply_update_InrD [OF assms(1) entity_keys(3)] assms(2)
  obtain ob where inst: "instantiate ''MagnetUpdate'' p = Inr ob"
    and rep: "replace_all_links (d(''magnet'' := map (?upd ob) (d ''magnet''))) ''Magnet'' r ob
                (rels_of ''Magnet'') = Inr d'"
    by (auto simp: entity_tables)
  define d1 where "d1 = d(''magnet'' := map (?upd ob) (d ''magnet''))"
  have keys: "map fst ob = [''name'', ''be'', ''geom'', ''status'', ''msites'', ''mparts'']"
    using instantiate_keys [OF inst] by (simp add: field_names_def fields_MagnetUpdate)
  then have "''msites'' \<in> fst ` set ob" "''mparts'' \<in> fst ` set ob"
    by (simp_all flip: set_map)
  then obtain v1 v2 where v: "map_of ob ''msites'' = Some v1" "map_of ob ''mparts'' = Some v2"
    by (metis map_of_eq_None_iff not_Some_eq)
  define d1s where "d1s = d1(''magnetmsitelink'' :=
      filter (\<lambda>l. \<not> joins (col l ''magnet_id'') key) (d1 ''magnetmsitelink''))"
  from rep obtain d2 where
    one: "insert_links d1s ''MagnetMSiteLink''
            (map (\<lambda>v. [(''magnet_id'', key), (''msite_id'', col (attrs_of v) ''id'')]) (items_of v1))
          = Inr d2"
    and two: "insert_links
            (d2(''mpartmagnetlink'' :=
               filter (\<lambda>l. \<not> joins (col l ''magnet_id'') key) (d2 ''mpartmagnetlink'')))
            ''MPartMagnetLink''
            (map (\<lambda>v. [(''magnet_id'', key), (''mpart_id'', col (attrs_of v) ''id'')]) (items_of v2))
          = Inr d'"
    by (auto simp: d1_def d1s_def entity_rels v replace_links_def Magnet_joins key split: sum.splits)
  have sites: "d' ''magnetmsitelink'' = filter (\<lambda>l. \<not> joins (col l ''magnet_id'') key) (d ''magnetmsitelink'')"
    if "left_empty p ''msites''"
  proof -
    let ?f = "\<lparr>f_name = ''msites'', f_ann = AList (AName ''MSite''), f_default = Some (PList []),
        f_pk = False, f_fk = None\<rparr>"
    have "map_of ob (f_name ?f) = Some (PList [])"
      using inst
      by (rule list_field_left_empty) (simp_all add: fields_MagnetUpdate field_names_def that)
    with v have "v1 = PList []" by simp
    with one have "d2 = d1s" by simp
    moreover have "d' ''magnetmsitelink'' =
        (d2(''mpartmagnetlink'' :=
               filter (\<lambda>l. \<not> joins (col l ''magnet_id'') key) (d2 ''mpartmagnetlink''))) ''magnetmsitelink''"
      by (rule insert_links_frame [OF two]) (simp add: MPartMagnetLink_class)
    ultimately show ?thesis
      by (simp add: d1s_def d1_def)
  qed
  have parts: "d' ''mpartmagnetlink'' = filter (\<lambda>l. \<not> joins (col l ''magnet_id'') key) (d ''mpartmagnetlink'')"
    if "left_empty p ''mparts''"
  proof -
    let ?f = "\<lparr>f_name = ''mparts'', f_ann = AList (AFwd ''MPart''), f_default = Some (PList []),
        f_pk = False, f_fk = None\<rparr>"
    have "map_of ob (f_name ?f) = Some (PList [])"
      using inst
      by (rule list_field_left_empty) (simp_all add: fields_MagnetUpdate field_names_def that)
    with v have "v2 = PList []" by simp
    with two have "d' = d2(''mpartmagnetlink'' :=
               filter (\<lambda>l. \<not> joins (col l ''magnet_id'') key) (d2 ''mpartmagnetlink''))"
      by simp
    moreover have "d2 ''mpartmagnetlink'' = d1s ''mpartmagnetlink''"
      by (rule insert_links_frame [OF one]) (simp add: MagnetMSiteLink_class)
    ultimately show ?thesis
      by (simp add: d1s_def d1_def)
  qed
  from sites parts show ?thesis by blast
qed

text \<open>
  A fitting payload that leaves the lists empty is applied, per entity. For Material and
  MRecord, which have no relationship, every fitting payload is.
\<close>

lemma Update_names:
  "distinct (field_names ''MaterialUpdate'')" "distinct (field_names ''MSiteUpdate'')"
  "distinct (field_names ''MagnetUpdate'')" "distinct (field_names ''MPartUpdate'')"
  "distinct (field_names ''MRecordUpdate'')"
  by code_simp+

lemma flat_lists:
  "flat c \<Longrightarrow> list_all (\<lambda>f. kind_of (f_ann f) = Scalar
      \<or> f_default f = Some (PList []) \<and> left_empty q (f_name f)) (fields_of c)"
  by (auto simp: flat_def list_all_iff kind_of_scalar)

lemma update_total:
  assumes "map_of schema u = Some m" "pk_cols c = [''id'']" "distinct (field_names u)"
    and "list_all (\<lambda>f. kind_of (f_ann f) = Scalar
           \<or> f_default f = Some (PList []) \<and> left_empty q (f_name f)) (fields_of u)"
    and "list_all (\<lambda>rel. \<exists>f \<in> set (fields_of u). f_name f = r_name rel
           \<and> f_default f = Some (PList []) \<and> kind_of (f_ann f) \<noteq> Scalar) (rels_of c)"
    and "fits u q" "list_all (left_empty q) (map r_name (rels_of c))"
    and "find (\<lambda>s. joins (col s ''id'') key) (d (tablename c)) = Some r"
  shows "\<exists>d'. apply_update d c u key q = Inr d'"
proof -
  from instantiate_lists_empty [OF assms(1,6,4)]
  obtain ob where inst: "instantiate u q = Inr ob" ..
  have rl: "list_all (\<lambda>rel. map_of ob (r_name rel) = Some (PList [])) (rels_of c)"
    unfolding list_all_iff
  proof
    fix rel
    assume rel: "rel \<in> set (rels_of c)"
    with assms(5) obtain f where f: "f \<in> set (fields_of u)" "f_name f = r_name rel"
      "f_default f = Some (PList [])" "kind_of (f_ann f) \<noteq> Scalar"
      by (auto simp: list_all_iff)
    from rel assms(7) have "left_empty q (f_name f)"
      by (auto simp: list_all_iff f(2))
    from list_field_left_empty [OF inst f(1,3,4) this assms(3)]
    show "map_of ob (r_name rel) = Some (PList [])"
      by (simp add: f(2))
  qed
  show ?thesis
    by (rule apply_update_total [where r = r and k = "''id''" and ob = ob and d = d,
          OF inst assms(2) assms(8) rl])
qed

lemma entity_update_total:
  "fits ''MaterialUpdate'' q \<Longrightarrow> find (\<lambda>s. joins (col s ''id'') key) (d ''material'') = Some r \<Longrightarrow>
     \<exists>d'. apply_update d ''Material'' ''MaterialUpdate'' key q = Inr d'"
  "fits ''MRecordUpdate'' q \<Longrightarrow> find (\<lambda>s. joins (col s ''id'') key) (d ''mrecord'') = Some r \<Longrightarrow>
     \<exists>d'. apply_update d ''MRecord'' ''MRecordUpdate'' key q = Inr d'"
  "fits ''MSiteUpdate'' q \<Longrightarrow> left_empty q ''magnets'' \<Longrightarrow>
     find (\<lambda>s. joins (col s ''id'') key) (d ''msite'') = Some r \<Longrightarrow>
     \<exists>d'. apply_update d ''MSite'' ''MSiteUpdate'' key q = Inr d'"
  "fits ''MPartUpdate'' q \<Longrightarrow> left_empty q ''magnets'' \<Longrightarrow>
     find (\<lambda>s. joins (col s ''id'') key) (d ''mpart'') = Some r \<Longrightarrow>
     \<exists>d'. apply_update d ''MPart'' ''MPartUpdate'' key q = Inr d'"
  "fits ''MagnetUpdate'' q \<Longrightarrow> left_empty q ''msites'' \<Longrightarrow> left_empty q ''mparts'' \<Longrightarrow>
     find (\<lambda>s. joins (col s ''id'') key) (d ''magnet'') = Some r \<Longrightarrow>
     \<exists>d'. apply_update d ''Magnet'' ''MagnetUpdate'' key q = Inr d'"
proof -
  show "\<exists>d'. apply_update d ''Material'' ''MaterialUpdate'' key q = Inr d'"
    if "fits ''MaterialUpdate'' q" "find (\<lambda>s. joins (col s ''id'') key) (d ''material'') = Some r"
  proof (rule update_total [where r = r and d = d, OF Update_classes(1) entity_keys(1)
        Update_names(1) flat_lists [OF Update_flat(1)] _ that(1)])
    show "list_all (\<lambda>rel. \<exists>f\<in>set (fields_of ''MaterialUpdate''). f_name f = r_name rel
        \<and> f_default f = Some (PList []) \<and> kind_of (f_ann f) \<noteq> Scalar) (rels_of ''Material'')"
      by (simp add: entity_rels)
    show "list_all (left_empty q) (map r_name (rels_of ''Material''))"
      by (simp add: entity_rels)
    show "find (\<lambda>s. joins (col s ''id'') key) (d (tablename ''Material'')) = Some r"
      by (simp add: entity_tables that(2))
  qed
  show "\<exists>d'. apply_update d ''MRecord'' ''MRecordUpdate'' key q = Inr d'"
    if "fits ''MRecordUpdate'' q" "find (\<lambda>s. joins (col s ''id'') key) (d ''mrecord'') = Some r"
  proof (rule update_total [where r = r and d = d, OF Update_classes(5) entity_keys(5)
        Update_names(5) flat_lists [OF Update_flat(2)] _ that(1)])
    show "list_all (\<lambda>rel. \<exists>f\<in>set (fields_of ''MRecordUpdate''). f_name f = r_name rel
        \<and> f_default f = Some (PList []) \<and> kind_of (f_ann f) \<noteq> Scalar) (rels_of ''MRecord'')"
      by (simp add: entity_rels)
    show "list_all (left_empty q) (map r_name (rels_of ''MRecord''))"
      by (simp add: entity_rels)
    show "find (\<lambda>s. joins (col s ''id'') key) (d (tablename ''MRecord'')) = Some r"
      by (simp add: entity_tables that(2))
  qed
  show "\<exists>d'. apply_update d ''MSite'' ''MSiteUpdate'' key q = Inr d'"
    if "fits ''MSiteUpdate'' q" "left_empty q ''magnets''"
      "find (\<lambda>s. joins (col s ''id'') key) (d ''msite'') = Some r"
  proof (rule update_total [where r = r and d = d, OF Update_classes(2) entity_keys(2)
        Update_names(2) _ _ that(1)])
    show "list_all (\<lambda>f. kind_of (f_ann f) = Scalar
        \<or> f_default f = Some (PList []) \<and> left_empty q (f_name f)) (fields_of ''MSiteUpdate'')"
      by (simp add: fields_MSiteUpdate that(2))
    show "list_all (\<lambda>rel. \<exists>f\<in>set (fields_of ''MSiteUpdate''). f_name f = r_name rel
        \<and> f_default f = Some (PList []) \<and> kind_of (f_ann f) \<noteq> Scalar) (rels_of ''MSite'')"
      by (simp add: entity_rels fields_MSiteUpdate)
    show "list_all (left_empty q) (map r_name (rels_of ''MSite''))"
      by (simp add: entity_rels that(2))
    show "find (\<lambda>s. joins (col s ''id'') key) (d (tablename ''MSite'')) = Some r"
      by (simp add: entity_tables that(3))
  qed
  show "\<exists>d'. apply_update d ''MPart'' ''MPartUpdate'' key q = Inr d'"
    if "fits ''MPartUpdate'' q" "left_empty q ''magnets''"
      "find (\<lambda>s. joins (col s ''id'') key) (d ''mpart'') = Some r"
  proof (rule update_total [where r = r and d = d, OF Update_classes(4) entity_keys(4)
        Update_names(4) _ _ that(1)])
    show "list_all (\<lambda>f. kind_of (f_ann f) = Scalar
        \<or> f_default f = Some (PList []) \<and> left_empty q (f_name f)) (fields_of ''MPartUpdate'')"
      by (simp add: fields_MPartUpdate that(2))
    show "list_all (\<lambda>rel. \<exists>f\<in>set (fields_of ''MPartUpdate''). f_name f = r_name rel
        \<and> f_default f = Some (PList []) \<and> kind_of (f_ann f) \<noteq> Scalar) (rels_of ''MPart'')"
      by (simp add: entity_rels fields_MPartUpdate)
    show "list_all (left_empty q) (map r_name (rels_of ''MPart''))"
      by (simp add: entity_rels that(2))
    show "find (\<lambda>s. joins (col s ''id'') key) (d (tablename ''MPart'')) = Some r"
      by (simp add: entity_tables that(3))
  qed
  show "\<exists>d'. apply_update d ''Magnet'' ''MagnetUpdate'' key q = Inr d'"
    if "fits ''MagnetUpdate'' q" "left_empty q ''msites''" "left_empty q ''mparts''"
      "find (\<lambda>s. joins (col s ''id'') key) (d ''magnet'') = Some r"
  proof (rule update_total [where r = r and d = d, OF Update_classes(3) entity_keys(3)
        Update_names(3) _ _ that(1)])
    show "list_all (\<lambda>f. kind_of (f_ann f) = Scalar
        \<or> f_default f = Some (PList []) \<and> left_empty q (f_name f)) (fields_of ''MagnetUpdate'')"
      by (simp add: fields_MagnetUpdate that(2,3))
    show "list_all (\<lambda>rel. \<exists>f\<in>set (fields_of ''MagnetUpdate''). f_name f = r_name rel
        \<and> f_default f = Some (PList []) \<and> kind_of (f_ann f) \<noteq> Scalar) (rels_of ''Magnet'')"
      by (simp add: entity_rels fields_MagnetUpdate)
    show "list_all (left_empty q) (map r_name (rels_of ''Magnet''))"
      by (simp add: entity_rels that(2,3))
    show "find (\<lambda>s. joins (col s ''id'') key) (d (tablename ''Magnet'')) = Some r"
      by (simp add: entity_tables that(4))
  qed
qed

text \<open>After an update that was applied, for every relationship of the entity.\<close>

lemma entity_update_clears:
  "apply_update d ''MSite'' ''MSiteUpdate'' key q = Inr d' \<Longrightarrow>
     find (\<lambda>s. joins (col s ''id'') key) (d ''msite'') = Some r \<Longrightarrow>
     left_empty q ''magnets'' \<Longrightarrow> col s ''id'' = key \<Longrightarrow> related d' ''MSite'' ''magnets'' s = []"
  "apply_update d ''MPart'' ''MPartUpdate'' key q = Inr d' \<Longrightarrow>
     find (\<lambda>s. joins (col s ''id'') key) (d ''mpart'') = Some r \<Longrightarrow>
     left_empty q ''magnets'' \<Longrightarrow> col s ''id'' = key \<Longrightarrow> related d' ''MPart'' ''magnets'' s = []"
  "apply_update d ''Magnet'' ''MagnetUpdate'' key q = Inr d' \<Longrightarrow>
     find (\<lambda>s. joins (col s ''id'') key) (d ''magnet'') = Some r \<Longrightarrow>
     left_empty q ''msites'' \<Longrightarrow> col s ''id'' = key \<Longrightarrow> related d' ''Magnet'' ''msites'' s = []"
  "apply_update d ''Magnet'' ''MagnetUpdate'' key q = Inr d' \<Longrightarrow>
     find (\<lambda>s. joins (col s ''id'') key) (d ''magnet'') = Some r \<Longrightarrow>
     left_empty q ''mparts'' \<Longrightarrow> col s ''id'' = key \<Longrightarrow> related d' ''Magnet'' ''mparts'' s = []"
proof -
  show "related d' ''MSite'' ''magnets'' s = []"
    if "apply_update d ''MSite'' ''MSiteUpdate'' key q = Inr d'"
      "find (\<lambda>s. joins (col s ''id'') key) (d ''msite'') = Some r"
      "left_empty q ''magnets''" "col s ''id'' = key"
    by (simp add: related_def links_of_def MSite_join MSite_update_links [OF that(1-3)] that(4))
  show "related d' ''MPart'' ''magnets'' s = []"
    if "apply_update d ''MPart'' ''MPartUpdate'' key q = Inr d'"
      "find (\<lambda>s. joins (col s ''id'') key) (d ''mpart'') = Some r"
      "left_empty q ''magnets''" "col s ''id'' = key"
    by (simp add: related_def links_of_def MPart_join MPart_update_links [OF that(1-3)] that(4))
  show "related d' ''Magnet'' ''msites'' s = []"
    if "apply_update d ''Magnet'' ''MagnetUpdate'' key q = Inr d'"
      "find (\<lambda>s. joins (col s ''id'') key) (d ''magnet'') = Some r"
      "left_empty q ''msites''" "col s ''id'' = key"
    by (simp add: related_def links_of_def Magnet_joins that(4)
          Magnet_update_links [OF that(1,2), THEN conjunct1, THEN mp, OF that(3)])
  show "related d' ''Magnet'' ''mparts'' s = []"
    if "apply_update d ''Magnet'' ''MagnetUpdate'' key q = Inr d'"
      "find (\<lambda>s. joins (col s ''id'') key) (d ''magnet'') = Some r"
      "left_empty q ''mparts''" "col s ''id'' = key"
    by (simp add: related_def links_of_def Magnet_joins that(4)
          Magnet_update_links [OF that(1,2), THEN conjunct2, THEN mp, OF that(3)])
qed

text \<open>The two statements for one entity, and then for each of the five.\<close>

lemma entity_update:
  assumes "e = ''Material'' \<or> e = ''MSite'' \<or> e = ''Magnet'' \<or> e = ''MPart'' \<or> e = ''MRecord''"
    and "find (\<lambda>s. joins (col s ''id'') key) (d (tablename e)) = Some r"
  shows "apply_update d e (update_of e) key q = Inr d' \<Longrightarrow> rn \<in> set (map r_name (rels_of e)) \<Longrightarrow>
           left_empty q rn \<Longrightarrow> col s ''id'' = key \<Longrightarrow> related d' e rn s = []"
    and "fits (update_of e) q \<Longrightarrow> list_all (left_empty q) (map r_name (rels_of e)) \<Longrightarrow>
           \<exists>d'. apply_update d e (update_of e) key q = Inr d'"
proof -
  have u: "update_of ''Material'' = ''MaterialUpdate''" "update_of ''MSite'' = ''MSiteUpdate''"
    "update_of ''Magnet'' = ''MagnetUpdate''" "update_of ''MPart'' = ''MPartUpdate''"
    "update_of ''MRecord'' = ''MRecordUpdate''"
    by (simp_all add: update_of_def)
  show "related d' e rn s = []"
    if "apply_update d e (update_of e) key q = Inr d'" "rn \<in> set (map r_name (rels_of e))"
      "left_empty q rn" "col s ''id'' = key"
    using assms(1)
  proof (elim disjE)
    assume e: "e = ''Material''"
    from that(2) show ?thesis by (simp add: e entity_rels)
  next
    assume e: "e = ''MRecord''"
    from that(2) show ?thesis by (simp add: e entity_rels)
  next
    assume e: "e = ''MSite''"
    from that(2) have rn: "rn = ''magnets''" by (simp add: e entity_rels)
    show ?thesis
      unfolding e rn
      by (rule entity_update_clears(1) [where d = d and r = r and q = q and key = key,
            OF that(1) [unfolded e u] assms(2) [unfolded e entity_tables] that(3) [unfolded rn] that(4)])
  next
    assume e: "e = ''MPart''"
    from that(2) have rn: "rn = ''magnets''" by (simp add: e entity_rels)
    show ?thesis
      unfolding e rn
      by (rule entity_update_clears(2) [where d = d and r = r and q = q and key = key,
            OF that(1) [unfolded e u] assms(2) [unfolded e entity_tables] that(3) [unfolded rn] that(4)])
  next
    assume e: "e = ''Magnet''"
    from that(2) have "rn = ''msites'' \<or> rn = ''mparts''" by (simp add: e entity_rels)
    then show ?thesis
    proof
      assume rn: "rn = ''msites''"
      show ?thesis
        unfolding e rn
        by (rule entity_update_clears(3) [where d = d and r = r and q = q and key = key,
              OF that(1) [unfolded e u] assms(2) [unfolded e entity_tables] that(3) [unfolded rn] that(4)])
    next
      assume rn: "rn = ''mparts''"
      show ?thesis
        unfolding e rn
        by (rule entity_update_clears(4) [where d = d and r = r and q = q and key = key,
              OF that(1) [unfolded e u] assms(2) [unfolded e entity_tables] that(3) [unfolded rn] that(4)])
    qed
  qed
  show "\<exists>d'. apply_update d e (update_of e) key q = Inr d'"
    if "fits (update_of e) q" "list_all (left_empty q) (map r_name (rels_of e))"
    using assms(1)
  proof (elim disjE)
    assume e: "e = ''Material''"
    show ?thesis
      unfolding e u
      by (rule entity_update_total(1) [where d = d and r = r,
            OF that(1) [unfolded e u] assms(2) [unfolded e entity_tables]])
  next
    assume e: "e = ''MRecord''"
    show ?thesis
      unfolding e u
      by (rule entity_update_total(2) [where d = d and r = r,
            OF that(1) [unfolded e u] assms(2) [unfolded e entity_tables]])
  next
    assume e: "e = ''MSite''"
    from that(2) have l: "left_empty q ''magnets''" by (simp add: e entity_rels)
    show ?thesis
      unfolding e u
      by (rule entity_update_total(3) [where d = d and r = r,
            OF that(1) [unfolded e u] l assms(2) [unfolded e entity_tables]])
  next
    assume e: "e = ''MPart''"
    from that(2) have l: "left_empty q ''magnets''" by (simp add: e entity_rels)
    show ?thesis
      unfolding e u
      by (rule entity_update_total(4) [where d = d and r = r,
            OF that(1) [unfolded e u] l assms(2) [unfolded e entity_tables]])
  next
    assume e: "e = ''Magnet''"
    from that(2) have l: "left_empty q ''msites''" "left_empty q ''mparts''"
      by (simp_all add: e entity_rels)
    show ?thesis
      unfolding e u
      by (rule entity_update_total(5) [where d = d and r = r,
            OF that(1) [unfolded e u] l assms(2) [unfolded e entity_tables]])
  qed
qed

lemma entity_cases:
  "e \<in> set entities \<Longrightarrow>
   e = ''Material'' \<or> e = ''MSite'' \<or> e = ''Magnet'' \<or> e = ''MPart'' \<or> e = ''MRecord''"
  by (simp add: entities_def)

lemma Magnet_table:
  "map_of schema ''Magnet'' = Some \<lparr>m_bases = [''MagnetBase''], m_table = True,
      m_fields =
        [\<lparr>f_name = ''name'', f_ann = AStr, f_default = None, f_pk = False, f_fk = None\<rparr>,
         \<lparr>f_name = ''be'', f_ann = AStr, f_default = None, f_pk = False, f_fk = None\<rparr>,
         \<lparr>f_name = ''geom'', f_ann = AStr, f_default = None, f_pk = False, f_fk = None\<rparr>,
         \<lparr>f_name = ''status'', f_ann = AStr, f_default = None, f_pk = False, f_fk = None\<rparr>,
         \<lparr>f_name = ''id'', f_ann = AOptional AInt, f_default = Some PNone, f_pk = True,
           f_fk = None\<rparr>],
      m_rels = rels_of ''Magnet''\<rparr>"
  "map_of schema ''MSite'' = Some \<lparr>m_bases = [''MSiteBase''], m_table = True,
      m_fields =
        [\<lparr>f_name = ''name'', f_ann = AStr, f_default = None, f_pk = False, f_fk = None\<rparr>,
         \<lparr>f_name = ''conffile'', f_ann = AStr, f_default = None, f_pk = False, f_fk = None\<rparr>,
         \<lparr>f_name = ''status'', f_ann = AStr, f_default = None, f_pk = False, f_fk = None\<rparr>,
         \<lparr>f_name = ''id'', f_ann = AOptional AInt, f_default = Some PNone, f_pk = True,
           f_fk = None\<rparr>],
      m_rels = rels_of ''MSite''\<rparr>"
  by code_simp+

text \<open>
  Claim C2. For every entity the scalar fields of the Update shape are the fields of the
  Base shape other than \<open>id\<close>, with the same annotations and defaults, so what the Base
  shape requires the Update shape requires, and a payload that leaves out a required
  field is rejected. The list fields of the Update shape are the relationships of the
  table class, each with the empty list as its default. For every entity and every
  relationship it has: when an Update payload that leaves the list empty has been
  applied to a stored entity, the entity has no related row through that relationship;
  and a fitting payload that leaves every list empty is always applied.

  The claim fails where the empty list is passed for \<open>MagnetUpdate.mparts\<close> or for
  \<open>MSiteUpdate.magnets\<close>. The two fields are written \<open>List["MPart"]\<close> and
  \<open>List["Magnet"]\<close>, as strings, because the class is bound only later in the module,
  and nothing resolves the reference afterwards: building the shape with any value for
  the field, the empty list included, raises \<open>ConfigError\<close>, whatever the other fields
  are, so no update is applied and the links stay. The sibling fields
  \<open>MagnetUpdate.msites\<close> and \<open>MPartUpdate.magnets\<close> name a bound class and take the
  list.
\<close>

theorem update_with_empty_lists_clears_links:
  assumes "e \<in> set entities"
    and "find (\<lambda>s. joins (col s ''id'') key) (d (tablename e)) = Some r"
  shows "list_all (\<lambda>e.
           map shape_of (filter (\<lambda>f. element_model (f_ann f) = None) (fields_of (update_of e))) =
           map shape_of (drop_id (fields_of (base_of e)))
         \<and> map (\<lambda>f. (f_name f, element_model (f_ann f), f_default f))
             (filter (\<lambda>f. element_model (f_ann f) \<noteq> None) (fields_of (update_of e))) =
           map (\<lambda>r. (r_name r, element_model (r_ann r), Some (PList []))) (rels_of e)
         \<and> required_names (update_of e) = required_names (base_of e)
         \<and> required_names (update_of e) \<noteq> [])
         entities
       \<and> (\<forall>c k q. k \<in> set (required_names c) \<and> q k = None \<longrightarrow> isl (instantiate c q))
       \<and> (\<forall>q d' rn. apply_update d e (update_of e) key q = Inr d'
               \<and> rn \<in> set (map r_name (rels_of e)) \<and> left_empty q rn \<longrightarrow>
             (\<forall>s. col s ''id'' = key \<longrightarrow> related d' e rn s = []))
       \<and> (\<forall>q. fits (update_of e) q \<and> list_all (left_empty q) (map r_name (rels_of e)) \<longrightarrow>
             (\<exists>d'. apply_update d e (update_of e) key q = Inr d'
                  \<and> list_all (\<lambda>rn. related d' e rn r = []) (map r_name (rels_of e))))
       \<and> (\<forall>q v. q ''mparts'' = Some v \<longrightarrow>
             instantiate ''MagnetUpdate'' q = Inl (ConfigError ''mparts'')
           \<and> apply_update d ''Magnet'' ''MagnetUpdate'' key q = Inl (Invalid (ConfigError ''mparts'')))
       \<and> (\<forall>q v. q ''magnets'' = Some v \<longrightarrow>
             instantiate ''MSiteUpdate'' q = Inl (ConfigError ''magnets'')
           \<and> apply_update d ''MSite'' ''MSiteUpdate'' key q = Inl (Invalid (ConfigError ''magnets'')))"
proof -
  note et = entity_cases [OF assms(1)]
  from assms(2) have key: "col r ''id'' = key"
    by (auto simp: find_Some_iff joins_def)
  have req: "\<forall>c k q. k \<in> set (required_names c) \<and> q k = None \<longrightarrow> isl (instantiate c q)"
    by (auto intro: required_field_missing)
  have clr: "\<forall>q d' rn. apply_update d e (update_of e) key q = Inr d'
               \<and> rn \<in> set (map r_name (rels_of e)) \<and> left_empty q rn \<longrightarrow>
             (\<forall>s. col s ''id'' = key \<longrightarrow> related d' e rn s = [])"
  proof (intro allI impI)
    fix q d' rn s
    assume a: "apply_update d e (update_of e) key q = Inr d'
               \<and> rn \<in> set (map r_name (rels_of e)) \<and> left_empty q rn" and s: "col s ''id'' = key"
    from a have a1: "apply_update d e (update_of e) key q = Inr d'"
      and a2: "rn \<in> set (map r_name (rels_of e))" and a3: "left_empty q rn"
      by simp_all
    from a1 a2 a3 s show "related d' e rn s = []"
      by (rule entity_update(1) [where e = e and d = d and key = key and r = r, OF et assms(2)])
  qed
  have tot: "\<forall>q. fits (update_of e) q \<and> list_all (left_empty q) (map r_name (rels_of e)) \<longrightarrow>
             (\<exists>d'. apply_update d e (update_of e) key q = Inr d'
                  \<and> list_all (\<lambda>rn. related d' e rn r = []) (map r_name (rels_of e)))"
  proof (intro allI impI)
    fix q
    assume a: "fits (update_of e) q \<and> list_all (left_empty q) (map r_name (rels_of e))"
    then have a1: "fits (update_of e) q" and a2: "list_all (left_empty q) (map r_name (rels_of e))"
      by simp_all
    from entity_update(2) [where e = e and d = d and key = key and r = r, OF et assms(2) a1 a2]
    obtain d' where app: "apply_update d e (update_of e) key q = Inr d'" ..
    have "list_all (\<lambda>rn. related d' e rn r = []) (map r_name (rels_of e))"
      unfolding list_all_iff
    proof
      fix rn
      assume rn: "rn \<in> set (map r_name (rels_of e))"
      with a2 have "left_empty q rn" by (auto simp: list_all_iff)
      with app rn show "related d' e rn r = []"
        using key by (rule entity_update(1) [where e = e and d = d and key = key and r = r, OF et assms(2)])
    qed
    with app show "\<exists>d'. apply_update d e (update_of e) key q = Inr d'
                  \<and> list_all (\<lambda>rn. related d' e rn r = []) (map r_name (rels_of e))"
      by blast
  qed
  have parts: "\<forall>q v. q ''mparts'' = Some v \<longrightarrow>
             instantiate ''MagnetUpdate'' q = Inl (ConfigError ''mparts'')
           \<and> apply_update d ''Magnet'' ''MagnetUpdate'' key q = Inl (Invalid (ConfigError ''mparts''))"
    by (auto dest: MagnetUpdate_mparts_raises simp: apply_update_Invalid)
  have sites: "\<forall>q v. q ''magnets'' = Some v \<longrightarrow>
             instantiate ''MSiteUpdate'' q = Inl (ConfigError ''magnets'')
           \<and> apply_update d ''MSite'' ''MSiteUpdate'' key q = Inl (Invalid (ConfigError ''magnets''))"
    by (auto dest: MSiteUpdate_magnets_raises simp: apply_update_Invalid)
  show ?thesis
    by (intro conjI update_shapes req clr tot parts sites)
qed

theorem update_with_empty_lists_clears_links_witness:
  "insert_row empty_db ''Magnet''
     (new_row ''Magnet'' (map_of [(''name'', PStr ''A''), (''be'', PStr ''b''),
                                   (''geom'', PStr ''g''), (''status'', PStr ''ok'')]))
   = Inr (empty_db(''magnet'' :=
       [[(''name'', PStr ''A''), (''be'', PStr ''b''), (''geom'', PStr ''g''),
         (''status'', PStr ''ok''), (''id'', PInt 1)]]))
   \<and> insert_row (empty_db(''magnet'' :=
       [[(''name'', PStr ''A''), (''be'', PStr ''b''), (''geom'', PStr ''g''),
         (''status'', PStr ''ok''), (''id'', PInt 1)]])) ''MSite''
     (new_row ''MSite'' (map_of [(''name'', PStr ''S1''), (''conffile'', PStr ''s1.cfg''),
                                  (''status'', PStr ''ok'')]))
   = Inr (empty_db(''magnet'' :=
       [[(''name'', PStr ''A''), (''be'', PStr ''b''), (''geom'', PStr ''g''),
         (''status'', PStr ''ok''), (''id'', PInt 1)]],
       ''msite'' :=
       [[(''name'', PStr ''S1''), (''conffile'', PStr ''s1.cfg''), (''status'', PStr ''ok''),
         (''id'', PInt 1)]]))
   \<and> insert_row (empty_db(''magnet'' :=
       [[(''name'', PStr ''A''), (''be'', PStr ''b''), (''geom'', PStr ''g''),
         (''status'', PStr ''ok''), (''id'', PInt 1)]],
       ''msite'' :=
       [[(''name'', PStr ''S1''), (''conffile'', PStr ''s1.cfg''), (''status'', PStr ''ok''),
         (''id'', PInt 1)]])) ''MagnetMSiteLink''
     [(''magnet_id'', PInt 1), (''msite_id'', PInt 1)]
   = Inr (empty_db(''magnet'' :=
       [[(''name'', PStr ''A''), (''be'', PStr ''b''), (''geom'', PStr ''g''),
         (''status'', PStr ''ok''), (''id'', PInt 1)]],
       ''msite'' :=
       [[(''name'', PStr ''S1''), (''conffile'', PStr ''s1.cfg''), (''status'', PStr ''ok''),
         (''id'', PInt 1)]],
       ''magnetmsitelink'' := [[(''magnet_id'', PInt 1), (''msite_id'', PInt 1)]]))
   \<and> related (empty_db(''magnet'' :=
       [[(''name'', PStr ''A''), (''be'', PStr ''b''), (''geom'', PStr ''g''),
         (''status'', PStr ''ok''), (''id'', PInt 1)]],
       ''msite'' :=
       [[(''name'', PStr ''S1''), (''conffile'', PStr ''s1.cfg''), (''status'', PStr ''ok''),
         (''id'', PInt 1)]],
       ''magnetmsitelink'' := [[(''magnet_id'', PInt 1), (''msite_id'', PInt 1)]]))
       ''Magnet'' ''msites''
       [(''name'', PStr ''A''), (''be'', PStr ''b''), (''geom'', PStr ''g''),
         (''status'', PStr ''ok''), (''id'', PInt 1)]
     = [[(''name'', PStr ''S1''), (''conffile'', PStr ''s1.cfg''), (''status'', PStr ''ok''),
         (''id'', PInt 1)]]
   \<and> (\<exists>d'. apply_update (empty_db(''magnet'' :=
       [[(''name'', PStr ''A''), (''be'', PStr ''b''), (''geom'', PStr ''g''),
         (''status'', PStr ''ok''), (''id'', PInt 1)]],
       ''msite'' :=
       [[(''name'', PStr ''S1''), (''conffile'', PStr ''s1.cfg''), (''status'', PStr ''ok''),
         (''id'', PInt 1)]],
       ''magnetmsitelink'' := [[(''magnet_id'', PInt 1), (''msite_id'', PInt 1)]]))
         ''Magnet'' ''MagnetUpdate'' (PInt 1)
         (map_of [(''name'', PStr ''A''), (''be'', PStr ''b''), (''geom'', PStr ''g''),
                  (''status'', PStr ''ok''), (''msites'', PList [])]) = Inr d'
       \<and> related d' ''Magnet'' ''msites''
           [(''name'', PStr ''A''), (''be'', PStr ''b''), (''geom'', PStr ''g''),
            (''status'', PStr ''ok''), (''id'', PInt 1)] = []
       \<and> related d' ''Magnet'' ''mparts''
           [(''name'', PStr ''A''), (''be'', PStr ''b''), (''geom'', PStr ''g''),
            (''status'', PStr ''ok''), (''id'', PInt 1)] = [])
   \<and> instantiate ''MagnetUpdate''
         (map_of [(''name'', PStr ''A''), (''be'', PStr ''b''), (''geom'', PStr ''g''),
                  (''status'', PStr ''ok''), (''msites'', PList []), (''mparts'', PList [])])
       = Inl (ConfigError ''mparts'')
   \<and> apply_update (empty_db(''magnet'' :=
       [[(''name'', PStr ''A''), (''be'', PStr ''b''), (''geom'', PStr ''g''),
         (''status'', PStr ''ok''), (''id'', PInt 1)]],
       ''msite'' :=
       [[(''name'', PStr ''S1''), (''conffile'', PStr ''s1.cfg''), (''status'', PStr ''ok''),
         (''id'', PInt 1)]],
       ''magnetmsitelink'' := [[(''magnet_id'', PInt 1), (''msite_id'', PInt 1)]]))
         ''Magnet'' ''MagnetUpdate'' (PInt 1)
         (map_of [(''name'', PStr ''A''), (''be'', PStr ''b''), (''geom'', PStr ''g''),
                  (''status'', PStr ''ok''), (''msites'', PList []), (''mparts'', PList [])])
       = Inl (Invalid (ConfigError ''mparts''))"
proof -
  let ?a = "[(''name'', PStr ''A''), (''be'', PStr ''b''), (''geom'', PStr ''g''),
             (''status'', PStr ''ok''), (''id'', PInt 1)]"
  let ?s = "[(''name'', PStr ''S1''), (''conffile'', PStr ''s1.cfg''), (''status'', PStr ''ok''),
             (''id'', PInt 1)]"
  let ?d1 = "empty_db(''magnet'' := [?a])"
  let ?d2 = "?d1(''msite'' := [?s])"
  let ?d3 = "?d2(''magnetmsitelink'' := [[(''magnet_id'', PInt 1), (''msite_id'', PInt 1)]])"
  let ?p = "map_of [(''name'', PStr ''A''), (''be'', PStr ''b''), (''geom'', PStr ''g''),
                    (''status'', PStr ''ok''), (''msites'', PList [])]"
  let ?q = "map_of [(''name'', PStr ''A''), (''be'', PStr ''b''), (''geom'', PStr ''g''),
                    (''status'', PStr ''ok''), (''msites'', PList []), (''mparts'', PList [])]"
  have i1: "insert_row empty_db ''Magnet''
     (new_row ''Magnet'' (map_of [(''name'', PStr ''A''), (''be'', PStr ''b''),
                                   (''geom'', PStr ''g''), (''status'', PStr ''ok'')])) = Inr ?d1"
    by (simp add: insert_row_def insert_with_def Let_def Magnet_table entity_keys entity_tables
          new_row_def fields_of_def field_value_def assign_key_def next_id_def col_def nullable_def
          same_key_def empty_db_def)
  have i2: "insert_row ?d1 ''MSite''
     (new_row ''MSite'' (map_of [(''name'', PStr ''S1''), (''conffile'', PStr ''s1.cfg''),
                                  (''status'', PStr ''ok'')])) = Inr ?d2"
    by (simp add: insert_row_def insert_with_def Let_def Magnet_table entity_keys entity_tables
          new_row_def fields_of_def field_value_def assign_key_def next_id_def col_def nullable_def
          same_key_def empty_db_def)
  have i3: "insert_row ?d2 ''MagnetMSiteLink'' [(''magnet_id'', PInt 1), (''msite_id'', PInt 1)]
      = Inr ?d3"
    by (simp add: insert_row_def insert_with_def Let_def MagnetMSiteLink_class assign_key_def
          nullable_def col_def empty_db_def)
  have before: "related ?d3 ''Magnet'' ''msites'' ?a = [?s]"
    by (simp add: related_def Magnet_joins links_of_def joins_def col_def)
  have en: "''Magnet'' \<in> set entities"
    by (simp add: entities_def)
  have f: "find (\<lambda>s. joins (col s ''id'') (PInt 1)) (?d3 (tablename ''Magnet'')) = Some ?a"
    by (simp add: joins_def col_def entity_tables)
  have fit: "fits (update_of ''Magnet'') ?p"
    by (simp add: update_of_def fits_def fields_MagnetUpdate field_ok_def)
  have e: "list_all (left_empty ?p) (map r_name (rels_of ''Magnet''))"
    by (simp add: left_empty_def entity_rels)
  note main = update_with_empty_lists_clears_links [where d = ?d3 and r = ?a and key = "PInt 1", OF en f]
  from main [THEN conjunct2, THEN conjunct2, THEN conjunct2, THEN conjunct1, THEN spec [of _ ?p],
      THEN mp, OF conjI, OF fit e]
  obtain d' where "apply_update ?d3 ''Magnet'' (update_of ''Magnet'') (PInt 1) ?p = Inr d'"
    and "list_all (\<lambda>rn. related d' ''Magnet'' rn ?a = []) (map r_name (rels_of ''Magnet''))"
    by (elim exE conjE)
  then have after: "\<exists>d'. apply_update ?d3 ''Magnet'' ''MagnetUpdate'' (PInt 1) ?p = Inr d'
       \<and> related d' ''Magnet'' ''msites'' ?a = [] \<and> related d' ''Magnet'' ''mparts'' ?a = []"
    by (auto simp: update_of_def entity_rels)
  have q: "?q ''mparts'' = Some (PList [])"
    by simp
  from main [THEN conjunct2, THEN conjunct2, THEN conjunct2, THEN conjunct2, THEN conjunct1,
      THEN spec [of _ ?q], THEN spec [of _ "PList []"], THEN mp, OF q]
  have bad: "instantiate ''MagnetUpdate'' ?q = Inl (ConfigError ''mparts'')"
    "apply_update ?d3 ''Magnet'' ''MagnetUpdate'' (PInt 1) ?q = Inl (Invalid (ConfigError ''mparts''))"
    by simp_all
  from i1 i2 i3 before after bad show ?thesis
    by (intro conjI)
qed

lemma MPart_field_names:
  "field_names ''MPart'' = [''name'', ''type'', ''be'', ''geom'', ''status'', ''material_id'', ''id'']"
  by code_simp

lemma MPartUpdate_links_frame:
  assumes "replace_all_links d1 ''MPart'' r ob (rels_of ''MPart'') = Inr d'"
  shows "d' ''mpart'' = d1 ''mpart''"
proof (cases "map_of ob ''magnets''")
  case None
  with assms show ?thesis by (simp add: entity_rels)
next
  case (Some v)
  with assms have "insert_links
      (d1(''mpartmagnetlink'' :=
            filter (\<lambda>l. \<not> joins (col l ''mpart_id'') (col r ''id'')) (d1 ''mpartmagnetlink'')))
      ''MPartMagnetLink''
      (map (\<lambda>v. [(''mpart_id'', col r ''id''), (''magnet_id'', col (attrs_of v) ''id'')]) (items_of v))
      = Inr d'"
    by (simp add: entity_rels replace_links_def MPart_join split: sum.splits)
  from insert_links_frame [OF this, of "''mpart''"] show ?thesis
    by (simp add: MPartMagnetLink_class)
qed

text \<open>
  Claim C9. In \<open>MPartUpdate\<close> the field \<open>material_id\<close> is optional with default
  \<open>None\<close> (and no longer a declared foreign key). An Update object built from a payload
  that leaves out \<open>material_id\<close> has \<open>None\<close> there, and applying such a payload to a
  stored part leaves the part stored with a null \<open>material_id\<close>; a fitting payload that
  also leaves \<open>magnets\<close> empty is always applied.
\<close>

theorem update_without_material_id:
  assumes "p ''material_id'' = None"
    and "find (\<lambda>s. joins (col s ''id'') key) (d ''mpart'') = Some r"
  shows "get_field ''MPartUpdate'' ''material_id'' =
           Some \<lparr>f_name = ''material_id'', f_ann = AOptional AInt, f_default = Some PNone,
                  f_pk = False, f_fk = None\<rparr>
       \<and> (\<forall>ob. instantiate ''MPartUpdate'' p = Inr ob \<longrightarrow> map_of ob ''material_id'' = Some PNone)
       \<and> (\<forall>d'. apply_update d ''MPart'' ''MPartUpdate'' key p = Inr d' \<longrightarrow>
             (\<exists>s \<in> set (d' ''mpart''). col s ''id'' = key)
           \<and> (\<forall>s \<in> set (d' ''mpart''). col s ''id'' = key \<longrightarrow> col s ''material_id'' = PNone))
       \<and> (fits ''MPartUpdate'' p \<and> (p ''magnets'' = None \<or> p ''magnets'' = Some (PList [])) \<longrightarrow>
             (\<exists>d'. apply_update d ''MPart'' ''MPartUpdate'' key p = Inr d'))"
proof -
  let ?f = "\<lparr>f_name = ''material_id'', f_ann = AOptional AInt, f_default = Some PNone,
              f_pk = False, f_fk = None\<rparr>"
  let ?upd = "\<lambda>ob s. if joins (col s ''id'') key then write_columns ''MPart'' ob s else s"
  have decl: "get_field ''MPartUpdate'' ''material_id'' = Some ?f"
    by (simp add: get_field_def fields_MPartUpdate)
  have names: "field_names ''MPartUpdate'' =
      [''name'', ''type'', ''be'', ''geom'', ''status'', ''material_id'', ''magnets'']"
    by (simp add: field_names_def fields_MPartUpdate)
  have val: "map_of ob ''material_id'' = Some PNone" if "instantiate ''MPartUpdate'' p = Inr ob" for ob
  proof -
    have b: "bind_nested p ?f = Inr (''material_id'', PNone)"
      using assms(1) by (simp add: bind_nested_omitted bind_default_def)
    show ?thesis
      using that _ b by (rule instantiate_field) (simp_all add: fields_MPartUpdate names)
  qed
  from assms(2) have r: "r \<in> set (d ''mpart'')" and key: "key \<noteq> PNone" "col r ''id'' = key"
    by (auto simp: find_Some_iff joins_def in_set_conv_nth)
  have stored: "(\<exists>s \<in> set (d' ''mpart''). col s ''id'' = key)
           \<and> (\<forall>s \<in> set (d' ''mpart''). col s ''id'' = key \<longrightarrow> col s ''material_id'' = PNone)"
    if "apply_update d ''MPart'' ''MPartUpdate'' key p = Inr d'" for d'
  proof -
    from apply_update_InrD [OF that entity_keys(4)] assms(2)
    obtain ob where inst: "instantiate ''MPartUpdate'' p = Inr ob"
      and rep: "replace_all_links (d(''mpart'' := map (?upd ob) (d ''mpart''))) ''MPart'' r ob
                  (rels_of ''MPart'') = Inr d'"
      by (auto simp: entity_tables)
    have keys: "map fst ob = field_names ''MPartUpdate''"
      using inst by (rule instantiate_keys)
    have rows: "d' ''mpart'' = map (?upd ob) (d ''mpart'')"
      using MPartUpdate_links_frame [OF rep] by simp
    have dist: "distinct (map fst ob)"
      by (simp add: keys names)
    have mat: "col (write_columns ''MPart'' ob s) ''material_id'' = PNone" for s
      by (simp add: col_write_columns MPart_field_names map_of_rev_distinct [OF dist] val [OF inst])
    have idk: "col (write_columns ''MPart'' ob s) ''id'' = col s ''id''" for s
      by (rule col_write_columns_other) (simp add: keys names flip: set_map)
    have "col (?upd ob r) ''id'' = key"
      using key by (simp add: idk joins_def)
    then have ex: "\<exists>s \<in> set (d' ''mpart''). col s ''id'' = key"
      using r unfolding rows by (metis (no_types, lifting) image_eqI list.set_map)
    have all: "\<forall>s \<in> set (d' ''mpart''). col s ''id'' = key \<longrightarrow> col s ''material_id'' = PNone"
      unfolding rows using key by (auto simp: mat idk joins_def)
    from ex all show ?thesis by (rule conjI)
  qed
  have total: "\<exists>d'. apply_update d ''MPart'' ''MPartUpdate'' key p = Inr d'"
    if "fits ''MPartUpdate'' p" and "p ''magnets'' = None \<or> p ''magnets'' = Some (PList [])"
  proof -
    from that(2) have l: "left_empty p ''magnets''"
      by (simp add: left_empty_def)
    show ?thesis
      by (rule entity_update_total(4) [where d = d and r = r, OF that(1) l assms(2)])
  qed
  from decl val stored total show ?thesis by blast
qed

theorem update_without_material_id_witness:
  "find (\<lambda>s. joins (col s ''id'') (PInt 2))
     (((\<lambda>t. [])(''mpart'' :=
        [[(''name'', PStr ''H1''), (''type'', PStr ''helix''), (''be'', PStr ''b''),
          (''geom'', PStr ''g''), (''status'', PStr ''ok''), (''material_id'', PInt 3),
          (''id'', PInt 2)]])) ''mpart'')
   = Some [(''name'', PStr ''H1''), (''type'', PStr ''helix''), (''be'', PStr ''b''),
           (''geom'', PStr ''g''), (''status'', PStr ''ok''), (''material_id'', PInt 3),
           (''id'', PInt 2)]
   \<and> (\<exists>d'. apply_update
         ((\<lambda>t. [])(''mpart'' :=
            [[(''name'', PStr ''H1''), (''type'', PStr ''helix''), (''be'', PStr ''b''),
              (''geom'', PStr ''g''), (''status'', PStr ''ok''), (''material_id'', PInt 3),
              (''id'', PInt 2)]]))
         ''MPart'' ''MPartUpdate'' (PInt 2)
         (map_of [(''name'', PStr ''H1''), (''type'', PStr ''helix''), (''be'', PStr ''b''),
                  (''geom'', PStr ''g''), (''status'', PStr ''tested'')]) = Inr d'
      \<and> (\<exists>s \<in> set (d' ''mpart''). col s ''id'' = PInt 2 \<and> col s ''material_id'' = PNone))"
proof -
  let ?h = "[(''name'', PStr ''H1''), (''type'', PStr ''helix''), (''be'', PStr ''b''),
             (''geom'', PStr ''g''), (''status'', PStr ''ok''), (''material_id'', PInt 3),
             (''id'', PInt 2)]"
  let ?d = "(\<lambda>t. [])(''mpart'' := [?h])"
  let ?p = "map_of [(''name'', PStr ''H1''), (''type'', PStr ''helix''), (''be'', PStr ''b''),
                    (''geom'', PStr ''g''), (''status'', PStr ''tested'')]"
  have f: "find (\<lambda>s. joins (col s ''id'') (PInt 2)) (?d ''mpart'') = Some ?h"
    by (simp add: joins_def col_def)
  have n: "?p ''material_id'' = None" "?p ''magnets'' = None"
    by simp_all
  have fit: "fits ''MPartUpdate'' ?p"
    by (simp add: fits_def fields_MPartUpdate field_ok_def)
  from update_without_material_id [where d = ?d and r = ?h and p = ?p and key = "PInt 2", OF n(1) f] fit n(2)
  have "\<exists>d'. apply_update ?d ''MPart'' ''MPartUpdate'' (PInt 2) ?p = Inr d'
      \<and> (\<exists>s \<in> set (d' ''mpart''). col s ''id'' = PInt 2 \<and> col s ''material_id'' = PNone)"
    by blast
  with f show ?thesis by (intro conjI)
qed

section \<open>The schema as a whole\<close>

text \<open>
  The module has seven table classes. Every foreign key declared in the module names
  the single primary-key column of the table of one of them, and every relationship is
  paired with the relationship its \<open>back_populates\<close> names: that one belongs to the
  target class, names this one in turn and goes through the same link model.
\<close>

theorem schema_well_formed:
  "table_classes =
     [''MRecord'', ''MPart'', ''Magnet'', ''MSite'', ''MagnetMSiteLink'', ''MPartMagnetLink'',
      ''Material'']
   \<and> list_all (\<lambda>c. list_all (\<lambda>f. case f_fk f of None \<Rightarrow> True | Some s \<Rightarrow> fk_resolves s)
                  (fields_of c))
       (map fst schema)
   \<and> list_all (\<lambda>c. list_all (paired c) (rels_of c)) (map fst schema)
   \<and> concat (map (\<lambda>c. map (\<lambda>rel. (c, r_name rel)) (rels_of c)) (map fst schema)) =
       [(''MPart'', ''magnets''), (''Magnet'', ''msites''), (''Magnet'', ''mparts''),
        (''MSite'', ''magnets'')]"
  by code_simp

end
